theory Spec2Isabelle
  imports Complex_Main
begin

section \<open>Time and rows of the store\<close>

text \<open>
  An instant is the number of milliseconds since the epoch, the resolution of a JavaScript
  \<open>Date\<close>. A row holds the instant of its column \<open>appointment_time\<close>: the store returns
  it as an ISO-8601 string that \<open>new Date(...)\<close> and Luxon read back exactly. The time of
  a request is kept as the string the client sent: the handlers read it with
  \<open>new Date(...)\<close>, cut its first ten characters for the day window, and hand it to the
  store as it is (see the environment below). Numbers that are not integers are outside
  the model.
\<close>

type_synonym instant = int

definition MS_PER_MINUTE :: int where
  "MS_PER_MINUTE = 60000"

definition MS_PER_DAY :: int where
  "MS_PER_DAY = 86400000"

definition getUTCHours :: "instant \<Rightarrow> int" where
  "getUTCHours t = (t div 3600000) mod 24"

definition getUTCMinutes :: "instant \<Rightarrow> int" where
  "getUTCMinutes t = (t div 60000) mod 60"

text \<open>
  A row of the table \<open>appointments\<close>. \<open>slot_minutes\<close> is null when the handler computed
  it from an Invalid Date: the \<open>NaN\<close> is sent as null.
\<close>

record appointment =
  appt_id :: nat
  business_id :: nat
  customer_id :: nat
  appointment_time :: instant
  slot_minutes :: "int option"
  duration_minutes :: int
  status :: string
  combo_id :: "nat option"
  service :: "string option"
  archived_at :: "instant option"

section \<open>Slot grid\<close>

definition SLOT_SIZE_MINUTES :: int where
  "SLOT_SIZE_MINUTES = 15"

text \<open>
  \<open>Math.floor(a / b)\<close> and \<open>Math.ceil(a / b)\<close> on integers with \<open>b > 0\<close>; the lemmas
  \<open>js_floor_div_real\<close> and \<open>js_ceil_div_real\<close> below relate them to the floor and the
  ceiling of the real quotient.
\<close>

definition js_floor_div :: "int \<Rightarrow> int \<Rightarrow> int" where
  "js_floor_div a b = a div b"

definition js_ceil_div :: "int \<Rightarrow> int \<Rightarrow> int" where
  "js_ceil_div a b = - ((- a) div b)"

definition minutesToSlotIndex :: "int \<Rightarrow> int" where
  "minutesToSlotIndex minutes = js_floor_div minutes SLOT_SIZE_MINUTES"

text \<open>
  \<open>Array.from({ length: slotCount }, (_, i) => startSlot + i)\<close>: a length that is not
  positive gives the empty array.
\<close>

definition getSlotRange :: "int \<Rightarrow> int \<Rightarrow> int list" where
  "getSlotRange startMinutes durationMinutes =
     (let startSlot = minutesToSlotIndex startMinutes;
          slotCount = js_ceil_div durationMinutes SLOT_SIZE_MINUTES
      in map (\<lambda>i. startSlot + int i) [0..<nat slotCount])"

text \<open>
  The object \<open>slotLoad\<close>, keyed by slot index; \<open>slotLoad[slot] || 0\<close> reads a missing
  key as 0.
\<close>

type_synonym slot_load = "int \<rightharpoonup> int"

definition loadOf :: "slot_load \<Rightarrow> int \<Rightarrow> int" where
  "loadOf slotLoad slot = (case slotLoad slot of None \<Rightarrow> 0 | Some n \<Rightarrow> n)"

text \<open>The inner loop of \<open>buildSlotLoadMap\<close>: \<open>slotLoad[slot] = (slotLoad[slot] || 0) + 1\<close>.\<close>

fun bumpSlots :: "slot_load \<Rightarrow> int list \<Rightarrow> slot_load" where
  "bumpSlots slotLoad [] = slotLoad"
| "bumpSlots slotLoad (slot # slots) =
     bumpSlots (slotLoad(slot \<mapsto> loadOf slotLoad slot + 1)) slots"

definition startMinutesOf :: "instant \<Rightarrow> int" where
  "startMinutesOf t = getUTCHours t * 60 + getUTCMinutes t"

definition slotsOfAppointment :: "appointment \<Rightarrow> int list" where
  "slotsOfAppointment appt =
     getSlotRange (startMinutesOf (appointment_time appt)) (duration_minutes appt)"

text \<open>The outer loop of \<open>buildSlotLoadMap\<close>, from the load built so far.\<close>

fun buildSlotLoadFrom :: "slot_load \<Rightarrow> appointment list \<Rightarrow> slot_load" where
  "buildSlotLoadFrom slotLoad [] = slotLoad"
| "buildSlotLoadFrom slotLoad (appt # appointments) =
     buildSlotLoadFrom (bumpSlots slotLoad (slotsOfAppointment appt)) appointments"

definition buildSlotLoadMap :: "appointment list \<Rightarrow> slot_load" where
  "buildSlotLoadMap appointments = buildSlotLoadFrom Map.empty appointments"

text \<open>
  Slot \<open>k\<close> is the minutes \<open>[15 k, 15 k + 15)\<close> of the day; an appointment that starts at
  minute \<open>s\<close> and lasts \<open>d\<close> minutes takes the minutes \<open>[s, s + d)\<close>. The two overlap when
  they share a minute.
\<close>

definition overlapsSlot :: "int \<Rightarrow> int \<Rightarrow> int \<Rightarrow> bool" where
  "overlapsSlot s d k =
     (max s (SLOT_SIZE_MINUTES * k) < min (s + d) (SLOT_SIZE_MINUTES * k + SLOT_SIZE_MINUTES))"

section \<open>Capacity\<close>

text \<open>
  The capacity loop of \<open>POST /appointments\<close> (and of the reschedule handler):
  \<open>for (let i = 0; i < requiredSlots; i++)\<close>, returning 409 at the first slot whose load
  has reached \<open>maxPerSlot\<close>. The result is \<open>True\<close> when the loop runs to its end.
\<close>

function capacityLoop :: "slot_load \<Rightarrow> int \<Rightarrow> int \<Rightarrow> int \<Rightarrow> int \<Rightarrow> bool" where
  "capacityLoop slotLoad startSlotIndex requiredSlots maxPerSlot i =
     (if i < requiredSlots then
        (if loadOf slotLoad (startSlotIndex + i) \<ge> maxPerSlot then False
         else capacityLoop slotLoad startSlotIndex requiredSlots maxPerSlot (i + 1))
      else True)"
  by pat_completeness auto
termination
  by (relation "measure (\<lambda>(slotLoad, startSlotIndex, requiredSlots, maxPerSlot, i).
        nat (requiredSlots - i))") auto

declare capacityLoop.simps [simp del]

definition capacityCheck :: "slot_load \<Rightarrow> int \<Rightarrow> int \<Rightarrow> int \<Rightarrow> bool" where
  "capacityCheck slotLoad slot_mins totalDurationMinutes maxPerSlot =
     (let startSlotIndex = js_floor_div slot_mins SLOT_SIZE_MINUTES;
          requiredSlots = js_ceil_div totalDurationMinutes SLOT_SIZE_MINUTES
      in capacityLoop slotLoad startSlotIndex requiredSlots maxPerSlot 0)"

text \<open>
  The availability loop of \<open>GET /appointments/availability\<close>:
  \<open>requiredSlots.every(slot => (slotLoad[slot] || 0) < maxPerSlot)\<close> for every start on
  the 15-minute grid with \<open>startMinutes + durationMinutes <= 24 * 60\<close>.
\<close>

definition isAvailable :: "slot_load \<Rightarrow> int \<Rightarrow> int \<Rightarrow> int \<Rightarrow> bool" where
  "isAvailable slotLoad startMinutes durationMinutes maxPerSlot =
     list_all (\<lambda>slot. loadOf slotLoad slot < maxPerSlot)
       (getSlotRange startMinutes durationMinutes)"

function availabilityLoop ::
  "slot_load \<Rightarrow> int \<Rightarrow> int \<Rightarrow> int \<Rightarrow> (int \<rightharpoonup> bool) \<Rightarrow> (int \<rightharpoonup> bool)" where
  "availabilityLoop slotLoad durationMinutes maxPerSlot startMinutes availability =
     (if startMinutes + durationMinutes \<le> 24 * 60 then
        availabilityLoop slotLoad durationMinutes maxPerSlot (startMinutes + SLOT_SIZE_MINUTES)
          (availability(startMinutes \<mapsto>
             isAvailable slotLoad startMinutes durationMinutes maxPerSlot))
      else availability)"
  by pat_completeness auto
termination
  by (relation "measure (\<lambda>(slotLoad, durationMinutes, maxPerSlot, startMinutes, availability).
        nat (24 * 60 + 1 - (startMinutes + durationMinutes)))")
     (auto simp: SLOT_SIZE_MINUTES_def)

declare availabilityLoop.simps [simp del]

definition dailyAvailability :: "slot_load \<Rightarrow> int \<Rightarrow> int \<Rightarrow> (int \<rightharpoonup> bool)" where
  "dailyAvailability slotLoad durationMinutes maxPerSlot =
     availabilityLoop slotLoad durationMinutes maxPerSlot 0 Map.empty"

section \<open>The store and its collaborators\<close>

text \<open>
  The rows of the other tables the handlers read and write. A column the schema lets be
  null is an \<open>option\<close>.
\<close>

record appointment_settings =
  reminder_24h :: "bool option"
  reminder_2h :: "bool option"
  no_show_grace_minutes :: "int option"
  max_appointments_per_slot :: "int option"

record business =
  biz_id :: nat
  timezone :: "string option"
  settings :: "appointment_settings option"

record customer =
  cust_id :: nat
  cust_business_id :: nat
  phone :: string
  cust_name :: "string option"

record appointment_service =
  as_appointment_id :: nat
  as_service_id :: nat
  as_duration_minutes :: "int option"

record automation_rule =
  rule_id :: nat
  rule_business_id :: nat
  rule_type :: string
  offset_minutes :: int
  message_template :: string
  enabled :: bool

record automation_log =
  log_appointment_id :: nat
  log_rule_id :: nat

record message =
  msg_id :: nat
  msg_customer_id :: nat
  direction :: string
  content :: string
  msg_status :: string
  retry_count :: int
  msg_error :: "string option"
  message_type :: "string option"

text \<open>
  The world a handler or a scan runs in: the tables of the store, the calls made to the
  messaging gateway so far (destination, text, status returned), and the clock that
  \<open>DateTime.now()\<close> reads.
\<close>

record world =
  businesses :: "business list"
  customers :: "customer list"
  appointments :: "appointment list"
  appointment_services :: "appointment_service list"
  automation_rules :: "automation_rule list"
  automation_logs :: "automation_log list"
  messages :: "message list"
  outbox :: "(string \<times> string \<times> string) list"
  clock :: instant

text \<open>
  What the gateway does with the n-th call: the HTTP call throws, or it answers with or
  without a status field.
\<close>

datatype gateway_result = Threw | Responded "string option"

text \<open>
  The environment of the code: the gateway; the two readers of a time string,
  \<open>new Date(s)\<close> in the handler (\<open>None\<close> for an Invalid Date) and the store for a value
  of the column \<open>appointment_time\<close>, of type timestamptz (the message of its error when it
  refuses the string); and the library functions that build the text of a message (Luxon's
  formatting, template literals with characters outside ASCII,
  \<open>String.prototype.replace\<close>). No claim depends on the texts.
\<close>

record env =
  gateway :: "nat \<Rightarrow> gateway_result"
  newDate :: "string \<Rightarrow> instant option"
  timestamptz :: "string \<Rightarrow> string + instant"
  formatAppointmentTime :: "instant \<Rightarrow> string \<Rightarrow> string"
  confirmationText :: "nat \<Rightarrow> string \<Rightarrow> string"
  rescheduleText :: "string \<Rightarrow> string"
  reminderLocalTime :: "instant \<Rightarrow> string \<Rightarrow> string"
  replace :: "string \<Rightarrow> string \<Rightarrow> string \<Rightarrow> string"

text \<open>The store gives a new row an id that no row of the table has.\<close>

definition freshId :: "nat list \<Rightarrow> nat" where
  "freshId ids = Suc (foldr max ids 0)"

text \<open>
  \<open>.single()\<close> gives the row when exactly one matches and an error otherwise;
  \<open>.maybeSingle()\<close> gives null for no row, the row for one, and an error (data null) for
  more.
\<close>

definition single :: "'a list \<Rightarrow> 'a option" where
  "single rows = (case rows of [r] \<Rightarrow> Some r | _ \<Rightarrow> None)"

text \<open>What a handler sends back: the HTTP status and the body.\<close>

datatype body = ErrorBody string | AppointmentBody appointment

datatype reply = Reply nat body

text \<open>
  \<open>sendWhatsAppMessage\<close>: the whole body is inside \<open>try\<close>, so it never throws; it returns
  \<open>response.data?.status || 'submitted'\<close>, or \<open>'failed'\<close> when the call threw.
\<close>

definition sendWhatsAppMessage :: "env \<Rightarrow> string \<Rightarrow> string \<Rightarrow> world \<Rightarrow> string \<times> world" where
  "sendWhatsAppMessage e to_phone text w =
     (let st = (case gateway e (length (outbox w)) of
                  Threw \<Rightarrow> ''failed''
                | Responded None \<Rightarrow> ''submitted''
                | Responded (Some s) \<Rightarrow> (if s = [] then ''submitted'' else s))
      in (st, w\<lparr>outbox := outbox w @ [(to_phone, text, st)]\<rparr>))"

text \<open>
  \<open>sendAndLogSystemMessage\<close>: the row is written as \<open>sent\<close> before the send, the send is
  attempted also when the insert failed, and the status the gateway returns is dropped.
  \<open>retry_count\<close> takes the column's default.
\<close>

definition sendAndLogSystemMessage ::
  "env \<Rightarrow> bool \<Rightarrow> nat \<Rightarrow> string \<Rightarrow> string \<Rightarrow> world \<Rightarrow> world" where
  "sendAndLogSystemMessage e insert_err customerId to_phone text w =
     (let w1 = (if insert_err then w
                else w\<lparr>messages := messages w @
                  [\<lparr>msg_id = freshId (map msg_id (messages w)), msg_customer_id = customerId,
                    direction = ''out'', content = text, msg_status = ''sent'',
                    retry_count = 0, msg_error = None, message_type = Some ''system''\<rparr>]\<rparr>)
      in snd (sendWhatsAppMessage e to_phone text w1))"

section \<open>Booking: POST /appointments\<close>

record service_item =
  item_service_id :: nat
  item_duration_minutes :: "int option"

text \<open>
  The body of the request; a field that is absent is \<open>None\<close>. \<open>appointment_utc_time\<close>
  is the string of the body.
\<close>

record booking_request =
  req_phone :: "string option"
  req_name :: "string option"
  req_services :: "service_item list option"
  req_appointment_utc_time :: "string option"
  req_combo_id :: "nat option"

text \<open>
  The calls to the store that the handler makes, in the order of the source, each with what
  the store answers: an error (with its message where the handler sends it back), or not.
  A call whose result the handler drops has a flag only.
\<close>

record booking_faults =
  customer_select_err :: bool
  customer_insert_err :: "string option"
  customer_update_err :: bool
  business_select_err :: "string option"
  appointments_select_err :: "string option"
  appointment_insert_err :: "string option"
  services_insert_err :: "string option"
  rollback_delete_err :: bool
  message_insert_err :: bool

definition truthy :: "string option \<Rightarrow> bool" where
  "truthy s = (case s of None \<Rightarrow> False | Some x \<Rightarrow> x \<noteq> [])"

text \<open>The message of the error \<open>.single()\<close> gives when the rows are not exactly one.\<close>

definition NO_SINGLE_ROW :: string where
  "NO_SINGLE_ROW = ''JSON object requested, multiple (or no) rows returned''"

text \<open>\<open>services.reduce((sum, s) => sum + Number(s.duration_minutes || 0), 0)\<close>\<close>

definition totalDuration :: "service_item list \<Rightarrow> int" where
  "totalDuration services =
     foldl (\<lambda>sum s. sum + (case item_duration_minutes s of None \<Rightarrow> 0 | Some d \<Rightarrow> d)) 0 services"

text \<open>
  \<open>appointment_utc_time.slice(0, 10) + 'T00:00:00Z'\<close> and \<open>... + 'T23:59:59Z'\<close>: the two
  ends of the day window, built from the first ten characters of the string of the request.
\<close>

definition dayStart :: "string \<Rightarrow> string" where
  "dayStart appointment_utc_time = take 10 appointment_utc_time @ ''T00:00:00Z''"

definition dayEnd :: "string \<Rightarrow> string" where
  "dayEnd appointment_utc_time = take 10 appointment_utc_time @ ''T23:59:59Z''"

text \<open>
  The read of the appointments of the day:
  \<open>.eq('business_id', businessId).eq('status', 'scheduled')\<close>
  \<open>.gte('appointment_time', dayStart).lte('appointment_time', dayEnd)\<close>, without the row
  \<open>excluded\<close> when the reschedule handler asks. The store compares the instant of each row
  with the instants it reads from the two strings; it answers with an error when the call
  fails (\<open>err\<close>) or when it cannot read one of the strings.
\<close>

definition fetchDayAppointments ::
  "env \<Rightarrow> string option \<Rightarrow> nat \<Rightarrow> string \<Rightarrow> nat option \<Rightarrow> world \<Rightarrow> string + appointment list" where
  "fetchDayAppointments e err businessId appointment_utc_time excluded w =
     (case err of
        Some msg \<Rightarrow> Inl msg
      | None \<Rightarrow>
          (case timestamptz e (dayStart appointment_utc_time) of
             Inl msg \<Rightarrow> Inl msg
           | Inr lo \<Rightarrow>
               (case timestamptz e (dayEnd appointment_utc_time) of
                  Inl msg \<Rightarrow> Inl msg
                | Inr hi \<Rightarrow>
                    Inr (filter (\<lambda>a. business_id a = businessId \<and> status a = ''scheduled''
                                     \<and> (case excluded of None \<Rightarrow> True
                                         | Some x \<Rightarrow> appt_id a \<noteq> x)
                                     \<and> lo \<le> appointment_time a \<and> appointment_time a \<le> hi)
                           (appointments w)))))"

text \<open>
  Step 2 of the handlers:
  \<open>slot_minutes = appointmentDate.getUTCHours() * 60 + appointmentDate.getUTCMinutes()\<close>,
  which is \<open>NaN\<close> (here \<open>None\<close>) for an Invalid Date.
\<close>

definition slotMinutesOf :: "env \<Rightarrow> string \<Rightarrow> int option" where
  "slotMinutesOf e appointment_utc_time =
     (case newDate e appointment_utc_time of
        None \<Rightarrow> None
      | Some appointmentDate \<Rightarrow> Some (startMinutesOf appointmentDate))"

text \<open>
  The capacity loop at the start minute of the request. When \<open>slot_minutes\<close> is \<open>NaN\<close>
  every \<open>slotIndex\<close> is \<open>NaN\<close>, a key that \<open>slotLoad\<close> does not have, so every load reads
  0 and the loop answers 409 only when \<open>maxPerSlot\<close> is not positive.
\<close>

definition capacityAt :: "slot_load \<Rightarrow> int option \<Rightarrow> int \<Rightarrow> int \<Rightarrow> bool" where
  "capacityAt slotLoad slot_mins totalDurationMinutes maxPerSlot =
     (case slot_mins of
        Some m \<Rightarrow> capacityCheck slotLoad m totalDurationMinutes maxPerSlot
      | None \<Rightarrow> capacityCheck Map.empty 0 totalDurationMinutes maxPerSlot)"

definition fetchBusiness :: "string option \<Rightarrow> nat \<Rightarrow> world \<Rightarrow> string + business" where
  "fetchBusiness err businessId w =
     (case err of
        Some msg \<Rightarrow> Inl msg
      | None \<Rightarrow>
          (case single (filter (\<lambda>b. biz_id b = businessId) (businesses w)) of
             None \<Rightarrow> Inl NO_SINGLE_ROW
           | Some b \<Rightarrow> Inr b))"

text \<open>\<open>business?.appointment_settings?.max_appointments_per_slot ?? 1\<close>\<close>

definition maxPerSlotOf :: "business option \<Rightarrow> int" where
  "maxPerSlotOf b =
     (case b of
        None \<Rightarrow> 1
      | Some biz \<Rightarrow>
          (case settings biz of
             None \<Rightarrow> 1
           | Some st \<Rightarrow> (case max_appointments_per_slot st of None \<Rightarrow> 1 | Some m \<Rightarrow> m)))"

text \<open>
  Step 1 of the handler: the customer of (business, phone) is read with \<open>.single()\<close>; when
  there is none (or the read failed) one is inserted, and a customer without a name gets the
  name of the request.
\<close>

definition findOrCreateCustomer ::
  "booking_faults \<Rightarrow> nat \<Rightarrow> string \<Rightarrow> string option \<Rightarrow> world \<Rightarrow> string + (customer \<times> world)" where
  "findOrCreateCustomer f businessId ph nm w =
     (case (if customer_select_err f then None
            else single (filter (\<lambda>c. cust_business_id c = businessId \<and> phone c = ph)
                           (customers w))) of
        None \<Rightarrow>
          (case customer_insert_err f of
             Some msg \<Rightarrow> Inl msg
           | None \<Rightarrow>
               (let created = \<lparr>cust_id = freshId (map cust_id (customers w)),
                               cust_business_id = businessId, phone = ph,
                               cust_name = (if truthy nm then nm else None)\<rparr>
                in Inr (created, w\<lparr>customers := customers w @ [created]\<rparr>)))
      | Some c \<Rightarrow>
          (if \<not> truthy (cust_name c) \<and> truthy nm \<and> \<not> customer_update_err f then
             Inr (c, w\<lparr>customers :=
                        map (\<lambda>x. if cust_id x = cust_id c then x\<lparr>cust_name := nm\<rparr> else x)
                          (customers w)\<rparr>)
           else Inr (c, w)))"

text \<open>\<open>x || d\<close> on a string that may be null: null and the empty string give \<open>d\<close>.\<close>

definition orDefault :: "string option \<Rightarrow> string \<Rightarrow> string" where
  "orDefault x d = (case x of None \<Rightarrow> d | Some z \<Rightarrow> (if z = [] then d else z))"

text \<open>\<open>business.timezone || 'UTC'\<close>\<close>

definition tzOrUTC :: "string option \<Rightarrow> string" where
  "tzOrUTC tz = orDefault tz ''UTC''"

text \<open>
  Step 5: the appointment row is inserted, then its line items; when the line items fail
  the appointment row is deleted again and the handler answers 500. \<open>t\<close> is the instant
  the store has read from \<open>appointment_utc_time\<close> for the column \<open>appointment_time\<close>, and
  \<open>slot_mins\<close> the \<open>slot_minutes\<close> of step 2.
\<close>

definition persistAppointment ::
  "env \<Rightarrow> booking_faults \<Rightarrow> nat \<Rightarrow> business \<Rightarrow> customer \<Rightarrow> service_item list \<Rightarrow> int \<Rightarrow>
   instant \<Rightarrow> int option \<Rightarrow> nat option \<Rightarrow> world \<Rightarrow> reply \<times> world" where
  "persistAppointment e f businessId biz cust services totalDurationMinutes t slot_mins combo w =
     (case appointment_insert_err f of
        Some msg \<Rightarrow> (Reply 500 (ErrorBody msg), w)
      | None \<Rightarrow>
          (let appt = \<lparr>appt_id = freshId (map appt_id (appointments w)),
                       business_id = businessId, customer_id = cust_id cust,
                       appointment_time = t, slot_minutes = slot_mins,
                       duration_minutes = totalDurationMinutes, status = ''scheduled'',
                       combo_id = combo, service = None, archived_at = None\<rparr>;
               w2 = w\<lparr>appointments := appointments w @ [appt]\<rparr>
           in case services_insert_err f of
                Some msg \<Rightarrow>
                  (Reply 500 (ErrorBody msg),
                   if rollback_delete_err f then w2
                   else w2\<lparr>appointments :=
                           filter (\<lambda>a. appt_id a \<noteq> appt_id appt) (appointments w2)\<rparr>)
              | None \<Rightarrow>
                  (let w3 = w2\<lparr>appointment_services := appointment_services w2 @
                              map (\<lambda>s. \<lparr>as_appointment_id = appt_id appt,
                                         as_service_id = item_service_id s,
                                         as_duration_minutes = item_duration_minutes s\<rparr>)
                                services\<rparr>;
                       formattedTime = formatAppointmentTime e (appointment_time appt)
                         (tzOrUTC (timezone biz));
                       text = confirmationText e (length services) formattedTime
                   in (Reply 200 (AppointmentBody appt),
                       sendAndLogSystemMessage e (message_insert_err f) (cust_id cust)
                         (phone cust) text w3))))"

text \<open>
  Steps 2 to 5: the start minute, the settings, the load of the day, the capacity loop, and
  the insert, which the store refuses when it cannot read \<open>appointment_utc_time\<close>.
\<close>

definition bookForCustomer ::
  "env \<Rightarrow> booking_faults \<Rightarrow> nat \<Rightarrow> customer \<Rightarrow> service_item list \<Rightarrow> int \<Rightarrow>
   string \<Rightarrow> nat option \<Rightarrow> world \<Rightarrow> reply \<times> world" where
  "bookForCustomer e f businessId cust services totalDurationMinutes appointment_utc_time combo w =
     (let slot_mins = slotMinutesOf e appointment_utc_time
      in case fetchBusiness (business_select_err f) businessId w of
           Inl msg \<Rightarrow> (Reply 500 (ErrorBody msg), w)
         | Inr biz \<Rightarrow>
             (case fetchDayAppointments e (appointments_select_err f) businessId
                     appointment_utc_time None w of
                Inl msg \<Rightarrow> (Reply 500 (ErrorBody msg), w)
              | Inr existingAppointments \<Rightarrow>
                  (let slotLoad = buildSlotLoadMap existingAppointments
                   in if \<not> capacityAt slotLoad slot_mins totalDurationMinutes
                             (maxPerSlotOf (Some biz))
                      then (Reply 409 (ErrorBody ''Selected time slot is fully booked''), w)
                      else
                        (case timestamptz e appointment_utc_time of
                           Inl msg \<Rightarrow> (Reply 500 (ErrorBody msg), w)
                         | Inr t \<Rightarrow>
                             persistAppointment e f businessId biz cust services
                               totalDurationMinutes t slot_mins combo w))))"

text \<open>
  The handler: \<open>!phone || !appointment_utc_time || !Array.isArray(services) ||\<close>
  \<open>services.length === 0\<close> answers 400, for an absent field and for an empty string.
\<close>

definition createAppointment ::
  "env \<Rightarrow> booking_faults \<Rightarrow> nat \<Rightarrow> booking_request \<Rightarrow> world \<Rightarrow> reply \<times> world" where
  "createAppointment e f businessId req w =
     (case (req_phone req, req_appointment_utc_time req, req_services req) of
        (Some ph, Some appointment_utc_time, Some services) \<Rightarrow>
          (if ph = [] \<or> appointment_utc_time = [] \<or> services = [] then
             (Reply 400 (ErrorBody ''Invalid appointment payload''), w)
           else if totalDuration services \<le> 0 then
             (Reply 400 (ErrorBody ''Invalid service durations''), w)
           else
             (case findOrCreateCustomer f businessId ph (req_name req) w of
                Inl msg \<Rightarrow> (Reply 500 (ErrorBody msg), w)
              | Inr (cust, w1) \<Rightarrow>
                  bookForCustomer e f businessId cust services (totalDuration services)
                    appointment_utc_time (req_combo_id req) w1))
      | _ \<Rightarrow> (Reply 400 (ErrorBody ''Invalid appointment payload''), w))"

text \<open>Requests served one after the other, each with its own answers of the store.\<close>

fun createAppointments ::
  "env \<Rightarrow> nat \<Rightarrow> (booking_faults \<times> booking_request) list \<Rightarrow> world \<Rightarrow> reply list \<times> world" where
  "createAppointments e businessId [] w = ([], w)"
| "createAppointments e businessId ((f, req) # rest) w =
     (let (r, w1) = createAppointment e f businessId req w;
          (rs, w2) = createAppointments e businessId rest w1
      in (r # rs, w2))"

section \<open>Rescheduling: PATCH /appointments/:id/reschedule-slot\<close>

record reschedule_faults =
  rs_appointment_select_err :: bool
  rs_services_select_err :: bool
  rs_business_select_err :: bool
  rs_appointments_select_err :: "string option"
  rs_update_err :: "string option"
  rs_message_insert_err :: bool
  rs_logs_delete_err :: bool

text \<open>\<open>services.reduce((sum, s) => sum + s.duration_minutes, 0)\<close>; a null adds 0.\<close>

definition storedDuration :: "appointment_service list \<Rightarrow> int" where
  "storedDuration services =
     foldl (\<lambda>sum s. sum + (case as_duration_minutes s of None \<Rightarrow> 0 | Some d \<Rightarrow> d)) 0 services"

text \<open>
  An update by id with \<open>.select(...).single()\<close>: the store changes the rows with that id
  and returns the row; when the rows are not exactly one it answers with an error and
  changes nothing.
\<close>

definition updateAppointmentById ::
  "string option \<Rightarrow> nat \<Rightarrow> (appointment \<Rightarrow> appointment) \<Rightarrow> world \<Rightarrow> string + (appointment \<times> world)" where
  "updateAppointmentById err appointmentId upd w =
     (case err of
        Some msg \<Rightarrow> Inl msg
      | None \<Rightarrow>
          (case single (filter (\<lambda>a. appt_id a = appointmentId) (appointments w)) of
             None \<Rightarrow> Inl NO_SINGLE_ROW
           | Some a \<Rightarrow>
               Inr (upd a,
                    w\<lparr>appointments :=
                        map (\<lambda>x. if appt_id x = appointmentId then upd x else x)
                          (appointments w)\<rparr>)))"

text \<open>
  Steps 6 to 8: the update (time, start minute, duration, status), the message to the
  customer, the deletion of the automation logs of the appointment. \<open>t\<close> is the instant the
  store has read from \<open>appointment_utc_time\<close>. \<open>biz.timezone\<close> and
  \<open>updated.customers.phone\<close> throw when the business or the customer was not read; the
  \<open>catch\<close> of the handler answers 500 then, after the update. The handler awaits the
  deletion of the logs and does not read its result.
\<close>

definition applyReschedule ::
  "env \<Rightarrow> reschedule_faults \<Rightarrow> nat \<Rightarrow> business option \<Rightarrow> int \<Rightarrow> instant \<Rightarrow> int option \<Rightarrow>
   world \<Rightarrow> reply \<times> world" where
  "applyReschedule e f appointmentId biz totalDurationMinutes t slot_mins w =
     (case updateAppointmentById (rs_update_err f) appointmentId
             (\<lambda>a. a\<lparr>appointment_time := t, slot_minutes := slot_mins,
                     duration_minutes := totalDurationMinutes, status := ''scheduled''\<rparr>) w of
        Inl msg \<Rightarrow> (Reply 500 (ErrorBody msg), w)
      | Inr (updated, w1) \<Rightarrow>
          (case (biz, single (filter (\<lambda>c. cust_id c = customer_id updated) (customers w1))) of
             (Some b, Some c) \<Rightarrow>
               (let formattedTime = formatAppointmentTime e (appointment_time updated)
                      (tzOrUTC (timezone b));
                    text = rescheduleText e formattedTime;
                    w2 = sendAndLogSystemMessage e (rs_message_insert_err f)
                           (customer_id updated) (phone c) text w1;
                    w3 = (if rs_logs_delete_err f then w2
                          else w2\<lparr>automation_logs :=
                                  filter (\<lambda>l. log_appointment_id l \<noteq> appointmentId)
                                    (automation_logs w2)\<rparr>)
                in (Reply 200 (AppointmentBody updated), w3))
           | _ \<Rightarrow> (Reply 500 (ErrorBody ''Internal server error''), w1)))"

text \<open>
  The handler; \<open>time\<close> is the field \<open>appointment_utc_time\<close> of the body, and
  \<open>!appointment_utc_time\<close> answers 400 for an absent field and for an empty string.
\<close>

definition rescheduleSlot ::
  "env \<Rightarrow> reschedule_faults \<Rightarrow> nat \<Rightarrow> nat \<Rightarrow> string option \<Rightarrow> world \<Rightarrow> reply \<times> world" where
  "rescheduleSlot e f businessId appointmentId time w =
     (case (case time of None \<Rightarrow> None | Some s \<Rightarrow> (if s = [] then None else Some s)) of
        None \<Rightarrow> (Reply 400 (ErrorBody ''appointment_utc_time is required''), w)
      | Some appointment_utc_time \<Rightarrow>
          (case (if rs_appointment_select_err f then None
                 else single (filter (\<lambda>a. appt_id a = appointmentId \<and> business_id a = businessId)
                                (appointments w))) of
             None \<Rightarrow> (Reply 404 (ErrorBody ''Appointment not found''), w)
           | Some appointment \<Rightarrow>
               (let services = (if rs_services_select_err f then []
                                else filter (\<lambda>s. as_appointment_id s = appointmentId)
                                       (appointment_services w))
                in if services = [] then
                     (Reply 400 (ErrorBody ''Appointment services missing. Cannot reschedule.''), w)
                   else
                     (let totalDurationMinutes = storedDuration services;
                          slot_mins = slotMinutesOf e appointment_utc_time;
                          biz = (if rs_business_select_err f then None
                                 else single (filter (\<lambda>b. biz_id b = businessId) (businesses w)))
                      in case fetchDayAppointments e (rs_appointments_select_err f) businessId
                                appointment_utc_time (Some appointmentId) w of
                           Inl msg \<Rightarrow> (Reply 500 (ErrorBody msg), w)
                         | Inr existingAppointments \<Rightarrow>
                             (let slotLoad = buildSlotLoadMap existingAppointments
                              in if \<not> capacityAt slotLoad slot_mins
                                        totalDurationMinutes (maxPerSlotOf biz)
                                 then (Reply 409
                                        (ErrorBody ''Selected time slot is fully booked''), w)
                                 else
                                   (case timestamptz e appointment_utc_time of
                                      Inl msg \<Rightarrow> (Reply 500 (ErrorBody msg), w)
                                    | Inr t \<Rightarrow>
                                        applyReschedule e f appointmentId biz
                                          totalDurationMinutes t slot_mins w))))))"

section \<open>Explicit status update: PATCH /appointments/:id/status\<close>

record status_faults =
  st_select_err :: bool
  st_update_err :: "string option"

definition allowedStatuses :: "string list" where
  "allowedStatuses = [''completed'', ''no_show'', ''cancelled'']"

definition updateStatus ::
  "status_faults \<Rightarrow> nat \<Rightarrow> nat \<Rightarrow> string option \<Rightarrow> world \<Rightarrow> reply \<times> world" where
  "updateStatus f businessId appointmentId target w =
     (case (case target of None \<Rightarrow> None
            | Some s \<Rightarrow> (if s \<in> set allowedStatuses then Some s else None)) of
        None \<Rightarrow> (Reply 400 (ErrorBody ''Invalid status''), w)
      | Some s \<Rightarrow>
          (case (if st_select_err f then None
                 else single (filter (\<lambda>a. appt_id a = appointmentId \<and> business_id a = businessId)
                                (appointments w))) of
             None \<Rightarrow> (Reply 404 (ErrorBody ''Appointment not found''), w)
           | Some appointment \<Rightarrow>
               (case updateAppointmentById (st_update_err f) appointmentId
                       (\<lambda>a. a\<lparr>status := s\<rparr>) w of
                  Inl msg \<Rightarrow> (Reply 500 (ErrorBody msg), w)
                | Inr (updated, w1) \<Rightarrow> (Reply 200 (AppointmentBody updated), w1))))"

section \<open>The no-show scan: autoMarkNoShows\<close>

text \<open>
  The answers of the store during one scan: the read of the businesses, and for each
  business (by its id) the read of its appointments and the update.
\<close>

record noshow_faults =
  ns_businesses_select_err :: bool
  ns_appointments_select_err :: "nat \<Rightarrow> bool"
  ns_update_err :: "nat \<Rightarrow> bool"

text \<open>\<open>business.appointment_settings?.no_show_grace_minutes ?? 30\<close>\<close>

definition graceMinutesOf :: "business \<Rightarrow> int" where
  "graceMinutesOf b =
     (case settings b of
        None \<Rightarrow> 30
      | Some st \<Rightarrow> (case no_show_grace_minutes st of None \<Rightarrow> 30 | Some g \<Rightarrow> g))"

text \<open>\<open>now > apptTime.plus({ minutes: graceMinutes })\<close>\<close>

definition isOverdue :: "instant \<Rightarrow> int \<Rightarrow> appointment \<Rightarrow> bool" where
  "isOverdue now graceMinutes appt =
     (now > appointment_time appt + graceMinutes * MS_PER_MINUTE)"

text \<open>
  The body of the loop over the businesses; each \<open>continue\<close> leaves the world as it is.
\<close>

definition markBusinessNoShows :: "noshow_faults \<Rightarrow> instant \<Rightarrow> business \<Rightarrow> world \<Rightarrow> world" where
  "markBusinessNoShows f now b w =
     (let graceMinutes = graceMinutesOf b;
          appts = (if ns_appointments_select_err f (biz_id b) then []
                   else filter (\<lambda>a. business_id a = biz_id b \<and> status a = ''scheduled'')
                          (appointments w))
      in if appts = [] then w
         else
           (let overdueIds = map appt_id (filter (isOverdue now graceMinutes) appts)
            in if overdueIds = [] then w
               else if ns_update_err f (biz_id b) then w
               else w\<lparr>appointments :=
                      map (\<lambda>a. if appt_id a \<in> set overdueIds
                                then a\<lparr>status := ''no_show''\<rparr> else a)
                        (appointments w)\<rparr>))"

text \<open>What one pass of the body marks: a scheduled appointment of the business, overdue.\<close>

definition noShowHit :: "instant \<Rightarrow> business \<Rightarrow> appointment \<Rightarrow> bool" where
  "noShowHit now b a =
     (business_id a = biz_id b \<and> status a = ''scheduled''
      \<and> isOverdue now (graceMinutesOf b) a)"

fun markNoShowsFor :: "noshow_faults \<Rightarrow> instant \<Rightarrow> business list \<Rightarrow> world \<Rightarrow> world" where
  "markNoShowsFor f now [] w = w"
| "markNoShowsFor f now (b # rest) w =
     markNoShowsFor f now rest (markBusinessNoShows f now b w)"

definition autoMarkNoShows :: "noshow_faults \<Rightarrow> world \<Rightarrow> world" where
  "autoMarkNoShows f w =
     (let now = clock w
      in if ns_businesses_select_err f \<or> businesses w = [] then w
         else markNoShowsFor f now (businesses w) w)"

section \<open>The automation scan\<close>

record automation_faults =
  au_businesses_select_err :: bool
  au_rules_select_err :: "nat \<Rightarrow> bool"
  au_appointments_select_err :: "nat \<Rightarrow> nat \<Rightarrow> bool"
  au_log_select_err :: "nat \<Rightarrow> nat \<Rightarrow> bool"
  au_log_insert_err :: "nat \<Rightarrow> nat \<Rightarrow> bool"

text \<open>
  A scan carries the world and the lines it has written with
  \<open>console.log(`Rule ... executed for appointment ... (Business: ...)`)\<close>, one for each
  dispatch that the gateway accepted: (rule id, appointment id, business id).
\<close>

type_synonym scan_state = "world \<times> (nat \<times> nat \<times> nat) list"

text \<open>
  \<open>appt.customers.phone\<close> throws when the appointment has no customer row; the \<open>catch\<close>
  around the whole scan ends the scan there.
\<close>

datatype scan_outcome = Finished scan_state | Aborted scan_state

definition logRowsFor :: "nat \<Rightarrow> nat \<Rightarrow> world \<Rightarrow> automation_log list" where
  "logRowsFor appointmentId ruleId w =
     filter (\<lambda>l. log_appointment_id l = appointmentId \<and> log_rule_id l = ruleId)
       (automation_logs w)"

text \<open>The body of the loop over the appointments of a rule's window.\<close>

definition fireRule ::
  "env \<Rightarrow> automation_faults \<Rightarrow> business \<Rightarrow> automation_rule \<Rightarrow> appointment \<Rightarrow> scan_state \<Rightarrow>
   scan_outcome" where
  "fireRule e f b rule appt s =
     (let w = fst s; executed = snd s;
          alreadySent = (if au_log_select_err f (appt_id appt) (rule_id rule) then None
                         else single (logRowsFor (appt_id appt) (rule_id rule) w))
      in case alreadySent of
           Some l \<Rightarrow> Finished s
         | None \<Rightarrow>
             (let localTime = reminderLocalTime e (appointment_time appt) (tzOrUTC (timezone b));
                  text = replace e
                           (replace e (message_template rule) ''{{service}}''
                              (orDefault (service appt) ''your service''))
                           ''{{appointment_time}}'' localTime
              in case single (filter (\<lambda>c. cust_id c = customer_id appt) (customers w)) of
                   None \<Rightarrow> Aborted s
                 | Some c \<Rightarrow>
                     (let (st, w1) = sendWhatsAppMessage e (phone c) text w
                      in if st = ''submitted'' then
                           Finished
                             (if au_log_insert_err f (appt_id appt) (rule_id rule) then w1
                              else w1\<lparr>automation_logs := automation_logs w1 @
                                     [\<lparr>log_appointment_id = appt_id appt,
                                       log_rule_id = rule_id rule\<rparr>]\<rparr>,
                              executed @ [(rule_id rule, appt_id appt, biz_id b)])
                         else Finished (w1, executed))))"

fun fireAppointments ::
  "env \<Rightarrow> automation_faults \<Rightarrow> business \<Rightarrow> automation_rule \<Rightarrow> appointment list \<Rightarrow> scan_state \<Rightarrow>
   scan_outcome" where
  "fireAppointments e f b rule [] s = Finished s"
| "fireAppointments e f b rule (appt # rest) s =
     (case fireRule e f b rule appt s of
        Aborted s1 \<Rightarrow> Aborted s1
      | Finished s1 \<Rightarrow> fireAppointments e f b rule rest s1)"

text \<open>
  The window of a rule: \<open>from = now.plus({ minutes: rule.offset_minutes - 1 })\<close>,
  \<open>to = now.plus({ minutes: rule.offset_minutes })\<close>, both ends included.
\<close>

definition inWindow :: "instant \<Rightarrow> automation_rule \<Rightarrow> appointment \<Rightarrow> bool" where
  "inWindow now rule appt =
     (now + (offset_minutes rule - 1) * MS_PER_MINUTE \<le> appointment_time appt
      \<and> appointment_time appt \<le> now + offset_minutes rule * MS_PER_MINUTE)"

fun fireRules ::
  "env \<Rightarrow> automation_faults \<Rightarrow> business \<Rightarrow> instant \<Rightarrow> automation_rule list \<Rightarrow> scan_state \<Rightarrow>
   scan_outcome" where
  "fireRules e f b now [] s = Finished s"
| "fireRules e f b now (rule # rest) s =
     (let appts = (if au_appointments_select_err f (biz_id b) (rule_id rule) then []
                   else filter (\<lambda>a. business_id a = biz_id b \<and> status a = ''scheduled''
                                    \<and> inWindow now rule a)
                          (appointments (fst s)))
      in case fireAppointments e f b rule appts s of
           Aborted s1 \<Rightarrow> Aborted s1
         | Finished s1 \<Rightarrow> fireRules e f b now rest s1)"

fun scanBusinesses ::
  "env \<Rightarrow> automation_faults \<Rightarrow> business list \<Rightarrow> scan_state \<Rightarrow> scan_outcome" where
  "scanBusinesses e f [] s = Finished s"
| "scanBusinesses e f (b # rest) s =
     (let rules = (if au_rules_select_err f (biz_id b) then []
                   else filter (\<lambda>r. rule_business_id r = biz_id b \<and> enabled r)
                          (automation_rules (fst s)));
          now = clock (fst s)
      in case fireRules e f b now rules s of
           Aborted s1 \<Rightarrow> Aborted s1
         | Finished s1 \<Rightarrow> scanBusinesses e f rest s1)"

definition automationScan :: "env \<Rightarrow> automation_faults \<Rightarrow> world \<Rightarrow> scan_state" where
  "automationScan e f w =
     (if au_businesses_select_err f \<or> businesses w = [] then (w, [])
      else (case scanBusinesses e f (businesses w) (w, []) of
              Finished s \<Rightarrow> s
            | Aborted s \<Rightarrow> s))"

text \<open>The state a scan ended in, finished or cut short by the exception.\<close>

definition stateOf :: "scan_outcome \<Rightarrow> scan_state" where
  "stateOf r = (case r of Finished s \<Rightarrow> s | Aborted s \<Rightarrow> s)"

text \<open>
  The number of log rows of a pair (appointment, rule), and the number of lines a scan
  wrote for it, that is, of dispatches for the pair that the gateway accepted.
\<close>

definition logsFor :: "nat \<Rightarrow> nat \<Rightarrow> world \<Rightarrow> nat" where
  "logsFor appointmentId ruleId w = length (logRowsFor appointmentId ruleId w)"

definition executedFor :: "nat \<Rightarrow> nat \<Rightarrow> (nat \<times> nat \<times> nat) list \<Rightarrow> nat" where
  "executedFor appointmentId ruleId executed =
     length (filter (\<lambda>(r, a, b). r = ruleId \<and> a = appointmentId) executed)"

text \<open>
  From state \<open>s\<close> to state \<open>s'\<close> the pair keeps at most one log row, and every line
  written for it came with a new log row.
\<close>

definition keepsOnce :: "nat \<Rightarrow> nat \<Rightarrow> scan_state \<Rightarrow> scan_state \<Rightarrow> bool" where
  "keepsOnce a r s s' =
     (logsFor a r (fst s) \<le> 1 \<longrightarrow>
        logsFor a r (fst s') \<le> 1
        \<and> executedFor a r (snd s') + logsFor a r (fst s)
            = executedFor a r (snd s) + logsFor a r (fst s'))"

text \<open>The text of the reminder of a rule for an appointment.\<close>

definition reminderText :: "env \<Rightarrow> business \<Rightarrow> automation_rule \<Rightarrow> appointment \<Rightarrow> string" where
  "reminderText e b rule appt =
     replace e
       (replace e (message_template rule) ''{{service}}''
          (orDefault (service appt) ''your service''))
       ''{{appointment_time}}''
       (reminderLocalTime e (appointment_time appt) (tzOrUTC (timezone b)))"

section \<open>The delivery retry: retryFailedMessages\<close>

record retry_faults =
  rt_select_err :: bool
  rt_mark_retrying_err :: "nat \<Rightarrow> bool"
  rt_mark_sent_err :: "nat \<Rightarrow> bool"
  rt_mark_failed_err :: "nat \<Rightarrow> bool"

definition updateMessageById :: "bool \<Rightarrow> nat \<Rightarrow> (message \<Rightarrow> message) \<Rightarrow> world \<Rightarrow> world" where
  "updateMessageById err messageId upd w =
     (if err then w
      else w\<lparr>messages := map (\<lambda>m. if msg_id m = messageId then upd m else m) (messages w)\<rparr>)"

text \<open>
  The body of the loop. \<open>getCustomerPhone\<close> is called but declared nowhere in the
  repository; it is a parameter here, giving the phone of the customer or the message of
  the exception it (or reading \<open>.phone\<close> of its result) throws. In the file as it stands
  the call throws a ReferenceError. \<open>sendWhatsAppMessage\<close> does not throw, and the status
  it returns is not read.
\<close>

definition retryMessage ::
  "env \<Rightarrow> (world \<Rightarrow> nat \<Rightarrow> string + string) \<Rightarrow> retry_faults \<Rightarrow> message \<Rightarrow> world \<Rightarrow> world" where
  "retryMessage e getCustomerPhone f msg w =
     (let w1 = updateMessageById (rt_mark_retrying_err f (msg_id msg)) (msg_id msg)
                 (\<lambda>m. m\<lparr>msg_status := ''retrying''\<rparr>) w
      in case getCustomerPhone w1 (msg_customer_id msg) of
           Inr ph \<Rightarrow>
             (let w2 = snd (sendWhatsAppMessage e ph (content msg) w1)
              in updateMessageById (rt_mark_sent_err f (msg_id msg)) (msg_id msg)
                   (\<lambda>m. m\<lparr>msg_status := ''sent''\<rparr>) w2)
         | Inl err \<Rightarrow>
             updateMessageById (rt_mark_failed_err f (msg_id msg)) (msg_id msg)
               (\<lambda>m. m\<lparr>msg_status := ''failed'', retry_count := retry_count msg + 1,
                       msg_error := Some err\<rparr>) w1)"

text \<open>
  \<open>.eq('status', 'failed').lt('retry_count', 3).limit(10)\<close>: the store picks the ten rows;
  the model takes the first ten in the order of the table.
\<close>

definition retryBatch :: "retry_faults \<Rightarrow> world \<Rightarrow> message list" where
  "retryBatch f w =
     (if rt_select_err f then []
      else take 10 (filter (\<lambda>m. msg_status m = ''failed'' \<and> retry_count m < 3) (messages w)))"

definition retryFailedMessages ::
  "env \<Rightarrow> (world \<Rightarrow> nat \<Rightarrow> string + string) \<Rightarrow> retry_faults \<Rightarrow> world \<Rightarrow> world" where
  "retryFailedMessages e getCustomerPhone f w =
     foldl (\<lambda>w1 msg. retryMessage e getCustomerPhone f msg w1) w (retryBatch f w)"

section \<open>Bookings into one slot\<close>

definition replyCode :: "reply \<Rightarrow> nat" where
  "replyCode r = (case r of Reply code b \<Rightarrow> code)"

text \<open>
  The store answers every call of the booking handler whose failure would end the request
  (the other calls may fail or not).
\<close>

definition answersAll :: "booking_faults \<Rightarrow> bool" where
  "answersAll f =
     (customer_insert_err f = None \<and> business_select_err f = None
      \<and> appointments_select_err f = None \<and> appointment_insert_err f = None
      \<and> services_insert_err f = None)"

text \<open>The first instant of the UTC day of \<open>t\<close>.\<close>

definition utcMidnight :: "instant \<Rightarrow> instant" where
  "utcMidnight t = t - t mod MS_PER_DAY"

text \<open>
  The time string \<open>s\<close> is written in UTC: the handler and the store read it as the same
  instant \<open>t\<close>, and its first ten characters are the UTC date of \<open>t\<close>, so that the store
  reads the two ends of the day window as 00:00:00.000 and 23:59:59.000 of the UTC day of
  \<open>t\<close>. A string of the form \<open>YYYY-MM-DDTHH:MM:SS.sssZ\<close> is read so.
\<close>

definition readsAsUTC :: "env \<Rightarrow> string \<Rightarrow> instant \<Rightarrow> bool" where
  "readsAsUTC e s t =
     (newDate e s = Some t \<and> timestamptz e s = Inr t
      \<and> timestamptz e (take 10 s @ ''T00:00:00Z'') = Inr (utcMidnight t)
      \<and> timestamptz e (take 10 s @ ''T23:59:59Z'') = Inr (utcMidnight t + 86399000))"

text \<open>
  The scheduled appointments of the business that start on the UTC day beginning at
  \<open>day\<close>: the appointments whose load the capacity check is about.
\<close>

definition dayAppointments :: "nat \<Rightarrow> instant \<Rightarrow> world \<Rightarrow> appointment list" where
  "dayAppointments businessId day w =
     filter (\<lambda>a. business_id a = businessId \<and> status a = ''scheduled''
                 \<and> day \<le> appointment_time a \<and> appointment_time a < day + MS_PER_DAY)
       (appointments w)"

text \<open>None of them starts after 23:59:59.000, in the last 999 ms of the day.\<close>

definition noLateStart :: "nat \<Rightarrow> instant \<Rightarrow> world \<Rightarrow> bool" where
  "noLateStart businessId day w =
     list_all (\<lambda>a. appointment_time a \<le> day + 86399000) (dayAppointments businessId day w)"

text \<open>
  A request with a phone, at least one service and durations whose sum is positive, whose
  time string is written in UTC, for an instant of the UTC day that starts at \<open>day\<close>, not
  after 23:59:59.000 of that day, whose minute of the day lies in slot \<open>s\<close>.
\<close>

definition requestsSlot :: "env \<Rightarrow> instant \<Rightarrow> int \<Rightarrow> booking_request \<Rightarrow> bool" where
  "requestsSlot e day s req =
     (case (req_phone req, req_appointment_utc_time req, req_services req) of
        (Some ph, Some str, Some services) \<Rightarrow>
          ph \<noteq> [] \<and> str \<noteq> [] \<and> services \<noteq> []
          \<and> 0 < sum_list (map (\<lambda>i. case item_duration_minutes i of None \<Rightarrow> 0 | Some d \<Rightarrow> d)
                             services)
          \<and> (case newDate e str of
                None \<Rightarrow> False
              | Some t \<Rightarrow>
                  readsAsUTC e str t \<and> utcMidnight t = day \<and> t \<le> day + 86399000
                  \<and> (getUTCHours t * 60 + getUTCMinutes t) div 15 = s)
      | _ \<Rightarrow> False)"

text \<open>
  The day holds \<open>j\<close> scheduled appointments of the business, each of positive duration,
  with its start minute in slot \<open>s\<close>, and none starting after 23:59:59.000.
\<close>

definition slotHolds :: "nat \<Rightarrow> instant \<Rightarrow> int \<Rightarrow> world \<Rightarrow> nat \<Rightarrow> bool" where
  "slotHolds businessId day s w j =
     (length (dayAppointments businessId day w) = j
      \<and> list_all (\<lambda>r. minutesToSlotIndex (startMinutesOf (appointment_time r)) = s
                       \<and> 0 < duration_minutes r
                       \<and> appointment_time r \<le> day + 86399000)
           (dayAppointments businessId day w))"

section \<open>The dispatches of a scan\<close>

text \<open>
  The messages (destination, text) that the gateway accepted among the calls made after the
  first \<open>n\<close>.
\<close>

definition acceptedSince :: "nat \<Rightarrow> (string \<times> string \<times> string) list \<Rightarrow> (string \<times> string) list" where
  "acceptedSince n calls =
     map (\<lambda>(p, t, st). (p, t)) (filter (\<lambda>(p, t, st). st = ''submitted'') (drop n calls))"

text \<open>
  The line \<open>Rule r executed for appointment a (Business: b)\<close> stands for the message
  \<open>msg\<close>: the ids are those of a rule and an appointment of a business of the world, and
  \<open>msg\<close> is the reminder of the rule for the appointment, to the phone of the customer of
  the appointment.
\<close>

definition lineOf :: "env \<Rightarrow> world \<Rightarrow> nat \<times> nat \<times> nat \<Rightarrow> string \<times> string \<Rightarrow> bool" where
  "lineOf e w line msg =
     (\<exists>b\<in>set (businesses w). \<exists>rule\<in>set (automation_rules w).
      \<exists>appt\<in>set (appointments w). \<exists>c\<in>set (customers w).
        line = (rule_id rule, appt_id appt, biz_id b)
        \<and> rule_business_id rule = biz_id b \<and> business_id appt = biz_id b
        \<and> cust_id c = customer_id appt
        \<and> msg = (phone c, reminderText e b rule appt))"

text \<open>
  The state \<open>s\<close> of a scan that began in the world \<open>w0\<close>, when \<open>n\<close> calls had been made
  to the gateway: the tables of businesses, customers, appointments and rules are those of
  \<open>w0\<close>, and the lines written stand, one for one and in order, for the messages that the
  gateway has accepted since.
\<close>

definition tracks :: "env \<Rightarrow> world \<Rightarrow> nat \<Rightarrow> scan_state \<Rightarrow> bool" where
  "tracks e w0 n s =
     (businesses (fst s) = businesses w0 \<and> customers (fst s) = customers w0
      \<and> appointments (fst s) = appointments w0
      \<and> automation_rules (fst s) = automation_rules w0
      \<and> n \<le> length (outbox (fst s))
      \<and> list_all2 (lineOf e w0) (snd s) (acceptedSince n (outbox (fst s))))"

section \<open>A reader of ISO-8601 strings\<close>

text \<open>
  The reader that the instances use for \<open>new Date(...)\<close> and for the store: the instant
  of a string \<open>YYYY-MM-DDTHH:MM:SS\<close>, with or without \<open>.sss\<close>, followed by \<open>Z\<close> or by
  an offset \<open>+HH:MM\<close> or \<open>-HH:MM\<close>, which both read so. It reads no string of another
  form (the libraries read some of them); no instance uses one.
\<close>

definition digitValue :: "char \<Rightarrow> int option" where
  "digitValue c =
     (let n = (of_char c :: nat) in if 48 \<le> n \<and> n \<le> 57 then Some (int n - 48) else None)"

fun decimal :: "int \<Rightarrow> string \<Rightarrow> int option" where
  "decimal acc [] = Some acc"
| "decimal acc (c # cs) =
     (case digitValue c of None \<Rightarrow> None | Some d \<Rightarrow> decimal (10 * acc + d) cs)"

text \<open>The number written in the \<open>n\<close> characters from position \<open>i\<close>.\<close>

definition field :: "nat \<Rightarrow> nat \<Rightarrow> string \<Rightarrow> int option" where
  "field i n s = (if length s < i + n then None else decimal 0 (take n (drop i s)))"

text \<open>The days from 1970-01-01 to the day \<open>d\<close> of month \<open>m\<close> of year \<open>y\<close>.\<close>

definition daysFromCivil :: "int \<Rightarrow> int \<Rightarrow> int \<Rightarrow> int" where
  "daysFromCivil y m d =
     (let y1 = (if m \<le> 2 then y - 1 else y);
          era = y1 div 400;
          yoe = y1 - era * 400;
          doy = (153 * (if 2 < m then m - 3 else m + 9) + 2) div 5 + d - 1;
          doe = yoe * 365 + yoe div 4 - yoe div 100 + doy
      in era * 146097 + doe - 719468)"

definition daysInMonth :: "int \<Rightarrow> int \<Rightarrow> int" where
  "daysInMonth y m =
     (if m = 2 then (if y mod 4 = 0 \<and> (y mod 100 \<noteq> 0 \<or> y mod 400 = 0) then 29 else 28)
      else if m \<in> {4, 6, 9, 11} then 30 else 31)"

text \<open>The offset from UTC in minutes.\<close>

definition zoneOffset :: "string \<Rightarrow> int option" where
  "zoneOffset z =
     (if z = ''Z'' then Some 0
      else if length z = 6 \<and> take 1 (drop 3 z) = '':'' \<and> take 1 z \<in> {''+'', ''-''} then
        Option.bind (field 1 2 z) (\<lambda>h.
        Option.bind (field 4 2 z) (\<lambda>m.
          if h \<le> 23 \<and> m \<le> 59
          then Some ((if take 1 z = ''+'' then 1 else - 1) * (h * 60 + m)) else None))
      else None)"

definition isoInstant :: "string \<Rightarrow> instant option" where
  "isoInstant s =
     (if take 1 (drop 4 s) = ''-'' \<and> take 1 (drop 7 s) = ''-'' \<and> take 1 (drop 10 s) = ''T''
         \<and> take 1 (drop 13 s) = '':'' \<and> take 1 (drop 16 s) = '':'' then
        Option.bind (field 0 4 s) (\<lambda>y.
        Option.bind (field 5 2 s) (\<lambda>mo.
        Option.bind (field 8 2 s) (\<lambda>d.
        Option.bind (field 11 2 s) (\<lambda>h.
        Option.bind (field 14 2 s) (\<lambda>mi.
        Option.bind (field 17 2 s) (\<lambda>sec.
        Option.bind (if take 1 (drop 19 s) = ''.'' then field 20 3 s else Some 0) (\<lambda>ms.
        Option.bind (zoneOffset (if take 1 (drop 19 s) = ''.'' then drop 23 s else drop 19 s))
          (\<lambda>off.
             if 1 \<le> mo \<and> mo \<le> 12 \<and> 1 \<le> d \<and> d \<le> daysInMonth y mo
                \<and> h \<le> 23 \<and> mi \<le> 59 \<and> sec \<le> 59
             then Some (((daysFromCivil y mo d * 24 + h) * 60 + mi - off) * 60000
                        + sec * 1000 + ms)
             else None))))))))
      else None)"

section \<open>A small world for instances\<close>

text \<open>
  One business (at most one appointment per slot, grace minutes unset), one customer, one
  scheduled appointment of 30 minutes on 2024-06-01 at 13:00 UTC with its line item, one
  enabled rule; the clock stands at 13:31 UTC of that day.
\<close>

definition exampleBusiness :: business where
  "exampleBusiness =
     \<lparr>biz_id = 1, timezone = Some ''America/New_York'',
      settings = Some \<lparr>reminder_24h = Some True, reminder_2h = Some False,
                        no_show_grace_minutes = None, max_appointments_per_slot = Some 1\<rparr>\<rparr>"

definition exampleCustomer :: customer where
  "exampleCustomer =
     \<lparr>cust_id = 1, cust_business_id = 1, phone = ''+15550100'', cust_name = Some ''Ada''\<rparr>"

definition exampleAppointment :: appointment where
  "exampleAppointment =
     \<lparr>appt_id = 1, business_id = 1, customer_id = 1, appointment_time = 1717246800000,
      slot_minutes = Some 780, duration_minutes = 30, status = ''scheduled'', combo_id = None,
      service = None, archived_at = None\<rparr>"

definition exampleRule :: automation_rule where
  "exampleRule =
     \<lparr>rule_id = 1, rule_business_id = 1, rule_type = ''reminder_24h'', offset_minutes = 1440,
      message_template = ''Reminder: {{service}} at {{appointment_time}}'', enabled = True\<rparr>"

definition exampleWorld :: world where
  "exampleWorld =
     \<lparr>businesses = [exampleBusiness], customers = [exampleCustomer],
      appointments = [exampleAppointment],
      appointment_services =
        [\<lparr>as_appointment_id = 1, as_service_id = 1, as_duration_minutes = Some 30\<rparr>],
      automation_rules = [exampleRule], automation_logs = [], messages = [], outbox = [],
      clock = 1717248660000\<rparr>"

text \<open>
  A gateway that accepts every message, the reader of ISO-8601 strings for the handler and
  for the store, and texts that do not matter.
\<close>

definition exampleEnv :: env where
  "exampleEnv =
     \<lparr>gateway = (\<lambda>n. Responded None),
      newDate = isoInstant,
      timestamptz = (\<lambda>s. case isoInstant s of
                            None \<Rightarrow> Inl ''invalid input syntax for type timestamp with time zone''
                          | Some t \<Rightarrow> Inr t),
      formatAppointmentTime = (\<lambda>t tz. ''01 Jun, 09:00 AM''),
      confirmationText = (\<lambda>n formatted. formatted),
      rescheduleText = (\<lambda>formatted. formatted),
      reminderLocalTime = (\<lambda>t tz. ''2024-06-01 09:00 AM''),
      replace = (\<lambda>s pattern replacement. s)\<rparr>"

text \<open>A request for one service of 30 minutes, from the phone and for the time given.\<close>

definition exampleRequest :: "string \<Rightarrow> string \<Rightarrow> booking_request" where
  "exampleRequest ph appointment_utc_time =
     \<lparr>req_phone = Some ph, req_name = None,
      req_services = Some [\<lparr>item_service_id = 1, item_duration_minutes = Some 30\<rparr>],
      req_appointment_utc_time = Some appointment_utc_time, req_combo_id = None\<rparr>"

text \<open>
  A message whose first delivery failed, and two values for the parameter
  \<open>getCustomerPhone\<close> of the retry: one that gives the phone of the example customer, and
  the one of the file as it stands, where the call throws a ReferenceError.
\<close>

definition exampleFailedMessage :: message where
  "exampleFailedMessage =
     \<lparr>msg_id = 1, msg_customer_id = 1, direction = ''out'', content = ''See you soon'',
      msg_status = ''failed'', retry_count = 1, msg_error = Some ''timeout'',
      message_type = None\<rparr>"

definition givesPhone :: "world \<Rightarrow> nat \<Rightarrow> string + string" where
  "givesPhone w customerId = Inr ''+15550100''"

definition notDeclared :: "world \<Rightarrow> nat \<Rightarrow> string + string" where
  "notDeclared w customerId = Inl ''getCustomerPhone is not defined''"

text \<open>A store that answers every call.\<close>

definition noBookingFaults :: booking_faults where
  "noBookingFaults =
     \<lparr>customer_select_err = False, customer_insert_err = None, customer_update_err = False,
      business_select_err = None, appointments_select_err = None,
      appointment_insert_err = None, services_insert_err = None,
      rollback_delete_err = False, message_insert_err = False\<rparr>"

definition noRescheduleFaults :: reschedule_faults where
  "noRescheduleFaults =
     \<lparr>rs_appointment_select_err = False, rs_services_select_err = False,
      rs_business_select_err = False, rs_appointments_select_err = None,
      rs_update_err = None, rs_message_insert_err = False, rs_logs_delete_err = False\<rparr>"

definition noStatusFaults :: status_faults where
  "noStatusFaults = \<lparr>st_select_err = False, st_update_err = None\<rparr>"

definition noNoShowFaults :: noshow_faults where
  "noNoShowFaults =
     \<lparr>ns_businesses_select_err = False, ns_appointments_select_err = (\<lambda>b. False),
      ns_update_err = (\<lambda>b. False)\<rparr>"

definition noAutomationFaults :: automation_faults where
  "noAutomationFaults =
     \<lparr>au_businesses_select_err = False, au_rules_select_err = (\<lambda>b. False),
      au_appointments_select_err = (\<lambda>b r. False), au_log_select_err = (\<lambda>a r. False),
      au_log_insert_err = (\<lambda>a r. False)\<rparr>"

definition noRetryFaults :: retry_faults where
  "noRetryFaults =
     \<lparr>rt_select_err = False, rt_mark_retrying_err = (\<lambda>m. False),
      rt_mark_sent_err = (\<lambda>m. False), rt_mark_failed_err = (\<lambda>m. False)\<rparr>"

section \<open>Facts about the slot grid\<close>

lemma js_floor_div_real: "js_floor_div a 15 = \<lfloor>real_of_int a / 15\<rfloor>"
  unfolding js_floor_div_def by (metis floor_divide_of_int_eq of_int_numeral)

lemma js_ceil_div_real: "js_ceil_div a 15 = \<lceil>real_of_int a / 15\<rceil>"
  unfolding js_ceil_div_def ceiling_def
  by (metis floor_divide_of_int_eq minus_divide_left of_int_minus of_int_numeral)

lemma set_getSlotRange:
  "set (getSlotRange s d) = {k. s div 15 \<le> k \<and> k < s div 15 + js_ceil_div d 15}"
proof -
  have "k \<in> (\<lambda>i. s div 15 + int i) ` {0..<nat (js_ceil_div d 15)}"
    if "s div 15 \<le> k" "k < s div 15 + js_ceil_div d 15" for k
    using that by (intro image_eqI[where x = "nat (k - s div 15)"]) auto
  then show ?thesis
    unfolding getSlotRange_def Let_def minutesToSlotIndex_def js_floor_div_def
      SLOT_SIZE_MINUTES_def
    by auto
qed

lemma distinct_getSlotRange: "distinct (getSlotRange s d)"
  unfolding getSlotRange_def Let_def by (simp add: distinct_map inj_on_def)

lemma loadOf_bumpSlots:
  "loadOf (bumpSlots m slots) k = loadOf m k + int (count_list slots k)"
  by (induction slots arbitrary: m) (auto simp: loadOf_def)

lemma count_list_distinct:
  "distinct xs \<Longrightarrow> count_list xs k = (if k \<in> set xs then 1 else 0)"
  by (induction xs) auto

lemma loadOf_buildSlotLoadFrom:
  "loadOf (buildSlotLoadFrom m appts) k =
     loadOf m k + int (length (filter (\<lambda>a. k \<in> set (slotsOfAppointment a)) appts))"
proof (induction appts arbitrary: m)
  case Nil
  show ?case by simp
next
  case (Cons a appts)
  have "distinct (slotsOfAppointment a)"
    unfolding slotsOfAppointment_def by (rule distinct_getSlotRange)
  then show ?case
    by (simp add: Cons.IH loadOf_bumpSlots count_list_distinct)
qed

lemma loadOf_buildSlotLoadMap:
  "loadOf (buildSlotLoadMap appts) k =
     int (length (filter (\<lambda>a. k \<in> set (slotsOfAppointment a)) appts))"
proof -
  have "loadOf Map.empty k = 0"
    by (simp add: loadOf_def)
  then show ?thesis
    unfolding buildSlotLoadMap_def by (simp add: loadOf_buildSlotLoadFrom)
qed

section \<open>Facts about the capacity check\<close>

lemma capacityLoop_iff:
  "capacityLoop slotLoad start n m i = (\<forall>j. i \<le> j \<and> j < n \<longrightarrow> loadOf slotLoad (start + j) < m)"
proof (induction slotLoad start n m i rule: capacityLoop.induct)
  case (1 slotLoad start n m i)
  show ?case
  proof (cases "i < n")
    case False
    then show ?thesis by (subst capacityLoop.simps) auto
  next
    case True
    show ?thesis
    proof (cases "loadOf slotLoad (start + i) \<ge> m")
      case full: True
      with True show ?thesis
        by (subst capacityLoop.simps) (auto intro!: exI[where x = i])
    next
      case free: False
      have "(\<forall>j. i \<le> j \<and> j < n \<longrightarrow> loadOf slotLoad (start + j) < m)
            = (\<forall>j. i + 1 \<le> j \<and> j < n \<longrightarrow> loadOf slotLoad (start + j) < m)"
      proof (intro iffI allI impI)
        fix j assume h: "\<forall>j. i + 1 \<le> j \<and> j < n \<longrightarrow> loadOf slotLoad (start + j) < m"
          and j: "i \<le> j \<and> j < n"
        show "loadOf slotLoad (start + j) < m"
        proof (cases "j = i")
          case True then show ?thesis using free by simp
        next
          case False then show ?thesis using h j by simp
        qed
      qed simp
      with True free "1.IH" show ?thesis
        by (subst capacityLoop.simps) simp
    qed
  qed
qed

lemma isAvailable_iff:
  "isAvailable slotLoad s d m =
     (\<forall>k. s div 15 \<le> k \<and> k < s div 15 + js_ceil_div d 15 \<longrightarrow> loadOf slotLoad k < m)"
  unfolding isAvailable_def by (simp add: list_all_iff set_getSlotRange)

lemma capacityCheck_isAvailable:
  "capacityCheck slotLoad s d m = isAvailable slotLoad s d m"
proof -
  have "(\<forall>j. 0 \<le> j \<and> j < js_ceil_div d 15 \<longrightarrow> loadOf slotLoad (s div 15 + j) < m)
        = (\<forall>k. s div 15 \<le> k \<and> k < s div 15 + js_ceil_div d 15 \<longrightarrow> loadOf slotLoad k < m)"
  proof (intro iffI allI impI)
    fix k assume h: "\<forall>j. 0 \<le> j \<and> j < js_ceil_div d 15 \<longrightarrow> loadOf slotLoad (s div 15 + j) < m"
      and k: "s div 15 \<le> k \<and> k < s div 15 + js_ceil_div d 15"
    from h have "0 \<le> k - s div 15 \<and> k - s div 15 < js_ceil_div d 15 \<longrightarrow> loadOf slotLoad (s div 15 + (k - s div 15)) < m"
      by blast
    with k show "loadOf slotLoad k < m" by simp
  next
    fix j assume h: "\<forall>k. s div 15 \<le> k \<and> k < s div 15 + js_ceil_div d 15 \<longrightarrow> loadOf slotLoad k < m"
      and j: "0 \<le> j \<and> j < js_ceil_div d 15"
    then show "loadOf slotLoad (s div 15 + j) < m" by simp
  qed
  then show ?thesis
    unfolding capacityCheck_def Let_def js_floor_div_def SLOT_SIZE_MINUTES_def
    by (simp add: capacityLoop_iff isAvailable_iff)
qed

lemma availabilityLoop_apply:
  "availabilityLoop slotLoad d m s0 av s =
     (if s0 \<le> s \<and> (s - s0) mod 15 = 0 \<and> s + d \<le> 1440
      then Some (isAvailable slotLoad s d m) else av s)"
proof (induction slotLoad d m s0 av rule: availabilityLoop.induct)
  case (1 slotLoad d m s0 av)
  show ?case
  proof (cases "s0 + d \<le> 24 * 60")
    case False
    then show ?thesis by (subst availabilityLoop.simps) auto
  next
    case True
    have step: "availabilityLoop slotLoad d m s0 av s =
       availabilityLoop slotLoad d m (s0 + 15) (av(s0 \<mapsto> isAvailable slotLoad s0 d m)) s"
      using True by (subst availabilityLoop.simps) (simp add: SLOT_SIZE_MINUTES_def)
    have ih: "availabilityLoop slotLoad d m (s0 + 15) (av(s0 \<mapsto> isAvailable slotLoad s0 d m)) s =
       (if s0 + 15 \<le> s \<and> (s - (s0 + 15)) mod 15 = 0 \<and> s + d \<le> 1440
        then Some (isAvailable slotLoad s d m)
        else (av(s0 \<mapsto> isAvailable slotLoad s0 d m)) s)"
      using "1.IH"[OF True] unfolding SLOT_SIZE_MINUTES_def .
    show ?thesis
    proof (cases "s = s0")
      case True
      with \<open>s0 + d \<le> 24 * 60\<close> show ?thesis unfolding step ih by simp
    next
      case False
      have "(s0 + 15 \<le> s \<and> (s - (s0 + 15)) mod 15 = 0 \<and> s + d \<le> 1440)
            = (s0 \<le> s \<and> (s - s0) mod 15 = 0 \<and> s + d \<le> 1440)"
        using False by presburger
      then show ?thesis unfolding step ih using False by simp
    qed
  qed
qed

lemma dailyAvailability_eq:
  "dailyAvailability slotLoad d m s =
     (if 0 \<le> s \<and> s mod 15 = 0 \<and> s + d \<le> 1440
      then Some (capacityCheck slotLoad s d m) else None)"
  unfolding dailyAvailability_def by (simp add: availabilityLoop_apply capacityCheck_isAvailable)

lemma overlapsSlot_iff: "overlapsSlot s d k = (s < 15 * k + 15 \<and> 15 * k < s + d \<and> 0 < d)"
  unfolding overlapsSlot_def SLOT_SIZE_MINUTES_def by auto

lemma getSlotRange_subset_overlap: "set (getSlotRange s d) \<subseteq> {k. overlapsSlot s d k}"
  unfolding set_getSlotRange overlapsSlot_iff js_ceil_div_def
  by auto

lemma getSlotRange_eq_overlap: "s mod 15 = 0 \<Longrightarrow> set (getSlotRange s d) = {k. overlapsSlot s d k}"
  unfolding set_getSlotRange overlapsSlot_iff js_ceil_div_def
  by auto

section \<open>Facts about rows found by id\<close>

lemma only_row_mem:
  assumes "filter (\<lambda>x. appt_id x = i) xs = [a]"
  shows "a \<in> set xs" "appt_id a = i"
proof -
  have "a \<in> set (filter (\<lambda>x. appt_id x = i) xs)" using assms by simp
  then show "a \<in> set xs" "appt_id a = i" by auto
qed

lemma only_row_unique:
  assumes "filter (\<lambda>x. appt_id x = i) xs = [a]" "x \<in> set xs" "appt_id x = i"
  shows "x = a"
proof -
  have "x \<in> set (filter (\<lambda>x. appt_id x = i) xs)" using assms(2,3) by simp
  then have "x \<in> set [a]" unfolding assms(1) .
  then show ?thesis by simp
qed

lemma only_row_id_in_filter:
  assumes "filter (\<lambda>x. appt_id x = i) xs = [a]"
  shows "(i \<in> set (map appt_id (filter P xs))) = P a"
proof
  assume "i \<in> set (map appt_id (filter P xs))"
  then obtain x where x: "x \<in> set xs" "P x" "appt_id x = i" by auto
  with only_row_unique[OF assms x(1,3)] show "P a" by simp
next
  assume "P a"
  with only_row_mem[OF assms] have "a \<in> set (filter P xs)" "appt_id a = i" by auto
  then show "i \<in> set (map appt_id (filter P xs))" by force
qed

lemma only_row_map:
  assumes "filter (\<lambda>x. appt_id x = i) xs = [a]" "\<And>x. appt_id (g x) = appt_id x"
  shows "filter (\<lambda>x. appt_id x = i) (map g xs) = [g a]"
proof -
  have "filter (\<lambda>x. appt_id x = i) (map g xs) = map g (filter (\<lambda>x. appt_id x = i) xs)"
    by (simp add: filter_map comp_def assms(2))
  then show ?thesis using assms(1) by simp
qed

lemma mem_not_Nil: "x \<in> set xs \<Longrightarrow> xs \<noteq> []"
  by auto


section \<open>The slot range and the load (claim C2)\<close>

text \<open>
  Claim C2, as amended. The slot range of an appointment is the run of
  \<open>ceil(durationMinutes / 15)\<close> slot indices from \<open>floor(startMinutes / 15)\<close>. Every slot
  of the range overlaps the minutes \<open>[startMinutes, startMinutes + durationMinutes)\<close> of
  the appointment, and when the start is on the 15-minute grid the range is exactly the
  set of the slots the appointment overlaps. \<open>buildSlotLoadMap\<close> gives every slot the
  number of appointments whose range holds it, the range taken from the UTC hour and
  minute of the start and from the duration of the row.
\<close>

theorem C2_slot_range_and_load:
  "getSlotRange startMinutes durationMinutes =
     map (\<lambda>i. \<lfloor>real_of_int startMinutes / 15\<rfloor> + int i)
       [0..<nat \<lceil>real_of_int durationMinutes / 15\<rceil>]
   \<and> set (getSlotRange startMinutes durationMinutes)
        \<subseteq> {k. overlapsSlot startMinutes durationMinutes k}
   \<and> (startMinutes mod 15 = 0 \<longrightarrow>
        set (getSlotRange startMinutes durationMinutes)
          = {k. overlapsSlot startMinutes durationMinutes k})
   \<and> loadOf (buildSlotLoadMap appts) k =
        int (length (filter
          (\<lambda>a. k \<in> set (getSlotRange
                   (getUTCHours (appointment_time a) * 60 + getUTCMinutes (appointment_time a))
                   (duration_minutes a)))
          appts))"
proof (intro conjI impI)
  show "getSlotRange startMinutes durationMinutes =
     map (\<lambda>i. \<lfloor>real_of_int startMinutes / 15\<rfloor> + int i)
       [0..<nat \<lceil>real_of_int durationMinutes / 15\<rceil>]"
    unfolding getSlotRange_def Let_def minutesToSlotIndex_def SLOT_SIZE_MINUTES_def
    by (simp only: js_floor_div_real js_ceil_div_real)
next
  show "set (getSlotRange startMinutes durationMinutes)
        \<subseteq> {k. overlapsSlot startMinutes durationMinutes k}"
    by (rule getSlotRange_subset_overlap)
next
  assume "startMinutes mod 15 = 0"
  then show "set (getSlotRange startMinutes durationMinutes)
          = {k. overlapsSlot startMinutes durationMinutes k}"
    by (rule getSlotRange_eq_overlap)
next
  show "loadOf (buildSlotLoadMap appts) k =
        int (length (filter
          (\<lambda>a. k \<in> set (getSlotRange
                   (getUTCHours (appointment_time a) * 60 + getUTCMinutes (appointment_time a))
                   (duration_minutes a)))
          appts))"
    using loadOf_buildSlotLoadMap[of appts k]
    unfolding slotsOfAppointment_def startMinutesOf_def .
qed

text \<open>
  An instance: the appointment of 30 minutes at minute 780 (13:00 UTC) takes exactly the
  slots it overlaps.
\<close>

theorem C2_slot_range_and_load_witness:
  "(780::int) mod 15 = 0
   \<and> set (getSlotRange 780 30) = {k. overlapsSlot 780 30 k}"
proof -
  have grid: "(780::int) mod 15 = 0"
    by simp
  have "set (getSlotRange 780 30) = {k. overlapsSlot 780 30 k}"
    by (rule C2_slot_range_and_load[of 780 30 "[]" 0, THEN conjunct2, THEN conjunct2,
          THEN conjunct1, rule_format, OF grid])
  with grid show ?thesis
    by (intro conjI)
qed

text \<open>
  The claim as first stated fails for a start off the grid: 15 minutes from minute 10 run
  to minute 25 and overlap slot 1 (minutes 15 to 30), which the range does not hold.
\<close>

theorem C2_range_misses_overlapped_slot:
  "overlapsSlot 10 15 1 \<and> 1 \<notin> set (getSlotRange 10 15)"
  by (simp add: overlapsSlot_iff set_getSlotRange js_ceil_div_def)

section \<open>Availability agrees with the booking check (claim C10)\<close>

text \<open>
  Claim C10. For every slot load, duration and maximum per slot, the availability map has
  an entry exactly for the starts on the 15-minute grid from 0 with
  \<open>start + duration \<le> 1440\<close>, and the entry is the result of the capacity loop of the
  booking handler for that start minute and duration.
\<close>

theorem C10_availability_agrees_with_booking:
  "dailyAvailability slotLoad durationMinutes maxPerSlot startMinutes =
     (if 0 \<le> startMinutes \<and> startMinutes mod 15 = 0 \<and> startMinutes + durationMinutes \<le> 1440
      then Some (capacityCheck slotLoad startMinutes durationMinutes maxPerSlot) else None)"
  by (rule dailyAvailability_eq)

theorem C10_availability_agrees_with_booking_witness:
  "dailyAvailability Map.empty 30 1 780 = Some (capacityCheck Map.empty 780 30 1)"
  using C10_availability_agrees_with_booking[of Map.empty 30 1 780] by simp

section \<open>The explicit status update (claim C9)\<close>

lemma filter_both_single:
  assumes "filter (\<lambda>x. appt_id x = i) xs = [a]" "business_id a = b"
  shows "filter (\<lambda>x. appt_id x = i \<and> business_id x = b) xs = [a]"
proof -
  have "filter (\<lambda>x. appt_id x = i \<and> business_id x = b) xs
        = filter (\<lambda>x. business_id x = b) (filter (\<lambda>x. appt_id x = i) xs)"
    by (simp add: conj_commute)
  with assms show ?thesis by simp
qed

lemma updateStatus_invalid:
  "(case target of None \<Rightarrow> True | Some s \<Rightarrow> s \<notin> set allowedStatuses) \<Longrightarrow>
   updateStatus f businessId appointmentId target w = (Reply 400 (ErrorBody ''Invalid status''), w)"
  unfolding updateStatus_def by (auto split: option.splits)

lemma updateStatus_accepted:
  assumes "s \<in> set allowedStatuses"
    and "filter (\<lambda>x. appt_id x = appointmentId) (appointments w) = [a]"
    and "business_id a = businessId"
    and "\<not> st_select_err f" "st_update_err f = None"
  shows "updateStatus f businessId appointmentId (Some s) w =
     (Reply 200 (AppointmentBody (a\<lparr>status := s\<rparr>)),
      w\<lparr>appointments := map (\<lambda>x. if appt_id x = appointmentId then x\<lparr>status := s\<rparr> else x)
                           (appointments w)\<rparr>)"
  using assms filter_both_single[OF assms(2,3)]
  unfolding updateStatus_def updateAppointmentById_def single_def
  by simp

lemma updateStatus_200:
  assumes "updateStatus f businessId appointmentId target w = (Reply 200 (AppointmentBody u), w')"
  shows "status u \<in> set allowedStatuses \<and> status u \<noteq> ''scheduled''"
proof -
  have ns: "''scheduled'' \<notin> set allowedStatuses" by (simp add: allowedStatuses_def)
  from assms have "status u \<in> set allowedStatuses"
    unfolding updateStatus_def updateAppointmentById_def
    by (auto split: option.splits if_splits sum.splits list.splits simp: single_def)
  with ns show ?thesis by auto
qed


text \<open>
  Claim C9. A request whose target is one of \<open>completed\<close>, \<open>no_show\<close>, \<open>cancelled\<close>, for
  an appointment of the business that the store holds once, is answered 200 when the store
  answers, and the row takes the target status; the handler does not read the status the
  row had, so this holds from \<open>scheduled\<close> in particular. Any other target, or none, is
  answered 400 \<open>Invalid status\<close> and the world is unchanged. An update that is answered
  200 never leaves or puts the row in status \<open>scheduled\<close>: the transition is one-way.
\<close>

theorem C9_explicit_status_update:
  "(\<forall>s a. s \<in> {''completed'', ''no_show'', ''cancelled''}
         \<and> filter (\<lambda>x. appt_id x = appointmentId) (appointments w) = [a]
         \<and> business_id a = businessId \<and> status a = ''scheduled''
         \<and> \<not> st_select_err f \<and> st_update_err f = None \<longrightarrow>
       updateStatus f businessId appointmentId (Some s) w =
         (Reply 200 (AppointmentBody (a\<lparr>status := s\<rparr>)),
          w\<lparr>appointments :=
              map (\<lambda>x. if appt_id x = appointmentId then x\<lparr>status := s\<rparr> else x)
                (appointments w)\<rparr>))
   \<and> ((case target of None \<Rightarrow> True
        | Some s \<Rightarrow> s \<notin> {''completed'', ''no_show'', ''cancelled''}) \<longrightarrow>
       updateStatus f businessId appointmentId target w =
         (Reply 400 (ErrorBody ''Invalid status''), w))
   \<and> (\<forall>u w'. updateStatus f businessId appointmentId target w =
                 (Reply 200 (AppointmentBody u), w') \<longrightarrow>
         status u \<in> {''completed'', ''no_show'', ''cancelled''} \<and> status u \<noteq> ''scheduled'')"
proof -
  have allowed: "set allowedStatuses = {''completed'', ''no_show'', ''cancelled''}"
    by (simp add: allowedStatuses_def)
  show ?thesis
  proof (intro conjI allI impI)
    fix s a
    assume h: "s \<in> {''completed'', ''no_show'', ''cancelled''}
         \<and> filter (\<lambda>x. appt_id x = appointmentId) (appointments w) = [a]
         \<and> business_id a = businessId \<and> status a = ''scheduled''
         \<and> \<not> st_select_err f \<and> st_update_err f = None"
    then have "s \<in> set allowedStatuses" unfolding allowed by simp
    with h show "updateStatus f businessId appointmentId (Some s) w =
         (Reply 200 (AppointmentBody (a\<lparr>status := s\<rparr>)),
          w\<lparr>appointments :=
              map (\<lambda>x. if appt_id x = appointmentId then x\<lparr>status := s\<rparr> else x)
                (appointments w)\<rparr>)"
      by (intro updateStatus_accepted) simp_all
  next
    assume "case target of None \<Rightarrow> True
        | Some s \<Rightarrow> s \<notin> {''completed'', ''no_show'', ''cancelled''}"
    then have "case target of None \<Rightarrow> True | Some s \<Rightarrow> s \<notin> set allowedStatuses"
      unfolding allowed .
    then show "updateStatus f businessId appointmentId target w =
         (Reply 400 (ErrorBody ''Invalid status''), w)"
      by (rule updateStatus_invalid)
  next
    fix u w'
    assume "updateStatus f businessId appointmentId target w =
                 (Reply 200 (AppointmentBody u), w')"
    from updateStatus_200[OF this]
    show "status u \<in> {''completed'', ''no_show'', ''cancelled''}" "status u \<noteq> ''scheduled''"
      unfolding allowed by simp_all
  qed
qed

text \<open>
  An instance: the example appointment is cancelled, and a request for the status
  \<open>scheduled\<close> is refused.
\<close>

theorem C9_explicit_status_update_witness:
  "updateStatus noStatusFaults 1 1 (Some ''cancelled'') exampleWorld =
     (Reply 200 (AppointmentBody (exampleAppointment\<lparr>status := ''cancelled''\<rparr>)),
      exampleWorld\<lparr>appointments := [exampleAppointment\<lparr>status := ''cancelled''\<rparr>]\<rparr>)
   \<and> updateStatus noStatusFaults 1 1 (Some ''scheduled'') exampleWorld =
     (Reply 400 (ErrorBody ''Invalid status''), exampleWorld)"
proof -
  have ok: "''cancelled'' \<in> {''completed'', ''no_show'', ''cancelled''}
         \<and> filter (\<lambda>x. appt_id x = 1) (appointments exampleWorld) = [exampleAppointment]
         \<and> business_id exampleAppointment = 1 \<and> status exampleAppointment = ''scheduled''
         \<and> \<not> st_select_err noStatusFaults \<and> st_update_err noStatusFaults = None"
    by (simp add: exampleWorld_def exampleAppointment_def noStatusFaults_def)
  have bad: "case Some ''scheduled'' of None \<Rightarrow> True
        | Some s \<Rightarrow> s \<notin> {''completed'', ''no_show'', ''cancelled''}"
    by simp
  have "updateStatus noStatusFaults 1 1 (Some ''cancelled'') exampleWorld =
     (Reply 200 (AppointmentBody (exampleAppointment\<lparr>status := ''cancelled''\<rparr>)),
      exampleWorld\<lparr>appointments :=
        map (\<lambda>x. if appt_id x = 1 then x\<lparr>status := ''cancelled''\<rparr> else x)
          (appointments exampleWorld)\<rparr>)"
    using C9_explicit_status_update[of 1 exampleWorld 1 noStatusFaults "Some ''scheduled''",
        THEN conjunct1, rule_format, OF ok] .
  moreover have "map (\<lambda>x. if appt_id x = 1 then x\<lparr>status := ''cancelled''\<rparr> else x)
          (appointments exampleWorld) = [exampleAppointment\<lparr>status := ''cancelled''\<rparr>]"
    by (simp add: exampleWorld_def exampleAppointment_def)
  moreover have "updateStatus noStatusFaults 1 1 (Some ''scheduled'') exampleWorld =
     (Reply 400 (ErrorBody ''Invalid status''), exampleWorld)"
    using C9_explicit_status_update[of 1 exampleWorld 1 noStatusFaults "Some ''scheduled''",
        THEN conjunct2, THEN conjunct1, rule_format, OF bad] .
  ultimately show ?thesis by simp
qed

section \<open>The no-show scan (claim C6)\<close>

lemma markBusinessNoShows_row:
  assumes row: "filter (\<lambda>x. appt_id x = i) (appointments w) = [a]"
    and nf: "business_id a = biz_id b \<Longrightarrow> \<not> ns_appointments_select_err f (biz_id b)"
    and nu: "business_id a = biz_id b \<Longrightarrow> \<not> ns_update_err f (biz_id b)"
  shows "filter (\<lambda>x. appt_id x = i) (appointments (markBusinessNoShows f now b w)) =
     [if noShowHit now b a then a\<lparr>status := ''no_show''\<rparr> else a]"
proof -
  define sel where "sel = filter (\<lambda>x. business_id x = biz_id b \<and> status x = ''scheduled'') (appointments w)"
  define ids where "ids = map appt_id (filter (isOverdue now (graceMinutesOf b)) sel)"
  define g where "g = (\<lambda>x::appointment. if appt_id x \<in> set ids then x\<lparr>status := ''no_show''\<rparr> else x)"
  have mem: "a \<in> set (appointments w)" "appt_id a = i" using only_row_mem[OF row] by auto
  have "(i \<in> set (map appt_id (filter (\<lambda>x. (business_id x = biz_id b \<and> status x = ''scheduled'')
                  \<and> isOverdue now (graceMinutesOf b) x) (appointments w)))) = noShowHit now b a"
    unfolding only_row_id_in_filter[OF row] noShowHit_def by blast
  then have inids: "(appt_id a \<in> set ids) = noShowHit now b a"
    unfolding ids_def sel_def mem(2) by (simp only: filter_filter conj_commute)
  have gid: "\<And>x. appt_id (g x) = appt_id x" unfolding g_def by simp
  have rowg: "filter (\<lambda>x. appt_id x = i) (map g (appointments w)) = [g a]"
    by (rule only_row_map[OF row gid])
  have ga: "g a = (if noShowHit now b a then a\<lparr>status := ''no_show''\<rparr> else a)"
    unfolding g_def inids ..
  have body: "markBusinessNoShows f now b w =
      (if ns_appointments_select_err f (biz_id b) \<or> sel = [] \<or> ids = [] \<or> ns_update_err f (biz_id b)
       then w else w\<lparr>appointments := map g (appointments w)\<rparr>)"
    unfolding markBusinessNoShows_def Let_def sel_def ids_def g_def by simp
  show ?thesis
  proof (cases "noShowHit now b a")
    case True
    then have same: "business_id a = biz_id b" unfolding noShowHit_def by simp
    from True mem(1) have a1: "a \<in> set sel" unfolding sel_def noShowHit_def by simp
    then have "sel \<noteq> []" by (rule mem_not_Nil)
    moreover have "ids \<noteq> []" using True inids by auto
    ultimately have "markBusinessNoShows f now b w = w\<lparr>appointments := map g (appointments w)\<rparr>"
      unfolding body using nf[OF same] nu[OF same] by simp
    then show ?thesis using rowg ga by simp
  next
    case False
    show ?thesis
    proof (cases "ns_appointments_select_err f (biz_id b) \<or> sel = [] \<or> ids = [] \<or> ns_update_err f (biz_id b)")
      case True
      then have "markBusinessNoShows f now b w = w" unfolding body by simp
      then show ?thesis using row False by simp
    next
      case nc: False
      then have "markBusinessNoShows f now b w = w\<lparr>appointments := map g (appointments w)\<rparr>"
        unfolding body by simp
      then show ?thesis using rowg ga by simp
    qed
  qed
qed


lemma isOverdue_status: "isOverdue now g (a\<lparr>status := s\<rparr>) = isOverdue now g a"
  unfolding isOverdue_def by simp

lemma markNoShowsFor_row:
  assumes "filter (\<lambda>x. appt_id x = i) (appointments w) = [a]"
    and "\<not> ns_appointments_select_err f (business_id a)"
    and "\<not> ns_update_err f (business_id a)"
  shows "filter (\<lambda>x. appt_id x = i) (appointments (markNoShowsFor f now bs w)) =
     [if status a = ''scheduled''
         \<and> (\<exists>b\<in>set bs. biz_id b = business_id a \<and> isOverdue now (graceMinutesOf b) a)
      then a\<lparr>status := ''no_show''\<rparr> else a]"
  using assms
proof (induction bs arbitrary: w a)
  case Nil
  then show ?case by simp
next
  case (Cons b rest)
  define a1 where "a1 = (if noShowHit now b a then a\<lparr>status := ''no_show''\<rparr> else a)"
  have biz1: "business_id a1 = business_id a" unfolding a1_def by simp
  have row1: "filter (\<lambda>x. appt_id x = i) (appointments (markBusinessNoShows f now b w)) = [a1]"
    unfolding a1_def using Cons.prems by (intro markBusinessNoShows_row) simp_all
  have ih: "filter (\<lambda>x. appt_id x = i)
        (appointments (markNoShowsFor f now rest (markBusinessNoShows f now b w))) =
     [if status a1 = ''scheduled''
         \<and> (\<exists>b\<in>set rest. biz_id b = business_id a1 \<and> isOverdue now (graceMinutesOf b) a1)
      then a1\<lparr>status := ''no_show''\<rparr> else a1]"
  proof (rule Cons.IH[OF row1])
    show "\<not> ns_appointments_select_err f (business_id a1)"
      unfolding biz1 by (rule Cons.prems(2))
    show "\<not> ns_update_err f (business_id a1)"
      unfolding biz1 by (rule Cons.prems(3))
  qed
  show ?case
  proof (cases "noShowHit now b a")
    case True
    then have a1: "a1 = a\<lparr>status := ''no_show''\<rparr>" unfolding a1_def by simp
    from True have "status a = ''scheduled''" "biz_id b = business_id a"
      "isOverdue now (graceMinutesOf b) a" unfolding noShowHit_def by simp_all
    then show ?thesis unfolding markNoShowsFor.simps ih a1 by simp
  next
    case False
    then have a1: "a1 = a" unfolding a1_def by simp
    from False have "\<not> (status a = ''scheduled'' \<and> biz_id b = business_id a
        \<and> isOverdue now (graceMinutesOf b) a)" unfolding noShowHit_def by auto
    then show ?thesis unfolding markNoShowsFor.simps ih a1 by auto
  qed
qed

lemma only_business:
  assumes "filter (\<lambda>x. biz_id x = i) bs = [b]"
  shows "(\<exists>x\<in>set bs. biz_id x = i \<and> P x) = P b"
proof
  assume "\<exists>x\<in>set bs. biz_id x = i \<and> P x"
  then obtain x where x: "x \<in> set bs" "biz_id x = i" "P x" by auto
  then have "x \<in> set (filter (\<lambda>x. biz_id x = i) bs)" by simp
  then have "x \<in> set [b]" unfolding assms .
  with x(3) show "P b" by simp
next
  assume p: "P b"
  have "b \<in> set (filter (\<lambda>x. biz_id x = i) bs)" unfolding assms by simp
  then have "b \<in> set bs" "biz_id b = i" by auto
  with p show "\<exists>x\<in>set bs. biz_id x = i \<and> P x" by auto
qed

lemma autoMarkNoShows_row:
  assumes row: "filter (\<lambda>x. appt_id x = appt_id a) (appointments w) = [a]"
    and biz: "filter (\<lambda>x. biz_id x = business_id a) (businesses w) = [b]"
    and reads: "\<not> ns_businesses_select_err f" "\<not> ns_appointments_select_err f (business_id a)"
    and writes: "\<not> ns_update_err f (business_id a)"
  shows "filter (\<lambda>x. appt_id x = appt_id a) (appointments (autoMarkNoShows f w)) =
     [if status a = ''scheduled'' \<and> clock w > appointment_time a + graceMinutesOf b * 60000
      then a\<lparr>status := ''no_show''\<rparr> else a]"
proof -
  have "b \<in> set (filter (\<lambda>x. biz_id x = business_id a) (businesses w))" unfolding biz by simp
  then have ne: "businesses w \<noteq> []" by auto
  have run: "autoMarkNoShows f w = markNoShowsFor f (clock w) (businesses w) w"
    unfolding autoMarkNoShows_def Let_def using ne reads(1) by simp
  show ?thesis
    unfolding run markNoShowsFor_row[OF row reads(2) writes] only_business[OF biz]
    by (simp add: isOverdue_def MS_PER_MINUTE_def)
qed

text \<open>
  Claim C6. Take an appointment that the store holds once, whose business the store holds
  once, and a scan in which the store answers the reads and the update for that business.
  When the appointment is scheduled and the settings of the business give
  \<open>no_show_grace_minutes = g\<close>, the row is \<open>no_show\<close> after the scan exactly when the
  clock is strictly after the appointment time plus \<open>g\<close> minutes; when it is scheduled and
  the business has no settings, or settings without grace minutes, exactly when the clock
  is strictly after the appointment time plus 30 minutes. Otherwise the row is as it was,
  and so is a row that is not scheduled.
\<close>

theorem C6_no_show_scan:
  assumes row: "filter (\<lambda>x. appt_id x = appt_id a) (appointments w) = [a]"
    and biz: "filter (\<lambda>x. biz_id x = business_id a) (businesses w) = [b]"
    and reads: "\<not> ns_businesses_select_err f" "\<not> ns_appointments_select_err f (business_id a)"
    and writes: "\<not> ns_update_err f (business_id a)"
  shows "(\<forall>st g. status a = ''scheduled''
              \<and> settings b = Some st \<and> no_show_grace_minutes st = Some g \<longrightarrow>
            filter (\<lambda>x. appt_id x = appt_id a) (appointments (autoMarkNoShows f w)) =
              [if clock w > appointment_time a + g * 60000
               then a\<lparr>status := ''no_show''\<rparr> else a])
       \<and> (status a = ''scheduled''
            \<and> (settings b = None
                \<or> (\<exists>st. settings b = Some st \<and> no_show_grace_minutes st = None)) \<longrightarrow>
            filter (\<lambda>x. appt_id x = appt_id a) (appointments (autoMarkNoShows f w)) =
              [if clock w > appointment_time a + 30 * 60000
               then a\<lparr>status := ''no_show''\<rparr> else a])
       \<and> (status a \<noteq> ''scheduled'' \<longrightarrow>
            filter (\<lambda>x. appt_id x = appt_id a) (appointments (autoMarkNoShows f w)) = [a])"
proof -
  note main = autoMarkNoShows_row[OF row biz reads writes]
  show ?thesis
  proof (intro conjI allI impI)
    fix st g
    assume h: "status a = ''scheduled''
        \<and> settings b = Some st \<and> no_show_grace_minutes st = Some g"
    then have "graceMinutesOf b = g"
      by (simp add: graceMinutesOf_def)
    with main h show "filter (\<lambda>x. appt_id x = appt_id a) (appointments (autoMarkNoShows f w)) =
              [if clock w > appointment_time a + g * 60000
               then a\<lparr>status := ''no_show''\<rparr> else a]"
      by simp
  next
    assume h: "status a = ''scheduled''
        \<and> (settings b = None \<or> (\<exists>st. settings b = Some st \<and> no_show_grace_minutes st = None))"
    then have "graceMinutesOf b = 30"
      by (auto simp: graceMinutesOf_def)
    with main h show "filter (\<lambda>x. appt_id x = appt_id a) (appointments (autoMarkNoShows f w)) =
              [if clock w > appointment_time a + 30 * 60000
               then a\<lparr>status := ''no_show''\<rparr> else a]"
      by simp
  next
    assume "status a \<noteq> ''scheduled''"
    with main show "filter (\<lambda>x. appt_id x = appt_id a) (appointments (autoMarkNoShows f w)) = [a]"
      by simp
  qed
qed

text \<open>
  Instances, for the example appointment at 13:00 UTC. With the grace minutes unset it is
  marked at 13:31 and not at 13:30:00.000; with 45 grace minutes it is not marked at 13:31
  and is marked at 13:45:00.001; once cancelled it is not marked.
\<close>

theorem C6_no_show_scan_witness:
  "status exampleAppointment = ''scheduled''
   \<and> filter (\<lambda>x. appt_id x = 1) (appointments (autoMarkNoShows noNoShowFaults exampleWorld)) =
       [exampleAppointment\<lparr>status := ''no_show''\<rparr>]
   \<and> filter (\<lambda>x. appt_id x = 1)
        (appointments (autoMarkNoShows noNoShowFaults (exampleWorld\<lparr>clock := 1717248600000\<rparr>))) =
       [exampleAppointment]
   \<and> filter (\<lambda>x. appt_id x = 1)
        (appointments (autoMarkNoShows noNoShowFaults
           (exampleWorld\<lparr>businesses := [exampleBusiness\<lparr>settings :=
              Some \<lparr>reminder_24h = None, reminder_2h = None, no_show_grace_minutes = Some 45,
                    max_appointments_per_slot = None\<rparr>\<rparr>]\<rparr>))) =
       [exampleAppointment]
   \<and> filter (\<lambda>x. appt_id x = 1)
        (appointments (autoMarkNoShows noNoShowFaults
           (exampleWorld\<lparr>businesses := [exampleBusiness\<lparr>settings :=
              Some \<lparr>reminder_24h = None, reminder_2h = None, no_show_grace_minutes = Some 45,
                    max_appointments_per_slot = None\<rparr>\<rparr>],
              clock := 1717249500001\<rparr>))) =
       [exampleAppointment\<lparr>status := ''no_show''\<rparr>]
   \<and> filter (\<lambda>x. appt_id x = 1)
        (appointments (autoMarkNoShows noNoShowFaults
           (exampleWorld\<lparr>appointments := [exampleAppointment\<lparr>status := ''cancelled''\<rparr>]\<rparr>))) =
       [exampleAppointment\<lparr>status := ''cancelled''\<rparr>]"
proof -
  let ?st = "\<lparr>reminder_24h = None, reminder_2h = None, no_show_grace_minutes = Some 45,
              max_appointments_per_slot = None\<rparr>"
  let ?b45 = "exampleBusiness\<lparr>settings := Some ?st\<rparr>"
  let ?w45 = "exampleWorld\<lparr>businesses := [?b45]\<rparr>"
  let ?c = "exampleAppointment\<lparr>status := ''cancelled''\<rparr>"
  let ?wc = "exampleWorld\<lparr>appointments := [?c]\<rparr>"
  have unset: "status exampleAppointment = ''scheduled''
      \<and> (settings exampleBusiness = None
          \<or> (\<exists>st. settings exampleBusiness = Some st \<and> no_show_grace_minutes st = None))"
    by (simp add: exampleBusiness_def exampleAppointment_def)
  have set45: "status exampleAppointment = ''scheduled''
      \<and> settings ?b45 = Some ?st \<and> no_show_grace_minutes ?st = Some 45"
    by (simp add: exampleAppointment_def)
  have canc: "status ?c \<noteq> ''scheduled''"
    by simp
  have i: "appt_id exampleAppointment = 1" "appointment_time exampleAppointment = 1717246800000"
    "status exampleAppointment = ''scheduled''" "clock exampleWorld = 1717248660000"
    by (simp_all add: exampleAppointment_def exampleWorld_def)
  have a: "filter (\<lambda>x. appt_id x = appt_id exampleAppointment)
       (appointments (autoMarkNoShows noNoShowFaults exampleWorld)) =
     [if clock exampleWorld > appointment_time exampleAppointment + 30 * 60000
      then exampleAppointment\<lparr>status := ''no_show''\<rparr> else exampleAppointment]"
    by (rule C6_no_show_scan[where b = exampleBusiness, THEN conjunct2, THEN conjunct1,
          rule_format, OF _ _ _ _ _ unset])
       (simp_all add: exampleWorld_def exampleAppointment_def exampleBusiness_def noNoShowFaults_def)
  have b: "filter (\<lambda>x. appt_id x = appt_id exampleAppointment)
       (appointments (autoMarkNoShows noNoShowFaults (exampleWorld\<lparr>clock := 1717248600000\<rparr>))) =
     [if clock (exampleWorld\<lparr>clock := 1717248600000\<rparr>)
           > appointment_time exampleAppointment + 30 * 60000
      then exampleAppointment\<lparr>status := ''no_show''\<rparr> else exampleAppointment]"
    by (rule C6_no_show_scan[where b = exampleBusiness, THEN conjunct2, THEN conjunct1,
          rule_format, OF _ _ _ _ _ unset])
       (simp_all add: exampleWorld_def exampleAppointment_def exampleBusiness_def noNoShowFaults_def)
  have c: "filter (\<lambda>x. appt_id x = appt_id exampleAppointment)
       (appointments (autoMarkNoShows noNoShowFaults ?w45)) =
     [if clock ?w45 > appointment_time exampleAppointment + 45 * 60000
      then exampleAppointment\<lparr>status := ''no_show''\<rparr> else exampleAppointment]"
    by (rule C6_no_show_scan[where b = ?b45, THEN conjunct1, rule_format, OF _ _ _ _ _ set45])
       (simp_all add: exampleWorld_def exampleAppointment_def exampleBusiness_def noNoShowFaults_def)
  have d: "filter (\<lambda>x. appt_id x = appt_id exampleAppointment)
       (appointments (autoMarkNoShows noNoShowFaults (?w45\<lparr>clock := 1717249500001\<rparr>))) =
     [if clock (?w45\<lparr>clock := 1717249500001\<rparr>) > appointment_time exampleAppointment + 45 * 60000
      then exampleAppointment\<lparr>status := ''no_show''\<rparr> else exampleAppointment]"
    by (rule C6_no_show_scan[where b = ?b45, THEN conjunct1, rule_format, OF _ _ _ _ _ set45])
       (simp_all add: exampleWorld_def exampleAppointment_def exampleBusiness_def noNoShowFaults_def)
  have e: "filter (\<lambda>x. appt_id x = appt_id ?c) (appointments (autoMarkNoShows noNoShowFaults ?wc))
      = [?c]"
    by (rule C6_no_show_scan[where b = exampleBusiness, THEN conjunct2, THEN conjunct2,
          rule_format, OF _ _ _ _ _ canc])
       (simp_all add: exampleWorld_def exampleAppointment_def exampleBusiness_def noNoShowFaults_def)
  from a b c d e show ?thesis by (simp add: i)
qed


section \<open>Facts about the reader of the instances\<close>

lemma isoInstant_values:
  "isoInstant ''2024-05-31T13:00:00Z'' = Some 1717160400000"
  "isoInstant ''2024-05-31T00:00:00Z'' = Some 1717113600000"
  "isoInstant ''2024-05-31T23:59:59Z'' = Some 1717199999000"
  "isoInstant ''2024-06-01T12:00:00Z'' = Some 1717243200000"
  "isoInstant ''2024-06-01T12:30:00Z'' = Some 1717245000000"
  "isoInstant ''2024-06-01T13:15:00Z'' = Some 1717247700000"
  "isoInstant ''2024-06-01T23:59:59.500Z'' = Some 1717286399500"
  "isoInstant ''2024-06-01T00:00:00Z'' = Some 1717200000000"
  "isoInstant ''2024-06-01T23:59:59Z'' = Some 1717286399000"
  "isoInstant ''2024-06-02T13:00:00Z'' = Some 1717333200000"
  "isoInstant ''2024-06-02T01:15:00+12:00'' = Some 1717247700000"
  "isoInstant ''2024-06-02T00:00:00Z'' = Some 1717286400000"
  "isoInstant ''2024-06-02T23:59:59Z'' = Some 1717372799000"
  by code_simp+

lemma exampleEnv_reads:
  "newDate exampleEnv = isoInstant"
  "timestamptz exampleEnv s =
     (case isoInstant s of
        None \<Rightarrow> Inl ''invalid input syntax for type timestamp with time zone''
      | Some t \<Rightarrow> Inr t)"
  "gateway exampleEnv n = Responded None"
  "formatAppointmentTime exampleEnv t tz = ''01 Jun, 09:00 AM''"
  "confirmationText exampleEnv k formatted = formatted"
  "rescheduleText exampleEnv formatted = formatted"
  "reminderLocalTime exampleEnv t tz = ''2024-06-01 09:00 AM''"
  "replace exampleEnv str pattern replacement = str"
  by (simp_all add: exampleEnv_def)

lemma buildSlotLoadMap_Nil: "loadOf (buildSlotLoadMap []) k = 0"
  by (simp add: buildSlotLoadMap_def loadOf_def)

section \<open>Rescheduling resets the status and clears the logs (claim C5)\<close>

lemma sendWhatsAppMessage_tables:
  "businesses (snd (sendWhatsAppMessage e p t w)) = businesses w"
  "customers (snd (sendWhatsAppMessage e p t w)) = customers w"
  "appointments (snd (sendWhatsAppMessage e p t w)) = appointments w"
  "appointment_services (snd (sendWhatsAppMessage e p t w)) = appointment_services w"
  "automation_rules (snd (sendWhatsAppMessage e p t w)) = automation_rules w"
  "automation_logs (snd (sendWhatsAppMessage e p t w)) = automation_logs w"
  "messages (snd (sendWhatsAppMessage e p t w)) = messages w"
  "clock (snd (sendWhatsAppMessage e p t w)) = clock w"
  unfolding sendWhatsAppMessage_def Let_def by simp_all

lemma sendAndLogSystemMessage_tables:
  "businesses (sendAndLogSystemMessage e err c p t w) = businesses w"
  "customers (sendAndLogSystemMessage e err c p t w) = customers w"
  "appointments (sendAndLogSystemMessage e err c p t w) = appointments w"
  "appointment_services (sendAndLogSystemMessage e err c p t w) = appointment_services w"
  "automation_rules (sendAndLogSystemMessage e err c p t w) = automation_rules w"
  "automation_logs (sendAndLogSystemMessage e err c p t w) = automation_logs w"
  "clock (sendAndLogSystemMessage e err c p t w) = clock w"
  unfolding sendAndLogSystemMessage_def Let_def by (simp_all add: sendWhatsAppMessage_tables)

lemma updateAppointmentById_Inr:
  assumes "updateAppointmentById err i upd w = Inr (u, w1)" "\<And>x. appt_id (upd x) = appt_id x"
  shows "\<exists>a. filter (\<lambda>x. appt_id x = i) (appointments w) = [a] \<and> u = upd a
           \<and> w1 = w\<lparr>appointments := map (\<lambda>x. if appt_id x = i then upd x else x) (appointments w)\<rparr>
           \<and> filter (\<lambda>x. appt_id x = i) (appointments w1) = [u]"
proof -
  from assms(1) obtain a where a: "filter (\<lambda>x. appt_id x = i) (appointments w) = [a]"
     "u = upd a"
     "w1 = w\<lparr>appointments := map (\<lambda>x. if appt_id x = i then upd x else x) (appointments w)\<rparr>"
    unfolding updateAppointmentById_def single_def
    by (auto split: option.splits list.splits)
  have idg: "\<And>x. appt_id (if appt_id x = i then upd x else x) = appt_id x"
    using assms(2) by simp
  have "filter (\<lambda>x. appt_id x = i) (map (\<lambda>x. if appt_id x = i then upd x else x) (appointments w))
        = [if appt_id a = i then upd a else a]"
    by (rule only_row_map[OF a(1) idg])
  moreover have "appt_id a = i" using only_row_mem[OF a(1)] by simp
  ultimately have "filter (\<lambda>x. appt_id x = i) (appointments w1) = [u]"
    unfolding a(2,3) by simp
  with a show ?thesis by blast
qed

lemma applyReschedule_200:
  assumes "applyReschedule e f appointmentId biz dur t slot w = (Reply 200 b, w')"
  shows "\<exists>u. b = AppointmentBody u \<and> status u = ''scheduled'' \<and> appointment_time u = t
            \<and> filter (\<lambda>x. appt_id x = appointmentId) (appointments w') = [u]
            \<and> automation_logs w' =
                (if rs_logs_delete_err f then automation_logs w
                 else filter (\<lambda>l. log_appointment_id l \<noteq> appointmentId) (automation_logs w))"
proof -
  let ?upd = "\<lambda>a::appointment. a\<lparr>appointment_time := t, slot_minutes := slot,
                     duration_minutes := dur, status := ''scheduled''\<rparr>"
  from assms(1) obtain u w1 where up: "updateAppointmentById (rs_update_err f) appointmentId ?upd w = Inr (u, w1)"
    unfolding applyReschedule_def by (auto split: sum.splits)
  have "\<And>x. appt_id (?upd x) = appt_id x" by simp
  from updateAppointmentById_Inr[OF up this] obtain a where
    a: "u = ?upd a" "filter (\<lambda>x. appt_id x = appointmentId) (appointments w1) = [u]"
       "w1 = w\<lparr>appointments := map (\<lambda>x. if appt_id x = appointmentId then ?upd x else x)
                                 (appointments w)\<rparr>"
    by blast
  have logs1: "automation_logs w1 = automation_logs w"
    using arg_cong[OF a(3), of automation_logs] by simp
  from assms up have fin: "appointments w' = appointments w1 \<and> b = AppointmentBody u
      \<and> automation_logs w' =
          (if rs_logs_delete_err f then automation_logs w1
           else filter (\<lambda>l. log_appointment_id l \<noteq> appointmentId) (automation_logs w1))"
    unfolding applyReschedule_def
    by (auto split: sum.splits option.splits simp: Let_def sendAndLogSystemMessage_tables)
  have "filter (\<lambda>x. appt_id x = appointmentId) (appointments w') = [u]"
    using fin a(2) by simp
  moreover note fin
  ultimately show ?thesis using a(1) logs1 by simp
qed

lemma rescheduleSlot_200:
  assumes "rescheduleSlot e f businessId appointmentId time w = (Reply 200 b, w')"
  shows "\<exists>s t biz dur slot. time = Some s \<and> timestamptz e s = Inr t
      \<and> applyReschedule e f appointmentId biz dur t slot w = (Reply 200 b, w')"
  using assms unfolding rescheduleSlot_def
  by (auto split: option.splits if_splits sum.splits simp: Let_def)

lemmas reschedule_eval = rescheduleSlot_def applyReschedule_def updateAppointmentById_def
  exampleWorld_def exampleAppointment_def exampleBusiness_def exampleCustomer_def
  noRescheduleFaults_def single_def storedDuration_def fetchDayAppointments_def
  dayStart_def dayEnd_def slotMinutesOf_def capacityAt_def exampleEnv_reads isoInstant_values
  capacityCheck_isAvailable isAvailable_iff buildSlotLoadMap_Nil maxPerSlotOf_def
  startMinutesOf_def getUTCHours_def getUTCMinutes_def sendAndLogSystemMessage_def
  sendWhatsAppMessage_def Let_def

lemma example_reschedule:
  "rescheduleSlot exampleEnv noRescheduleFaults 1 1 (Some ''2024-06-02T13:00:00Z'')
     (exampleWorld\<lparr>automation_logs := [\<lparr>log_appointment_id = 1, log_rule_id = 1\<rparr>]\<rparr>)
   = (Reply 200 (AppointmentBody (exampleAppointment\<lparr>appointment_time := 1717333200000\<rparr>)),
      exampleWorld\<lparr>appointments := [exampleAppointment\<lparr>appointment_time := 1717333200000\<rparr>],
        messages := [\<lparr>msg_id = 1, msg_customer_id = 1, direction = ''out'',
          content = ''01 Jun, 09:00 AM'', msg_status = ''sent'', retry_count = 0,
          msg_error = None, message_type = Some ''system''\<rparr>],
        outbox := [(''+15550100'', ''01 Jun, 09:00 AM'', ''submitted'')]\<rparr>)"
  by (simp add: reschedule_eval freshId_def)

lemma example_reschedule_delete_fails:
  "rescheduleSlot exampleEnv (noRescheduleFaults\<lparr>rs_logs_delete_err := True\<rparr>) 1 1
     (Some ''2024-06-02T13:00:00Z'')
     (exampleWorld\<lparr>automation_logs := [\<lparr>log_appointment_id = 1, log_rule_id = 1\<rparr>]\<rparr>)
   = (Reply 200 (AppointmentBody (exampleAppointment\<lparr>appointment_time := 1717333200000\<rparr>)),
      exampleWorld\<lparr>appointments := [exampleAppointment\<lparr>appointment_time := 1717333200000\<rparr>],
        automation_logs := [\<lparr>log_appointment_id = 1, log_rule_id = 1\<rparr>],
        messages := [\<lparr>msg_id = 1, msg_customer_id = 1, direction = ''out'',
          content = ''01 Jun, 09:00 AM'', msg_status = ''sent'', retry_count = 0,
          msg_error = None, message_type = Some ''system''\<rparr>],
        outbox := [(''+15550100'', ''01 Jun, 09:00 AM'', ''submitted'')]\<rparr>)"
  by (simp add: reschedule_eval freshId_def)

text \<open>
  Claim C5, as amended. When the reschedule handler answers 200, the row of the
  appointment, which is the body of the answer, has the status \<open>scheduled\<close> and the
  instant that the store has read from the time string of the request; and when the store
  has carried out the deletion of the logs, which is the last call of the handler, no
  automation log of the appointment is left, so that the scan finds no log row of the
  appointment for any rule and fires again.
\<close>

theorem C5_reschedule_resets:
  assumes "rescheduleSlot e f businessId appointmentId time w = (Reply 200 b, w')"
  shows "(\<exists>u s. b = AppointmentBody u \<and> time = Some s
            \<and> timestamptz e s = Inr (appointment_time u)
            \<and> status u = ''scheduled''
            \<and> filter (\<lambda>x. appt_id x = appointmentId) (appointments w') = [u])
     \<and> (\<not> rs_logs_delete_err f \<longrightarrow>
          filter (\<lambda>l. log_appointment_id l = appointmentId) (automation_logs w') = []
          \<and> (\<forall>r. logRowsFor appointmentId r w' = []))"
proof -
  from rescheduleSlot_200[OF assms] obtain s t biz dur slot where
    t: "time = Some s" "timestamptz e s = Inr t"
       "applyReschedule e f appointmentId biz dur t slot w = (Reply 200 b, w')"
    by blast
  from applyReschedule_200[OF t(3)] obtain u where
    u: "b = AppointmentBody u" "status u = ''scheduled''" "appointment_time u = t"
       "filter (\<lambda>x. appt_id x = appointmentId) (appointments w') = [u]"
       "automation_logs w' =
          (if rs_logs_delete_err f then automation_logs w
           else filter (\<lambda>l. log_appointment_id l \<noteq> appointmentId) (automation_logs w))"
    by blast
  have "filter (\<lambda>l. log_appointment_id l = appointmentId) (automation_logs w') = []
      \<and> (\<forall>r. logRowsFor appointmentId r w' = [])"
    if "\<not> rs_logs_delete_err f"
    using that u(5) by (simp add: filter_empty_conv logRowsFor_def)
  with t(1,2) u(1-4) show ?thesis by auto
qed

text \<open>
  An instance: the example appointment, with a log of the example rule, is moved to
  2024-06-02 13:00 UTC.
\<close>

theorem C5_reschedule_resets_witness:
  "fst (rescheduleSlot exampleEnv noRescheduleFaults 1 1 (Some ''2024-06-02T13:00:00Z'')
          (exampleWorld\<lparr>automation_logs := [\<lparr>log_appointment_id = 1, log_rule_id = 1\<rparr>]\<rparr>))
       = Reply 200 (AppointmentBody (exampleAppointment\<lparr>appointment_time := 1717333200000\<rparr>))
   \<and> \<not> rs_logs_delete_err noRescheduleFaults
   \<and> filter (\<lambda>l. log_appointment_id l = 1)
        (automation_logs (snd (rescheduleSlot exampleEnv noRescheduleFaults 1 1
          (Some ''2024-06-02T13:00:00Z'')
          (exampleWorld\<lparr>automation_logs := [\<lparr>log_appointment_id = 1, log_rule_id = 1\<rparr>]\<rparr>))))
       = []
   \<and> (\<exists>u s. AppointmentBody (exampleAppointment\<lparr>appointment_time := 1717333200000\<rparr>)
                = AppointmentBody u
            \<and> Some ''2024-06-02T13:00:00Z'' = Some s
            \<and> timestamptz exampleEnv s = Inr (appointment_time u)
            \<and> status u = ''scheduled'')"
proof -
  let ?w = "exampleWorld\<lparr>automation_logs := [\<lparr>log_appointment_id = 1, log_rule_id = 1\<rparr>]\<rparr>"
  let ?r = "rescheduleSlot exampleEnv noRescheduleFaults 1 1 (Some ''2024-06-02T13:00:00Z'') ?w"
  have del: "\<not> rs_logs_delete_err noRescheduleFaults"
    by (simp add: noRescheduleFaults_def)
  have ans: "fst ?r =
      Reply 200 (AppointmentBody (exampleAppointment\<lparr>appointment_time := 1717333200000\<rparr>))"
    unfolding example_reschedule by simp
  then have run: "?r = (Reply 200
      (AppointmentBody (exampleAppointment\<lparr>appointment_time := 1717333200000\<rparr>)), snd ?r)"
    by (simp add: prod_eq_iff)
  note inst = C5_reschedule_resets[OF run]
  have logs: "filter (\<lambda>l. log_appointment_id l = 1) (automation_logs (snd ?r)) = []"
    using inst[THEN conjunct2, rule_format, OF del] by simp
  have row: "\<exists>u s. AppointmentBody (exampleAppointment\<lparr>appointment_time := 1717333200000\<rparr>)
                = AppointmentBody u
            \<and> Some ''2024-06-02T13:00:00Z'' = Some s
            \<and> timestamptz exampleEnv s = Inr (appointment_time u)
            \<and> status u = ''scheduled''"
    using inst[THEN conjunct1] by blast
  from ans del logs row show ?thesis
    by (intro conjI)
qed

text \<open>
  The claim as first stated fails when the store does not carry out the deletion: the
  handler does not read the result of that call, so the same request is answered 200 and
  the log of the rule stays.
\<close>

theorem C5_failed_delete_keeps_logs:
  "rs_logs_delete_err (noRescheduleFaults\<lparr>rs_logs_delete_err := True\<rparr>)
   \<and> fst (rescheduleSlot exampleEnv (noRescheduleFaults\<lparr>rs_logs_delete_err := True\<rparr>) 1 1
          (Some ''2024-06-02T13:00:00Z'')
          (exampleWorld\<lparr>automation_logs := [\<lparr>log_appointment_id = 1, log_rule_id = 1\<rparr>]\<rparr>))
       = Reply 200 (AppointmentBody (exampleAppointment\<lparr>appointment_time := 1717333200000\<rparr>))
   \<and> automation_logs (snd (rescheduleSlot exampleEnv
          (noRescheduleFaults\<lparr>rs_logs_delete_err := True\<rparr>) 1 1
          (Some ''2024-06-02T13:00:00Z'')
          (exampleWorld\<lparr>automation_logs := [\<lparr>log_appointment_id = 1, log_rule_id = 1\<rparr>]\<rparr>)))
       = [\<lparr>log_appointment_id = 1, log_rule_id = 1\<rparr>]"
  unfolding example_reschedule_delete_fails by simp

section \<open>No handler reads the clock (claim C7)\<close>

lemma foldr_max_ge: "x \<in> set ids \<Longrightarrow> x \<le> foldr max ids (0::nat)"
  by (induction ids) (auto simp: max_def)

lemma freshId_notin: "freshId ids \<notin> set ids"
proof
  assume "freshId ids \<in> set ids"
  from foldr_max_ge[OF this] show False unfolding freshId_def by simp
qed

lemma filter_fresh_row:
  "filter (\<lambda>a. appt_id a \<noteq> freshId (map appt_id xs)) xs = xs"
proof -
  have "appt_id a \<noteq> freshId (map appt_id xs)" if "a \<in> set xs" for a
  proof
    assume "appt_id a = freshId (map appt_id xs)"
    with that have "freshId (map appt_id xs) \<in> set (map appt_id xs)" by force
    with freshId_notin show False by blast
  qed
  then show ?thesis by (simp add: filter_id_conv)
qed

lemma sendWhatsAppMessage_clock:
  "sendWhatsAppMessage e p t (w\<lparr>clock := c\<rparr>) =
     (fst (sendWhatsAppMessage e p t w), (snd (sendWhatsAppMessage e p t w))\<lparr>clock := c\<rparr>)"
  unfolding sendWhatsAppMessage_def Let_def by simp

lemma sendAndLogSystemMessage_clock:
  "sendAndLogSystemMessage e err cid p t (w\<lparr>clock := c\<rparr>) =
     (sendAndLogSystemMessage e err cid p t w)\<lparr>clock := c\<rparr>"
  unfolding sendAndLogSystemMessage_def sendWhatsAppMessage_def Let_def by simp

lemma findOrCreateCustomer_clock:
  "findOrCreateCustomer f b ph nm (w\<lparr>clock := c\<rparr>) =
     map_sum id (\<lambda>(cu, w1). (cu, w1\<lparr>clock := c\<rparr>)) (findOrCreateCustomer f b ph nm w)"
  unfolding findOrCreateCustomer_def Let_def by (simp split: option.splits)

lemma persistAppointment_clock:
  "persistAppointment e f b biz cu sv d t slot combo (w\<lparr>clock := c\<rparr>) =
     (fst (persistAppointment e f b biz cu sv d t slot combo w),
      (snd (persistAppointment e f b biz cu sv d t slot combo w))\<lparr>clock := c\<rparr>)"
  unfolding persistAppointment_def sendAndLogSystemMessage_def sendWhatsAppMessage_def Let_def
  by (simp split: option.splits)

lemma fetchDayAppointments_appointments:
  "appointments w' = appointments w \<Longrightarrow>
   fetchDayAppointments e err b s ex w' = fetchDayAppointments e err b s ex w"
  unfolding fetchDayAppointments_def
  by (cases err; cases "timestamptz e (dayStart s)"; cases "timestamptz e (dayEnd s)") simp_all

lemma fetch_clock:
  "fetchBusiness err b (w\<lparr>clock := c\<rparr>) = fetchBusiness err b w"
  "fetchDayAppointments e err' b s ex (w\<lparr>clock := c\<rparr>) = fetchDayAppointments e err' b s ex w"
proof -
  show "fetchBusiness err b (w\<lparr>clock := c\<rparr>) = fetchBusiness err b w"
    unfolding fetchBusiness_def by (simp split: option.splits)
  show "fetchDayAppointments e err' b s ex (w\<lparr>clock := c\<rparr>) = fetchDayAppointments e err' b s ex w"
    by (rule fetchDayAppointments_appointments) simp
qed

lemma bookForCustomer_clock:
  "bookForCustomer e f b cu sv d s combo (w\<lparr>clock := c\<rparr>) =
     (fst (bookForCustomer e f b cu sv d s combo w),
      (snd (bookForCustomer e f b cu sv d s combo w))\<lparr>clock := c\<rparr>)"
  unfolding bookForCustomer_def Let_def
  by (simp split: option.splits sum.splits add: fetch_clock persistAppointment_clock)

lemma createAppointment_clock:
  "createAppointment e f b req (w\<lparr>clock := c\<rparr>) =
     (fst (createAppointment e f b req w), (snd (createAppointment e f b req w))\<lparr>clock := c\<rparr>)"
  unfolding createAppointment_def
  by (simp split: option.splits sum.splits prod.splits
        add: findOrCreateCustomer_clock bookForCustomer_clock)

lemma updateAppointmentById_clock:
  "updateAppointmentById err i upd (w\<lparr>clock := c\<rparr>) =
     map_sum id (\<lambda>(u, w1). (u, w1\<lparr>clock := c\<rparr>)) (updateAppointmentById err i upd w)"
  unfolding updateAppointmentById_def by (simp split: option.splits)

lemma applyReschedule_clock:
  "applyReschedule e f i biz d t slot (w\<lparr>clock := c\<rparr>) =
     (fst (applyReschedule e f i biz d t slot w),
      (snd (applyReschedule e f i biz d t slot w))\<lparr>clock := c\<rparr>)"
proof -
  let ?upd = "\<lambda>a::appointment. a\<lparr>appointment_time := t, slot_minutes := slot,
                     duration_minutes := d, status := ''scheduled''\<rparr>"
  show ?thesis
  proof (cases "updateAppointmentById (rs_update_err f) i ?upd w")
    case (Inl msg)
    then have "updateAppointmentById (rs_update_err f) i ?upd (w\<lparr>clock := c\<rparr>) = Inl msg"
      by (simp add: updateAppointmentById_clock)
    with Inl show ?thesis unfolding applyReschedule_def by simp
  next
    case (Inr p)
    obtain u w1 where p: "p = (u, w1)" by (cases p)
    from Inr p have "updateAppointmentById (rs_update_err f) i ?upd (w\<lparr>clock := c\<rparr>)
        = Inr (u, w1\<lparr>clock := c\<rparr>)"
      by (simp add: updateAppointmentById_clock)
    with Inr p show ?thesis unfolding applyReschedule_def Let_def
      by (simp split: option.splits add: sendAndLogSystemMessage_clock)
  qed
qed

lemma rescheduleSlot_clock:
  "rescheduleSlot e f b i time (w\<lparr>clock := c\<rparr>) =
     (fst (rescheduleSlot e f b i time w), (snd (rescheduleSlot e f b i time w))\<lparr>clock := c\<rparr>)"
  unfolding rescheduleSlot_def Let_def
  by (simp split: option.splits sum.splits add: fetch_clock applyReschedule_clock)


lemmas example_defs = exampleWorld_def exampleAppointment_def exampleBusiness_def
  exampleCustomer_def exampleRequest_def exampleEnv_reads isoInstant_values noBookingFaults_def

lemmas example_eval = example_defs single_def totalDuration_def fetchDayAppointments_def
  dayStart_def dayEnd_def slotMinutesOf_def capacityAt_def maxPerSlotOf_def truthy_def
  tzOrUTC_def orDefault_def startMinutesOf_def getUTCHours_def getUTCMinutes_def freshId_def
  Let_def

lemma example_past_booking:
  "createAppointment exampleEnv noBookingFaults 1
     (exampleRequest ''+15550100'' ''2024-06-01T12:00:00Z'') exampleWorld =
   (Reply 200 (AppointmentBody
      \<lparr>appt_id = 2, business_id = 1, customer_id = 1, appointment_time = 1717243200000,
       slot_minutes = Some 720, duration_minutes = 30, status = ''scheduled'', combo_id = None,
       service = None, archived_at = None\<rparr>),
    exampleWorld\<lparr>appointments := [exampleAppointment,
      \<lparr>appt_id = 2, business_id = 1, customer_id = 1, appointment_time = 1717243200000,
       slot_minutes = Some 720, duration_minutes = 30, status = ''scheduled'', combo_id = None,
       service = None, archived_at = None\<rparr>],
      appointment_services := [\<lparr>as_appointment_id = 1, as_service_id = 1, as_duration_minutes = Some 30\<rparr>,
         \<lparr>as_appointment_id = 2, as_service_id = 1, as_duration_minutes = Some 30\<rparr>],
      messages := [\<lparr>msg_id = 1, msg_customer_id = 1, direction = ''out'',
          content = ''01 Jun, 09:00 AM'', msg_status = ''sent'', retry_count = 0,
          msg_error = None, message_type = Some ''system''\<rparr>],
      outbox := [(''+15550100'', ''01 Jun, 09:00 AM'', ''submitted'')]\<rparr>)"
  unfolding createAppointment_def bookForCustomer_def persistAppointment_def
    findOrCreateCustomer_def fetchBusiness_def sendAndLogSystemMessage_def sendWhatsAppMessage_def
  by (simp add: example_eval
      capacityCheck_isAvailable isAvailable_iff loadOf_buildSlotLoadMap slotsOfAppointment_def
      set_getSlotRange js_ceil_div_def)

lemma example_past_reschedule:
  "fst (rescheduleSlot exampleEnv noRescheduleFaults 1 1 (Some ''2024-05-31T13:00:00Z'')
          exampleWorld)
   = Reply 200 (AppointmentBody (exampleAppointment\<lparr>appointment_time := 1717160400000\<rparr>))"
  by (simp add: reschedule_eval freshId_def)

text \<open>
  Claim C7, as amended. Neither the booking handler nor the reschedule handler reads the
  clock: with any other reading of the clock the answer is the same and the world after is
  the same up to the clock. So a target time at or before now is accepted on the same
  conditions (payload, capacity, answers of the store) as a later one.
\<close>

theorem C7_handlers_ignore_clock:
  "createAppointment e bf businessId req (w\<lparr>clock := now\<rparr>) =
     (fst (createAppointment e bf businessId req w),
      (snd (createAppointment e bf businessId req w))\<lparr>clock := now\<rparr>)
   \<and> rescheduleSlot e rf businessId appointmentId time (w\<lparr>clock := now\<rparr>) =
     (fst (rescheduleSlot e rf businessId appointmentId time w),
      (snd (rescheduleSlot e rf businessId appointmentId time w))\<lparr>clock := now\<rparr>)"
  by (intro conjI createAppointment_clock rescheduleSlot_clock)

text \<open>
  The claim as first stated fails: at 13:31 UTC of 2024-06-01 a booking for 12:00 UTC of
  that day is answered 200 and its row is written, and the example appointment is moved to
  13:00 UTC of the day before.
\<close>

theorem C7_past_time_accepted:
  "newDate exampleEnv ''2024-06-01T12:00:00Z'' = Some 1717243200000
   \<and> (1717243200000::int) \<le> clock exampleWorld
   \<and> fst (createAppointment exampleEnv noBookingFaults 1
            (exampleRequest ''+15550100'' ''2024-06-01T12:00:00Z'') exampleWorld) =
       Reply 200 (AppointmentBody
         \<lparr>appt_id = 2, business_id = 1, customer_id = 1, appointment_time = 1717243200000,
          slot_minutes = Some 720, duration_minutes = 30, status = ''scheduled'',
          combo_id = None, service = None, archived_at = None\<rparr>)
   \<and> length (appointments (snd (createAppointment exampleEnv noBookingFaults 1
            (exampleRequest ''+15550100'' ''2024-06-01T12:00:00Z'') exampleWorld))) = 2
   \<and> newDate exampleEnv ''2024-05-31T13:00:00Z'' = Some 1717160400000
   \<and> (1717160400000::int) \<le> clock exampleWorld
   \<and> fst (rescheduleSlot exampleEnv noRescheduleFaults 1 1 (Some ''2024-05-31T13:00:00Z'')
            exampleWorld) =
       Reply 200 (AppointmentBody (exampleAppointment\<lparr>appointment_time := 1717160400000\<rparr>))"
  unfolding example_past_booking example_past_reschedule
  by (simp add: exampleWorld_def exampleEnv_reads isoInstant_values)

section \<open>A failed insert of line items (claim C4)\<close>

lemma persistAppointment_rollback:
  assumes "appointment_insert_err f = None" "services_insert_err f = Some msg"
    "\<not> rollback_delete_err f"
  shows "persistAppointment e f businessId biz cust services dur t slot combo w =
     (Reply 500 (ErrorBody msg), w)"
  unfolding persistAppointment_def Let_def using assms
  by (simp add: filter_fresh_row)

lemma persistAppointment_no_items:
  assumes "services_insert_err f = Some msg" "\<not> rollback_delete_err f"
  shows "snd (persistAppointment e f businessId biz cust services dur t slot combo w) = w"
    "fst (persistAppointment e f businessId biz cust services dur t slot combo w) \<noteq> Reply 200 b"
  unfolding persistAppointment_def Let_def using assms
  by (simp_all add: filter_fresh_row split: option.splits)

lemma bookForCustomer_no_items:
  assumes "services_insert_err f = Some msg" "\<not> rollback_delete_err f"
  shows "snd (bookForCustomer e f businessId cust services dur s combo w) = w"
    "fst (bookForCustomer e f businessId cust services dur s combo w) \<noteq> Reply 200 b"
  unfolding bookForCustomer_def Let_def
  by (simp_all add: persistAppointment_no_items[OF assms] split: sum.splits)

lemma findOrCreateCustomer_frame:
  assumes "findOrCreateCustomer f businessId ph nm w = Inr (c, w1)"
  shows "w1 = w\<lparr>customers := customers w1\<rparr>"
  using assms unfolding findOrCreateCustomer_def Let_def
  by (auto split: option.splits if_splits)

lemma createAppointment_no_items:
  assumes "services_insert_err f = Some msg" "\<not> rollback_delete_err f"
  shows "snd (createAppointment e f businessId req w) =
           w\<lparr>customers := customers (snd (createAppointment e f businessId req w))\<rparr>"
    "fst (createAppointment e f businessId req w) \<noteq> Reply 200 b"
proof -
  show "fst (createAppointment e f businessId req w) \<noteq> Reply 200 b"
    unfolding createAppointment_def
    by (simp add: bookForCustomer_no_items[OF assms] split: option.splits sum.splits prod.splits)
  show "snd (createAppointment e f businessId req w) =
           w\<lparr>customers := customers (snd (createAppointment e f businessId req w))\<rparr>"
    unfolding createAppointment_def
    by (auto simp: bookForCustomer_no_items[OF assms] split: option.splits sum.splits prod.splits
          dest: findOrCreateCustomer_frame)
qed

lemma example_failed_items:
  "createAppointment exampleEnv (noBookingFaults\<lparr>services_insert_err := Some ''insert failed''\<rparr>) 1
     (exampleRequest ''+15550199'' ''2024-06-01T12:00:00Z'') exampleWorld =
   (Reply 500 (ErrorBody ''insert failed''),
    exampleWorld\<lparr>customers := [exampleCustomer,
       \<lparr>cust_id = 2, cust_business_id = 1, phone = ''+15550199'', cust_name = None\<rparr>]\<rparr>)"
  unfolding createAppointment_def bookForCustomer_def
    findOrCreateCustomer_def fetchBusiness_def
  by (simp add: example_eval persistAppointment_rollback
      capacityCheck_isAvailable isAvailable_iff loadOf_buildSlotLoadMap slotsOfAppointment_def
      set_getSlotRange js_ceil_div_def)


text \<open>
  Claim C4, as amended. When the insert of the line items fails after the appointment row
  was inserted, and the store carries out the compensating delete, the step that persists
  the booking answers 500 with the message of the store and leaves the world exactly as it
  found it. So a request whose line items cannot be written is never answered 200, and
  after it every table but \<open>customers\<close> is as before: the customer row that step 1
  created (or gave its name) stays.
\<close>

theorem C4_line_item_failure_rolls_back:
  "(appointment_insert_err f = None \<and> services_insert_err f = Some msg
      \<and> \<not> rollback_delete_err f \<longrightarrow>
      persistAppointment e f businessId biz cust services dur t slot combo w =
        (Reply 500 (ErrorBody msg), w))
   \<and> (services_insert_err f = Some msg \<and> \<not> rollback_delete_err f \<longrightarrow>
      snd (createAppointment e f businessId req w) =
        w\<lparr>customers := customers (snd (createAppointment e f businessId req w))\<rparr>
      \<and> (\<forall>b. fst (createAppointment e f businessId req w) \<noteq> Reply 200 b))"
proof (intro conjI impI allI)
  assume "appointment_insert_err f = None \<and> services_insert_err f = Some msg
      \<and> \<not> rollback_delete_err f"
  then show "persistAppointment e f businessId biz cust services dur t slot combo w =
        (Reply 500 (ErrorBody msg), w)"
    by (simp add: persistAppointment_rollback)
next
  assume h: "services_insert_err f = Some msg \<and> \<not> rollback_delete_err f"
  then show "snd (createAppointment e f businessId req w) =
        w\<lparr>customers := customers (snd (createAppointment e f businessId req w))\<rparr>"
    using createAppointment_no_items(1)[of f msg] by simp
next
  fix b
  assume h: "services_insert_err f = Some msg \<and> \<not> rollback_delete_err f"
  then show "fst (createAppointment e f businessId req w) \<noteq> Reply 200 b"
    using createAppointment_no_items(2)[of f msg] by simp
qed

text \<open>
  An instance: the line items of a booking from a new phone are refused by the store; the
  tables of appointments and line items are as before.
\<close>

theorem C4_line_item_failure_rolls_back_witness:
  "services_insert_err (noBookingFaults\<lparr>services_insert_err := Some ''insert failed''\<rparr>)
     = Some ''insert failed''
   \<and> \<not> rollback_delete_err (noBookingFaults\<lparr>services_insert_err := Some ''insert failed''\<rparr>)
   \<and> appointments (snd (createAppointment exampleEnv
          (noBookingFaults\<lparr>services_insert_err := Some ''insert failed''\<rparr>) 1
          (exampleRequest ''+15550199'' ''2024-06-01T12:00:00Z'') exampleWorld))
       = appointments exampleWorld
   \<and> appointment_services (snd (createAppointment exampleEnv
          (noBookingFaults\<lparr>services_insert_err := Some ''insert failed''\<rparr>) 1
          (exampleRequest ''+15550199'' ''2024-06-01T12:00:00Z'') exampleWorld))
       = appointment_services exampleWorld"
proof -
  let ?f = "noBookingFaults\<lparr>services_insert_err := Some ''insert failed''\<rparr>"
  let ?r = "createAppointment exampleEnv ?f 1
              (exampleRequest ''+15550199'' ''2024-06-01T12:00:00Z'') exampleWorld"
  have h: "services_insert_err ?f = Some ''insert failed'' \<and> \<not> rollback_delete_err ?f"
    by (simp add: noBookingFaults_def)
  have "snd ?r = exampleWorld\<lparr>customers := customers (snd ?r)\<rparr>"
    using C4_line_item_failure_rolls_back[where f = ?f and msg = "''insert failed''"
        and e = exampleEnv and businessId = 1 and biz = exampleBusiness
        and cust = exampleCustomer and services = "[]" and dur = 0 and t = 0 and slot = None
        and combo = None and w = exampleWorld
        and req = "exampleRequest ''+15550199'' ''2024-06-01T12:00:00Z''",
        THEN conjunct2, rule_format, OF h, THEN conjunct1] .
  have frame: "snd ?r = exampleWorld\<lparr>customers := customers (snd ?r)\<rparr>"
    by fact
  have "appointments (snd ?r) = appointments exampleWorld"
    using arg_cong[OF frame, of appointments] by simp
  moreover have "appointment_services (snd ?r) = appointment_services exampleWorld"
    using arg_cong[OF frame, of appointment_services] by simp
  ultimately show ?thesis using h by simp
qed

text \<open>
  The claim as first stated fails where it says that the failed request performs no net
  write: the request above is answered 500 and leaves a new customer row.
\<close>

theorem C4_failed_booking_keeps_customer:
  "fst (createAppointment exampleEnv
          (noBookingFaults\<lparr>services_insert_err := Some ''insert failed''\<rparr>) 1
          (exampleRequest ''+15550199'' ''2024-06-01T12:00:00Z'') exampleWorld)
     = Reply 500 (ErrorBody ''insert failed'')
   \<and> customers exampleWorld = [exampleCustomer]
   \<and> customers (snd (createAppointment exampleEnv
          (noBookingFaults\<lparr>services_insert_err := Some ''insert failed''\<rparr>) 1
          (exampleRequest ''+15550199'' ''2024-06-01T12:00:00Z'') exampleWorld))
     = [exampleCustomer,
        \<lparr>cust_id = 2, cust_business_id = 1, phone = ''+15550199'', cust_name = None\<rparr>]"
  unfolding example_failed_items by (simp add: exampleWorld_def)

section \<open>The capacity check of a booking (claim C1)\<close>

lemma utcMidnight_bounds: "utcMidnight t \<le> t" "t < utcMidnight t + MS_PER_DAY"
  unfolding utcMidnight_def MS_PER_DAY_def by simp_all

lemma foldl_plus: "foldl (\<lambda>sum s. sum + g s) a xs = a + sum_list (map g xs)" for a :: int
  by (induction xs arbitrary: a) simp_all

lemma totalDuration_sum:
  "totalDuration sv =
     sum_list (map (\<lambda>i. case item_duration_minutes i of None \<Rightarrow> 0 | Some d \<Rightarrow> d) sv)"
  unfolding totalDuration_def by (simp add: foldl_plus)

lemma maxPerSlotOf_Some:
  "maxPerSlotOf (Some biz) =
     (case settings biz of
        None \<Rightarrow> 1
      | Some st \<Rightarrow> (case max_appointments_per_slot st of None \<Rightarrow> 1 | Some m \<Rightarrow> m))"
  by (simp add: maxPerSlotOf_def)

lemma fetchBusiness_Inr:
  "(fetchBusiness err businessId w = Inr biz) =
     (err = None \<and> filter (\<lambda>b. biz_id b = businessId) (businesses w) = [biz])"
  unfolding fetchBusiness_def single_def by (auto split: option.splits list.splits)

lemma slotIndex_eq:
  "minutesToSlotIndex (startMinutesOf t) = (getUTCHours t * 60 + getUTCMinutes t) div 15"
  unfolding minutesToSlotIndex_def js_floor_div_def SLOT_SIZE_MINUTES_def startMinutesOf_def ..

lemma fetchDayAppointments_day:
  assumes "readsAsUTC e s t" "noLateStart businessId (utcMidnight t) w"
  shows "fetchDayAppointments e None businessId s None w =
           Inr (dayAppointments businessId (utcMidnight t) w)"
proof -
  let ?day = "utcMidnight t"
  have late: "appointment_time a \<le> ?day + 86399000"
    if "a \<in> set (dayAppointments businessId ?day w)" for a
    using assms(2) that unfolding noLateStart_def list_all_iff by blast
  have "filter (\<lambda>a. business_id a = businessId \<and> status a = ''scheduled''
                   \<and> ?day \<le> appointment_time a \<and> appointment_time a \<le> ?day + 86399000)
          (appointments w) = dayAppointments businessId ?day w"
    unfolding dayAppointments_def
  proof (rule filter_cong[OF refl])
    fix a assume mem: "a \<in> set (appointments w)"
    show "(business_id a = businessId \<and> status a = ''scheduled''
             \<and> ?day \<le> appointment_time a \<and> appointment_time a \<le> ?day + 86399000)
        = (business_id a = businessId \<and> status a = ''scheduled''
             \<and> ?day \<le> appointment_time a \<and> appointment_time a < ?day + MS_PER_DAY)"
    proof
      assume "business_id a = businessId \<and> status a = ''scheduled''
             \<and> ?day \<le> appointment_time a \<and> appointment_time a \<le> ?day + 86399000"
      then show "business_id a = businessId \<and> status a = ''scheduled''
             \<and> ?day \<le> appointment_time a \<and> appointment_time a < ?day + MS_PER_DAY"
        by (simp add: MS_PER_DAY_def)
    next
      assume r: "business_id a = businessId \<and> status a = ''scheduled''
             \<and> ?day \<le> appointment_time a \<and> appointment_time a < ?day + MS_PER_DAY"
      with mem have "a \<in> set (dayAppointments businessId ?day w)"
        unfolding dayAppointments_def by simp
      from late[OF this] r show "business_id a = businessId \<and> status a = ''scheduled''
             \<and> ?day \<le> appointment_time a \<and> appointment_time a \<le> ?day + 86399000"
        by simp
    qed
  qed
  then show ?thesis
    using assms(1) unfolding fetchDayAppointments_def readsAsUTC_def dayStart_def dayEnd_def
    by simp
qed

lemma fetchDayAppointments_answers:
  "fetchDayAppointments e err businessId s ex w = Inr rows \<Longrightarrow> err = None"
  unfolding fetchDayAppointments_def by (cases err) simp_all

lemma slotMinutesOf_reads: "readsAsUTC e s t \<Longrightarrow> slotMinutesOf e s = Some (startMinutesOf t)"
  unfolding readsAsUTC_def slotMinutesOf_def by simp

lemma load_le_rows: "loadOf (buildSlotLoadMap rows) k \<le> int (length rows)"
  unfolding loadOf_buildSlotLoadMap by simp

lemma load_all_cover:
  assumes "\<And>r. r \<in> set rows \<Longrightarrow> s \<in> set (slotsOfAppointment r)"
  shows "loadOf (buildSlotLoadMap rows) s = int (length rows)"
proof -
  have "filter (\<lambda>a. s \<in> set (slotsOfAppointment a)) rows = rows"
    using assms by (simp add: filter_id_conv)
  then show ?thesis unfolding loadOf_buildSlotLoadMap by simp
qed

lemma js_ceil_div_pos: "0 < d \<Longrightarrow> 1 \<le> js_ceil_div d 15"
  unfolding js_ceil_div_def by presburger

lemma start_slot_in_range:
  "0 < d \<Longrightarrow> minutesToSlotIndex m \<in> set (getSlotRange m d)"
  using js_ceil_div_pos[of d]
  unfolding set_getSlotRange minutesToSlotIndex_def js_floor_div_def SLOT_SIZE_MINUTES_def
  by simp

lemma capacityCheck_iff:
  "capacityCheck slotLoad m d k = (\<forall>x\<in>set (getSlotRange m d). loadOf slotLoad x < k)"
  unfolding capacityCheck_isAvailable isAvailable_def by (simp add: list_all_iff)

lemma findOrCreateCustomer_ok:
  assumes "customer_insert_err f = None"
  obtains c w1 where "findOrCreateCustomer f businessId ph nm w = Inr (c, w1)"
    "appointments w1 = appointments w" "businesses w1 = businesses w"
    "w1 = w\<lparr>customers := customers w1\<rparr>"
proof -
  have "\<exists>p. findOrCreateCustomer f businessId ph nm w = Inr p"
    unfolding findOrCreateCustomer_def Let_def using assms
    by (simp split: option.splits)
  then obtain p where p: "findOrCreateCustomer f businessId ph nm w = Inr p" ..
  obtain c w1 where cw: "p = (c, w1)" by (cases p)
  have r: "findOrCreateCustomer f businessId ph nm w = Inr (c, w1)"
    unfolding p cw ..
  have fr: "w1 = w\<lparr>customers := customers w1\<rparr>"
    by (rule findOrCreateCustomer_frame[OF r])
  have "appointments w1 = appointments w" "businesses w1 = businesses w"
    using arg_cong[OF fr, of appointments] arg_cong[OF fr, of businesses] by simp_all
  with r show ?thesis using fr by (rule that)
qed

lemma persistAppointment_ok:
  assumes "appointment_insert_err f = None" "services_insert_err f = None"
  shows "\<exists>appt w'. persistAppointment e f businessId biz c sv d t slot combo w =
             (Reply 200 (AppointmentBody appt), w')
           \<and> appointments w' = appointments w @ [appt]
           \<and> businesses w' = businesses w
           \<and> business_id appt = businessId \<and> status appt = ''scheduled''
           \<and> appointment_time appt = t \<and> duration_minutes appt = d"
  unfolding persistAppointment_def Let_def using assms
  by (simp add: sendAndLogSystemMessage_tables)

lemma bookForCustomer_accept:
  assumes "business_select_err f = None"
    "appointment_insert_err f = None" "services_insert_err f = None"
    and "fetchBusiness None businessId w = Inr biz"
    and "fetchDayAppointments e (appointments_select_err f) businessId s None w = Inr rows"
    and "slotMinutesOf e s = Some m" "timestamptz e s = Inr t"
    and "capacityCheck (buildSlotLoadMap rows) m d (maxPerSlotOf (Some biz))"
  shows "\<exists>appt w'. bookForCustomer e f businessId c sv d s combo w =
             (Reply 200 (AppointmentBody appt), w')
           \<and> appointments w' = appointments w @ [appt]
           \<and> businesses w' = businesses w
           \<and> business_id appt = businessId \<and> status appt = ''scheduled''
           \<and> appointment_time appt = t \<and> duration_minutes appt = d"
proof -
  have "bookForCustomer e f businessId c sv d s combo w =
          persistAppointment e f businessId biz c sv d t (Some m) combo w"
    unfolding bookForCustomer_def Let_def capacityAt_def using assms(1,4-8) by simp
  then show ?thesis using persistAppointment_ok[OF assms(2,3)] by simp
qed

lemma bookForCustomer_reject:
  assumes "business_select_err f = None"
    and "fetchBusiness None businessId w = Inr biz"
    and "fetchDayAppointments e (appointments_select_err f) businessId s None w = Inr rows"
    and "slotMinutesOf e s = Some m"
    and "\<not> capacityCheck (buildSlotLoadMap rows) m d (maxPerSlotOf (Some biz))"
  shows "bookForCustomer e f businessId c sv d s combo w =
           (Reply 409 (ErrorBody ''Selected time slot is fully booked''), w)"
  unfolding bookForCustomer_def Let_def capacityAt_def using assms by simp

lemma requestsSlotE:
  assumes "requestsSlot e day s req"
  obtains ph str t sv where "req_phone req = Some ph" "req_appointment_utc_time req = Some str"
    "req_services req = Some sv" "ph \<noteq> []" "str \<noteq> []" "sv \<noteq> []" "0 < totalDuration sv"
    "readsAsUTC e str t" "utcMidnight t = day" "t \<le> day + 86399000"
    "minutesToSlotIndex (startMinutesOf t) = s"
  using assms unfolding requestsSlot_def totalDuration_sum slotIndex_eq
  by (auto split: option.splits)

lemma createAppointment_valid:
  assumes "req_phone req = Some ph" "req_appointment_utc_time req = Some str"
    "req_services req = Some sv" "ph \<noteq> []" "str \<noteq> []" "sv \<noteq> []" "0 < totalDuration sv"
    and "findOrCreateCustomer f businessId ph (req_name req) w = Inr (c, w1)"
  shows "createAppointment e f businessId req w =
     bookForCustomer e f businessId c sv (totalDuration sv) str (req_combo_id req) w1"
  unfolding createAppointment_def using assms by simp

lemma fetchBusiness_businesses:
  "businesses w' = businesses w \<Longrightarrow> fetchBusiness err businessId w' = fetchBusiness err businessId w"
  unfolding fetchBusiness_def by (simp split: option.splits)

lemma dayAppointments_appointments:
  "appointments w' = appointments w \<Longrightarrow>
   dayAppointments businessId day w' = dayAppointments businessId day w"
  unfolding dayAppointments_def by simp

lemma capacity_of_slotHolds:
  assumes inv: "slotHolds businessId day s w j"
    and d: "0 < d" and m: "minutesToSlotIndex m = s"
  shows "capacityCheck (buildSlotLoadMap (dayAppointments businessId day w)) m d k = (int j < k)"
proof -
  let ?rows = "dayAppointments businessId day w"
  from inv have len: "length ?rows = j"
    and rows: "\<And>r. r \<in> set ?rows \<Longrightarrow>
        minutesToSlotIndex (startMinutesOf (appointment_time r)) = s \<and> 0 < duration_minutes r"
    unfolding slotHolds_def by (auto simp: list_all_iff)
  have cover: "s \<in> set (slotsOfAppointment r)" if "r \<in> set ?rows" for r
    using rows[OF that] start_slot_in_range[of "duration_minutes r" "startMinutesOf (appointment_time r)"]
    unfolding slotsOfAppointment_def by simp
  have at_s: "loadOf (buildSlotLoadMap ?rows) s = int j"
    using load_all_cover[of ?rows s] cover len by simp
  have s_in: "s \<in> set (getSlotRange m d)"
    using start_slot_in_range[OF d, of m] m by simp
  show ?thesis
  proof
    assume "capacityCheck (buildSlotLoadMap ?rows) m d k"
    then have "loadOf (buildSlotLoadMap ?rows) s < k"
      unfolding capacityCheck_iff using s_in by blast
    then show "int j < k" unfolding at_s .
  next
    assume jk: "int j < k"
    show "capacityCheck (buildSlotLoadMap ?rows) m d k"
      unfolding capacityCheck_iff
    proof
      fix x
      have "loadOf (buildSlotLoadMap ?rows) x \<le> int j"
        using load_le_rows[of ?rows x] len by simp
      with jk show "loadOf (buildSlotLoadMap ?rows) x < k" by simp
    qed
  qed
qed

lemma slotHolds_noLateStart:
  "slotHolds businessId day s w j \<Longrightarrow> noLateStart businessId day w"
  unfolding slotHolds_def noLateStart_def by (auto simp: list_all_iff)

lemma booking_step:
  assumes inv: "slotHolds businessId day s w j" and ok: "answersAll f"
    and rq: "requestsSlot e day s req" and biz: "fetchBusiness None businessId w = Inr biz"
  shows "\<exists>b w'. createAppointment e f businessId req w =
            (Reply (if int j < maxPerSlotOf (Some biz) then 200 else 409) b, w')
     \<and> slotHolds businessId day s w' (if int j < maxPerSlotOf (Some biz) then Suc j else j)
     \<and> fetchBusiness None businessId w' = Inr biz
     \<and> length (appointments w') =
         length (appointments w) + (if int j < maxPerSlotOf (Some biz) then 1 else 0)"
proof -
  let ?k = "maxPerSlotOf (Some biz)"
  from rq obtain ph str t sv where r: "req_phone req = Some ph"
    "req_appointment_utc_time req = Some str"
    "req_services req = Some sv" "ph \<noteq> []" "str \<noteq> []" "sv \<noteq> []" "0 < totalDuration sv"
    and rd: "readsAsUTC e str t" and day: "utcMidnight t = day" and early: "t \<le> day + 86399000"
    and slot: "minutesToSlotIndex (startMinutesOf t) = s"
    by (rule requestsSlotE)
  from ok have f: "customer_insert_err f = None" "business_select_err f = None"
    "appointments_select_err f = None" "appointment_insert_err f = None"
    "services_insert_err f = None"
    unfolding answersAll_def by simp_all
  obtain c w1 where
    c: "findOrCreateCustomer f businessId ph (req_name req) w = Inr (c, w1)"
    and same: "appointments w1 = appointments w" "businesses w1 = businesses w"
    by (rule findOrCreateCustomer_ok[OF f(1)])
  have run: "createAppointment e f businessId req w =
     bookForCustomer e f businessId c sv (totalDuration sv) str (req_combo_id req) w1"
    by (rule createAppointment_valid[OF r c])
  have biz1: "fetchBusiness None businessId w1 = Inr biz"
    using fetchBusiness_businesses[OF same(2)] biz by simp
  have rows1: "dayAppointments businessId day w1 = dayAppointments businessId day w"
    by (rule dayAppointments_appointments[OF same(1)])
  have inv1: "slotHolds businessId day s w1 j"
    using inv unfolding slotHolds_def rows1 .
  have fetch: "fetchDayAppointments e (appointments_select_err f) businessId str None w1 =
      Inr (dayAppointments businessId day w1)"
    using fetchDayAppointments_day[OF rd, of businessId w1] slotHolds_noLateStart[OF inv1]
    unfolding day f(3) by simp
  have sm: "slotMinutesOf e str = Some (startMinutesOf t)"
    by (rule slotMinutesOf_reads[OF rd])
  have ts: "timestamptz e str = Inr t"
    using rd unfolding readsAsUTC_def by simp
  have cap: "capacityCheck (buildSlotLoadMap (dayAppointments businessId day w1))
           (startMinutesOf t) (totalDuration sv) ?k = (int j < ?k)"
    by (rule capacity_of_slotHolds[OF inv1 r(7) slot])
  show ?thesis
  proof (cases "int j < ?k")
    case True
    with cap have "capacityCheck (buildSlotLoadMap (dayAppointments businessId day w1))
           (startMinutesOf t) (totalDuration sv) ?k" by simp
    from bookForCustomer_accept[OF f(2,4,5) biz1 fetch sm ts this, of c sv "req_combo_id req"]
    obtain appt w' where a: "bookForCustomer e f businessId c sv (totalDuration sv) str (req_combo_id req) w1 =
             (Reply 200 (AppointmentBody appt), w')"
       "appointments w' = appointments w1 @ [appt]" "businesses w' = businesses w1"
       "business_id appt = businessId" "status appt = ''scheduled''"
       "appointment_time appt = t" "duration_minutes appt = totalDuration sv"
      by blast
    have "day \<le> t" "t < day + MS_PER_DAY"
      using utcMidnight_bounds[of t] day by simp_all
    then have rows': "dayAppointments businessId day w' = dayAppointments businessId day w @ [appt]"
      unfolding dayAppointments_def a(2) same(1) using a(4-6) by simp
    have "slotHolds businessId day s w' (Suc j)"
      using inv unfolding slotHolds_def rows' using a(6,7) r(7) slot early by simp
    moreover have "fetchBusiness None businessId w' = Inr biz"
      using fetchBusiness_businesses[OF a(3)] biz1 by simp
    moreover have "length (appointments w') = length (appointments w) + 1"
      unfolding a(2) same(1) by simp
    ultimately show ?thesis unfolding run a(1) using True by simp
  next
    case False
    with cap have "\<not> capacityCheck (buildSlotLoadMap (dayAppointments businessId day w1))
           (startMinutesOf t) (totalDuration sv) ?k" by simp
    from bookForCustomer_reject[OF f(2) biz1 fetch sm this, of c sv "req_combo_id req"]
    have "bookForCustomer e f businessId c sv (totalDuration sv) str (req_combo_id req) w1 =
           (Reply 409 (ErrorBody ''Selected time slot is fully booked''), w1)" .
    then show ?thesis unfolding run using False inv1 biz1 same(1) by simp
  qed
qed

lemma upt_Suc_eq: "[0..<Suc n] = 0 # map Suc [0..<n]"
  by (simp add: upt_conv_Cons map_Suc_upt del: upt_Suc)

lemma map_upt_shift:
  "map (\<lambda>i. g (j + i)) [0..<Suc n] = g j # map (\<lambda>i. g (Suc j + i)) [0..<n]"
  unfolding upt_Suc_eq by (simp add: comp_def)

lemma filter_upt_shift:
  "length (filter (\<lambda>i. P (j + i)) [0..<Suc n]) =
     (if P j then 1 else 0) + length (filter (\<lambda>i. P (Suc j + i)) [0..<n])"
  unfolding upt_Suc_eq by (simp add: filter_map comp_def)

lemma createAppointments_codes:
  assumes "slotHolds businessId day s w j"
    and "list_all (\<lambda>(f, req). answersAll f \<and> requestsSlot e day s req) rqs"
    and "fetchBusiness None businessId w = Inr biz"
  shows "map replyCode (fst (createAppointments e businessId rqs w)) =
           map (\<lambda>i. if int (j + i) < maxPerSlotOf (Some biz) then 200 else 409) [0..<length rqs]
       \<and> length (appointments (snd (createAppointments e businessId rqs w))) =
           length (appointments w)
           + length (filter (\<lambda>i. int (j + i) < maxPerSlotOf (Some biz)) [0..<length rqs])"
  using assms
proof (induction rqs arbitrary: w j)
  case Nil
  then show ?case by simp
next
  case (Cons p rqs)
  obtain f req where p: "p = (f, req)" by (cases p)
  let ?k = "maxPerSlotOf (Some biz)"
  from Cons.prems(2) p have ok: "answersAll f" "requestsSlot e day s req"
    and rest: "list_all (\<lambda>(f, req). answersAll f \<and> requestsSlot e day s req) rqs"
    by simp_all
  from booking_step[OF Cons.prems(1) ok Cons.prems(3)] obtain b w' where
    st: "createAppointment e f businessId req w = (Reply (if int j < ?k then 200 else 409) b, w')"
        "slotHolds businessId day s w' (if int j < ?k then Suc j else j)"
        "fetchBusiness None businessId w' = Inr biz"
        "length (appointments w') = length (appointments w) + (if int j < ?k then 1 else 0)"
    by blast
  note ih = Cons.IH[OF st(2) rest st(3)]
  have run: "createAppointments e businessId (p # rqs) w =
      (Reply (if int j < ?k then 200 else 409) b # fst (createAppointments e businessId rqs w'),
       snd (createAppointments e businessId rqs w'))"
    unfolding p by (simp add: st(1) split: prod.splits)
  have codes: "map (\<lambda>i. if int (j + i) < ?k then 200 else 409) [0..<Suc (length rqs)] =
      (if int j < ?k then 200 else 409)
        # map (\<lambda>i. if int (Suc j + i) < ?k then 200 else (409::nat)) [0..<length rqs]"
    by (rule map_upt_shift[of "\<lambda>m. if int m < ?k then 200 else 409" j "length rqs"])
  have count: "length (filter (\<lambda>i. int (j + i) < ?k) [0..<Suc (length rqs)]) =
      (if int j < ?k then 1 else 0)
        + length (filter (\<lambda>i. int (Suc j + i) < ?k) [0..<length rqs])"
    by (rule filter_upt_shift[of "\<lambda>m. int m < ?k" j "length rqs"])
  have len: "length (p # rqs) = Suc (length rqs)" by simp
  have head: "replyCode (Reply (if int j < ?k then 200 else 409) b) = (if int j < ?k then 200 else 409)"
    by (simp add: replyCode_def)
  show ?case
  proof (cases "int j < ?k")
    case True
    from ih True have ih': "map replyCode (fst (createAppointments e businessId rqs w')) =
           map (\<lambda>i. if int (Suc j + i) < ?k then 200 else 409) [0..<length rqs]"
       "length (appointments (snd (createAppointments e businessId rqs w'))) =
           length (appointments w')
           + length (filter (\<lambda>i. int (Suc j + i) < ?k) [0..<length rqs])"
      by simp_all
    show ?thesis
      unfolding run len codes count fst_conv snd_conv list.map head ih'
      using True st(4) by simp
  next
    case False
    then have later: "\<And>i. (int (j + i) < ?k) = False" "\<And>i. (int (Suc j + i) < ?k) = False"
      by simp_all
    from ih False have ih': "map replyCode (fst (createAppointments e businessId rqs w')) =
           map (\<lambda>i. if int (j + i) < ?k then 200 else 409) [0..<length rqs]"
       "length (appointments (snd (createAppointments e businessId rqs w'))) =
           length (appointments w')
           + length (filter (\<lambda>i. int (j + i) < ?k) [0..<length rqs])"
      by simp_all
    show ?thesis
      unfolding run len codes count fst_conv snd_conv list.map head ih'
      using False st(4) by (simp add: later)
  qed
qed

lemma bookForCustomer_200:
  assumes "fst (bookForCustomer e f businessId c sv d s combo w) = Reply 200 b"
  shows "\<exists>biz rows. fetchBusiness (business_select_err f) businessId w = Inr biz
      \<and> fetchDayAppointments e (appointments_select_err f) businessId s None w = Inr rows
      \<and> capacityAt (buildSlotLoadMap rows) (slotMinutesOf e s) d (maxPerSlotOf (Some biz))"
  using assms unfolding bookForCustomer_def Let_def
  by (auto split: sum.splits if_splits)

lemma createAppointment_200_free:
  assumes ok: "fst (createAppointment e f businessId req w) = Reply 200 b"
    and str: "req_appointment_utc_time req = Some s"
    and rd: "readsAsUTC e s t" and nl: "noLateStart businessId (utcMidnight t) w"
  shows "\<exists>sv biz. req_services req = Some sv
      \<and> fetchBusiness (business_select_err f) businessId w = Inr biz
      \<and> (\<forall>x\<in>set (getSlotRange (startMinutesOf t) (totalDuration sv)).
            loadOf (buildSlotLoadMap (dayAppointments businessId (utcMidnight t) w)) x
              < maxPerSlotOf (Some biz))"
proof -
  from ok str obtain ph sv c w1 where
    r: "req_phone req = Some ph" "req_services req = Some sv"
    and c: "findOrCreateCustomer f businessId ph (req_name req) w = Inr (c, w1)"
    and bk: "fst (bookForCustomer e f businessId c sv (totalDuration sv) s (req_combo_id req) w1)
              = Reply 200 b"
    unfolding createAppointment_def
    by (auto split: option.splits sum.splits if_splits prod.splits)
  have fr: "w1 = w\<lparr>customers := customers w1\<rparr>"
    by (rule findOrCreateCustomer_frame[OF c])
  have same: "appointments w1 = appointments w" "businesses w1 = businesses w"
    using arg_cong[OF fr, of appointments] arg_cong[OF fr, of businesses] by simp_all
  from bookForCustomer_200[OF bk] obtain biz rows where
    b: "fetchBusiness (business_select_err f) businessId w1 = Inr biz"
       "fetchDayAppointments e (appointments_select_err f) businessId s None w1 = Inr rows"
       "capacityAt (buildSlotLoadMap rows) (slotMinutesOf e s) (totalDuration sv)
          (maxPerSlotOf (Some biz))"
    by (elim exE conjE)
  have none: "appointments_select_err f = None"
    by (rule fetchDayAppointments_answers[OF b(2)])
  have "fetchDayAppointments e None businessId s None w1 =
          Inr (dayAppointments businessId (utcMidnight t) w)"
    using fetchDayAppointments_day[OF rd nl]
    unfolding fetchDayAppointments_appointments[OF same(1)] .
  with b(2) have rows: "rows = dayAppointments businessId (utcMidnight t) w"
    unfolding none by simp
  have "fetchBusiness (business_select_err f) businessId w = Inr biz"
    using b(1) fetchBusiness_businesses[OF same(2)] by simp
  moreover have "\<forall>x\<in>set (getSlotRange (startMinutesOf t) (totalDuration sv)).
            loadOf (buildSlotLoadMap (dayAppointments businessId (utcMidnight t) w)) x
              < maxPerSlotOf (Some biz)"
    using b(3) unfolding slotMinutesOf_reads[OF rd] capacityAt_def rows
    by (simp add: capacityCheck_iff)
  ultimately show ?thesis using r by simp
qed

lemma createAppointment_full:
  assumes r: "req_phone req = Some ph" "req_appointment_utc_time req = Some s"
    "req_services req = Some sv" "ph \<noteq> []" "s \<noteq> []" "sv \<noteq> []" "0 < totalDuration sv"
    and rd: "readsAsUTC e s t" and nl: "noLateStart businessId (utcMidnight t) w"
    and f: "customer_insert_err f = None" "appointments_select_err f = None"
    and biz: "fetchBusiness (business_select_err f) businessId w = Inr biz"
    and full: "\<exists>x\<in>set (getSlotRange (startMinutesOf t) (totalDuration sv)).
            maxPerSlotOf (Some biz)
              \<le> loadOf (buildSlotLoadMap (dayAppointments businessId (utcMidnight t) w)) x"
  shows "fst (createAppointment e f businessId req w) =
           Reply 409 (ErrorBody ''Selected time slot is fully booked'')
       \<and> appointments (snd (createAppointment e f businessId req w)) = appointments w
       \<and> appointment_services (snd (createAppointment e f businessId req w))
           = appointment_services w"
proof -
  obtain c w1 where
    c: "findOrCreateCustomer f businessId ph (req_name req) w = Inr (c, w1)"
    and same: "appointments w1 = appointments w" "businesses w1 = businesses w"
    and fr: "w1 = w\<lparr>customers := customers w1\<rparr>"
    by (rule findOrCreateCustomer_ok[OF f(1)])
  have run: "createAppointment e f businessId req w =
     bookForCustomer e f businessId c sv (totalDuration sv) s (req_combo_id req) w1"
    by (rule createAppointment_valid[OF r c])
  have bse: "business_select_err f = None"
    using biz unfolding fetchBusiness_def by (auto split: option.splits)
  have biz1: "fetchBusiness None businessId w1 = Inr biz"
    using fetchBusiness_businesses[OF same(2)] biz bse by simp
  have fetch: "fetchDayAppointments e (appointments_select_err f) businessId s None w1 =
          Inr (dayAppointments businessId (utcMidnight t) w)"
    using fetchDayAppointments_day[OF rd nl]
    unfolding fetchDayAppointments_appointments[OF same(1)] f(2) .
  have "\<not> capacityCheck (buildSlotLoadMap (dayAppointments businessId (utcMidnight t) w))
           (startMinutesOf t) (totalDuration sv) (maxPerSlotOf (Some biz))"
    unfolding capacityCheck_iff using full by (simp add: not_less)
  from bookForCustomer_reject[OF bse biz1 fetch slotMinutesOf_reads[OF rd] this,
      of c sv "req_combo_id req"]
  have "createAppointment e f businessId req w =
           (Reply 409 (ErrorBody ''Selected time slot is fully booked''), w1)"
    unfolding run .
  moreover have "appointment_services w1 = appointment_services w"
    using arg_cong[OF fr, of appointment_services] by simp
  ultimately show ?thesis using same(1) by simp
qed

lemma codes_first_k:
  "map (\<lambda>i. if int (0 + i) < int k then 200 else (409::nat)) [0..<Suc k] = replicate k 200 @ [409]"
proof -
  have "map (\<lambda>i. if int (0 + i) < int k then 200 else (409::nat)) [0..<k] = map (\<lambda>i. 200) [0..<k]"
    by (rule map_cong) simp_all
  then show ?thesis by (simp add: map_replicate_const)
qed

lemma count_first_k:
  "length (filter (\<lambda>i. int (0 + i) < int k) [0..<Suc k]) = k"
proof -
  have "filter (\<lambda>i. int (0 + i) < int k) [0..<k] = [0..<k]"
    by (simp add: filter_id_conv)
  then show ?thesis by simp
qed

lemma createAppointments_same_slot:
  assumes biz: "fetchBusiness None businessId w = Inr biz"
    and k: "maxPerSlotOf (Some biz) = int k"
    and empty: "dayAppointments businessId day w = []"
    and n: "length rqs = Suc k"
    and rqs: "list_all (\<lambda>(f, req). answersAll f \<and> requestsSlot e day s req) rqs"
  shows "map replyCode (fst (createAppointments e businessId rqs w)) = replicate k 200 @ [409]
       \<and> length (appointments (snd (createAppointments e businessId rqs w)))
           = length (appointments w) + k"
proof -
  have inv: "slotHolds businessId day s w 0"
    unfolding slotHolds_def empty by simp
  from createAppointments_codes[OF inv rqs biz]
  show ?thesis unfolding k n codes_first_k count_first_k .
qed

lemma example_slot_full:
  "\<not> capacityCheck (buildSlotLoadMap [exampleAppointment]) 795 30 1"
proof -
  have "(53::int) \<in> set (getSlotRange 795 30)"
    by (simp add: set_getSlotRange js_ceil_div_def)
  moreover have "\<not> loadOf (buildSlotLoadMap [exampleAppointment]) 53 < 1"
    by (simp add: loadOf_buildSlotLoadMap slotsOfAppointment_def set_getSlotRange
          js_ceil_div_def exampleAppointment_def startMinutesOf_def getUTCHours_def
          getUTCMinutes_def)
  ultimately show ?thesis unfolding capacityCheck_iff by blast
qed

lemma example_full_slot:
  "createAppointment exampleEnv noBookingFaults 1
     (exampleRequest ''+15550199'' ''2024-06-01T13:15:00Z'') exampleWorld =
   (Reply 409 (ErrorBody ''Selected time slot is fully booked''),
    exampleWorld\<lparr>customers := [exampleCustomer,
       \<lparr>cust_id = 2, cust_business_id = 1, phone = ''+15550199'', cust_name = None\<rparr>]\<rparr>)"
  unfolding createAppointment_def bookForCustomer_def
      findOrCreateCustomer_def fetchBusiness_def
  by (simp add: example_eval example_slot_full[unfolded exampleAppointment_def One_nat_def])

lemma example_slots_free:
  "capacityCheck (buildSlotLoadMap [exampleAppointment]) 1439 30 1"
  "capacityCheck (buildSlotLoadMap []) 780 30 1"
  "capacityCheck (buildSlotLoadMap []) 795 30 1"
  unfolding capacityCheck_isAvailable isAvailable_iff
  by (simp_all add: loadOf_buildSlotLoadMap slotsOfAppointment_def set_getSlotRange
          js_ceil_div_def exampleAppointment_def startMinutesOf_def getUTCHours_def
          getUTCMinutes_def)

text \<open>
  The day window ends at 23:59:59.000: a row whose instant lies in the last 999 ms of its
  UTC day is not among the rows the next booking of that day reads. With one appointment per
  slot, two bookings for 23:59:59.500 are both answered 200.
\<close>

lemma example_last_second:
  "map replyCode (fst (createAppointments exampleEnv 1
      [(noBookingFaults, exampleRequest ''+15550100'' ''2024-06-01T23:59:59.500Z''),
       (noBookingFaults, exampleRequest ''+15550100'' ''2024-06-01T23:59:59.500Z'')]
      exampleWorld)) = [200, 200]"
  unfolding createAppointments.simps createAppointment_def bookForCustomer_def persistAppointment_def
      findOrCreateCustomer_def fetchBusiness_def sendAndLogSystemMessage_def sendWhatsAppMessage_def
  by (simp add: example_eval replyCode_def example_slots_free[unfolded exampleAppointment_def One_nat_def])

text \<open>
  The day window is cut from the string, the slot is taken from the instant. A time
  written with an offset from UTC can name another day than the UTC day of its instant:
  \<open>2024-06-02T01:15:00+12:00\<close> is 13:15 UTC of 2024-06-01, in the slot that the example
  appointment fills, but the window read is that of 2024-06-02, and the booking, which is
  refused when the same instant is written in UTC, is answered 200.
\<close>

lemma example_offset_string:
  "newDate exampleEnv ''2024-06-02T01:15:00+12:00'' = newDate exampleEnv ''2024-06-01T13:15:00Z''
   \<and> fst (createAppointment exampleEnv noBookingFaults 1
      (exampleRequest ''+15550199'' ''2024-06-02T01:15:00+12:00'') exampleWorld) =
     Reply 200 (AppointmentBody
       \<lparr>appt_id = 2, business_id = 1, customer_id = 2, appointment_time = 1717247700000,
        slot_minutes = Some 795, duration_minutes = 30, status = ''scheduled'',
        combo_id = None, service = None, archived_at = None\<rparr>)
   \<and> fst (createAppointment exampleEnv noBookingFaults 1
      (exampleRequest ''+15550199'' ''2024-06-01T13:15:00Z'') exampleWorld) =
     Reply 409 (ErrorBody ''Selected time slot is fully booked'')"
  unfolding example_full_slot
  unfolding createAppointment_def bookForCustomer_def persistAppointment_def
      findOrCreateCustomer_def fetchBusiness_def sendAndLogSystemMessage_def sendWhatsAppMessage_def
  by (simp add: example_eval example_slots_free)

text \<open>
  Claim C1, as amended. The load of a slot is the number of scheduled appointments of the
  business on the UTC day of the request whose range holds the slot; the range of the
  request runs from its UTC minute of the day over the sum of the durations of its
  services; the maximum per slot is \<open>max_appointments_per_slot\<close> of the settings of the
  business, 1 when unset. Take a request whose time string is written in UTC, and a day
  none of whose scheduled appointments starts after 23:59:59.000. (1) The booking is
  answered 200 only if every slot of its range has a load below the maximum. (2) When the
  request has a phone, a time, services whose durations sum to more than 0, the store
  answers the insert of the customer and the reads, and some slot of the range has reached
  the maximum, the answer is 409 \<open>Selected time slot is fully booked\<close> and no appointment
  row and no line item is written (the customer row of step 1 is). (3) With
  \<open>max_appointments_per_slot = k\<close>, a day without scheduled appointments and a store
  that answers, \<open>k + 1\<close> such requests whose start minutes lie in one slot of that day,
  at instants not after 23:59:59.000, are answered 200 for the first \<open>k\<close> and 409 for the
  last, and exactly \<open>k\<close> appointment rows are written.
\<close>

theorem C1_capacity_all_or_nothing:
  "(\<forall>b. fst (createAppointment e f businessId req w) = Reply 200 b
        \<and> req_appointment_utc_time req = Some s \<and> readsAsUTC e s t
        \<and> noLateStart businessId (utcMidnight t) w \<longrightarrow>
      (\<exists>sv biz. req_services req = Some sv
         \<and> filter (\<lambda>x. biz_id x = businessId) (businesses w) = [biz]
         \<and> (\<forall>x\<in>set (getSlotRange (getUTCHours t * 60 + getUTCMinutes t)
                      (sum_list (map (\<lambda>i. case item_duration_minutes i of None \<Rightarrow> 0 | Some d \<Rightarrow> d) sv))).
               loadOf (buildSlotLoadMap (dayAppointments businessId (utcMidnight t) w)) x
                 < (case settings biz of None \<Rightarrow> 1 | Some st \<Rightarrow> (case max_appointments_per_slot st of None \<Rightarrow> 1 | Some m \<Rightarrow> m)))))
   \<and> (req_phone req = Some ph \<and> ph \<noteq> [] \<and> req_appointment_utc_time req = Some s \<and> s \<noteq> []
        \<and> readsAsUTC e s t \<and> noLateStart businessId (utcMidnight t) w
        \<and> req_services req = Some sv \<and> sv \<noteq> []
        \<and> 0 < sum_list (map (\<lambda>i. case item_duration_minutes i of None \<Rightarrow> 0 | Some d \<Rightarrow> d) sv)
        \<and> customer_insert_err f = None \<and> business_select_err f = None
        \<and> appointments_select_err f = None
        \<and> filter (\<lambda>x. biz_id x = businessId) (businesses w) = [biz]
        \<and> (\<exists>x\<in>set (getSlotRange (getUTCHours t * 60 + getUTCMinutes t)
                      (sum_list (map (\<lambda>i. case item_duration_minutes i of None \<Rightarrow> 0 | Some d \<Rightarrow> d) sv))).
              (case settings biz of None \<Rightarrow> 1 | Some st \<Rightarrow> (case max_appointments_per_slot st of None \<Rightarrow> 1 | Some m \<Rightarrow> m))
                \<le> loadOf (buildSlotLoadMap (dayAppointments businessId (utcMidnight t) w)) x)
      \<longrightarrow>
        fst (createAppointment e f businessId req w) =
          Reply 409 (ErrorBody ''Selected time slot is fully booked'')
        \<and> appointments (snd (createAppointment e f businessId req w)) = appointments w
        \<and> appointment_services (snd (createAppointment e f businessId req w))
            = appointment_services w)
   \<and> (filter (\<lambda>x. biz_id x = businessId) (businesses w) = [biz]
        \<and> settings biz = Some cfg \<and> max_appointments_per_slot cfg = Some (int k)
        \<and> dayAppointments businessId day w = [] \<and> length rqs = Suc k
        \<and> list_all (\<lambda>(f, req). answersAll f \<and> requestsSlot e day slot req) rqs
      \<longrightarrow>
        map replyCode (fst (createAppointments e businessId rqs w)) = replicate k 200 @ [409]
        \<and> length (appointments (snd (createAppointments e businessId rqs w)))
            = length (appointments w) + k)"
proof (intro conjI allI impI)
  fix b
  assume h: "fst (createAppointment e f businessId req w) = Reply 200 b
        \<and> req_appointment_utc_time req = Some s \<and> readsAsUTC e s t
        \<and> noLateStart businessId (utcMidnight t) w"
  have "\<exists>sv biz. req_services req = Some sv
      \<and> fetchBusiness (business_select_err f) businessId w = Inr biz
      \<and> (\<forall>x\<in>set (getSlotRange (startMinutesOf t) (totalDuration sv)).
            loadOf (buildSlotLoadMap (dayAppointments businessId (utcMidnight t) w)) x
              < maxPerSlotOf (Some biz))"
    using h by (intro createAppointment_200_free[of e f businessId req w b s t]) simp_all
  then show "\<exists>sv biz. req_services req = Some sv
         \<and> filter (\<lambda>x. biz_id x = businessId) (businesses w) = [biz]
         \<and> (\<forall>x\<in>set (getSlotRange (getUTCHours t * 60 + getUTCMinutes t)
                      (sum_list (map (\<lambda>i. case item_duration_minutes i of None \<Rightarrow> 0 | Some d \<Rightarrow> d) sv))).
               loadOf (buildSlotLoadMap (dayAppointments businessId (utcMidnight t) w)) x
                 < (case settings biz of None \<Rightarrow> 1 | Some st \<Rightarrow> (case max_appointments_per_slot st of None \<Rightarrow> 1 | Some m \<Rightarrow> m)))"
    unfolding fetchBusiness_Inr totalDuration_sum maxPerSlotOf_Some startMinutesOf_def
    by blast
next
  assume h: "req_phone req = Some ph \<and> ph \<noteq> [] \<and> req_appointment_utc_time req = Some s \<and> s \<noteq> []
        \<and> readsAsUTC e s t \<and> noLateStart businessId (utcMidnight t) w
        \<and> req_services req = Some sv \<and> sv \<noteq> []
        \<and> 0 < sum_list (map (\<lambda>i. case item_duration_minutes i of None \<Rightarrow> 0 | Some d \<Rightarrow> d) sv)
        \<and> customer_insert_err f = None \<and> business_select_err f = None
        \<and> appointments_select_err f = None
        \<and> filter (\<lambda>x. biz_id x = businessId) (businesses w) = [biz]
        \<and> (\<exists>x\<in>set (getSlotRange (getUTCHours t * 60 + getUTCMinutes t)
                      (sum_list (map (\<lambda>i. case item_duration_minutes i of None \<Rightarrow> 0 | Some d \<Rightarrow> d) sv))).
              (case settings biz of None \<Rightarrow> 1 | Some st \<Rightarrow> (case max_appointments_per_slot st of None \<Rightarrow> 1 | Some m \<Rightarrow> m))
                \<le> loadOf (buildSlotLoadMap (dayAppointments businessId (utcMidnight t) w)) x)"
  then have biz: "fetchBusiness (business_select_err f) businessId w = Inr biz"
    unfolding fetchBusiness_Inr by simp
  from h have pos: "0 < totalDuration sv"
    unfolding totalDuration_sum by simp
  from h have over: "\<exists>x\<in>set (getSlotRange (startMinutesOf t) (totalDuration sv)).
            maxPerSlotOf (Some biz)
              \<le> loadOf (buildSlotLoadMap (dayAppointments businessId (utcMidnight t) w)) x"
    unfolding totalDuration_sum maxPerSlotOf_Some startMinutesOf_def by simp
  have full: "fst (createAppointment e f businessId req w) =
          Reply 409 (ErrorBody ''Selected time slot is fully booked'')
        \<and> appointments (snd (createAppointment e f businessId req w)) = appointments w
        \<and> appointment_services (snd (createAppointment e f businessId req w))
            = appointment_services w"
    using h biz pos over
    by (intro createAppointment_full[of req ph s sv e t businessId w f biz]) simp_all
  from full show "fst (createAppointment e f businessId req w) =
          Reply 409 (ErrorBody ''Selected time slot is fully booked'')" by simp
  from full show "appointments (snd (createAppointment e f businessId req w)) = appointments w"
    by simp
  from full show "appointment_services (snd (createAppointment e f businessId req w))
            = appointment_services w" by simp
next
  assume h: "filter (\<lambda>x. biz_id x = businessId) (businesses w) = [biz]
        \<and> settings biz = Some cfg \<and> max_appointments_per_slot cfg = Some (int k)
        \<and> dayAppointments businessId day w = [] \<and> length rqs = Suc k
        \<and> list_all (\<lambda>(f, req). answersAll f \<and> requestsSlot e day slot req) rqs"
  then have biz: "fetchBusiness None businessId w = Inr biz"
    unfolding fetchBusiness_Inr by simp
  from h have k: "maxPerSlotOf (Some biz) = int k"
    unfolding maxPerSlotOf_Some by simp
  have sq: "map replyCode (fst (createAppointments e businessId rqs w)) = replicate k 200 @ [409]
        \<and> length (appointments (snd (createAppointments e businessId rqs w)))
            = length (appointments w) + k"
    using h biz k
    by (intro createAppointments_same_slot[of businessId w biz k day rqs e slot]) simp_all
  from sq show "map replyCode (fst (createAppointments e businessId rqs w))
      = replicate k 200 @ [409]" by simp
  from sq show "length (appointments (snd (createAppointments e businessId rqs w)))
            = length (appointments w) + k" by simp
qed

lemma example_reads_utc:
  "readsAsUTC exampleEnv ''2024-06-01T12:00:00Z'' 1717243200000"
  "readsAsUTC exampleEnv ''2024-06-01T12:30:00Z'' 1717245000000"
  "readsAsUTC exampleEnv ''2024-06-02T13:00:00Z'' 1717333200000"
  by (simp_all add: readsAsUTC_def exampleEnv_reads isoInstant_values
        utcMidnight_def MS_PER_DAY_def)

lemma example_days:
  "utcMidnight 1717243200000 = 1717200000000"
  "utcMidnight 1717245000000 = 1717200000000"
  "utcMidnight 1717333200000 = 1717286400000"
  "dayAppointments 1 1717200000000 exampleWorld = [exampleAppointment]"
  "dayAppointments 1 1717286400000 (exampleWorld\<lparr>businesses := bs\<rparr>) = []"
  "noLateStart 1 1717200000000 exampleWorld"
  by (simp_all add: utcMidnight_def MS_PER_DAY_def dayAppointments_def noLateStart_def
        exampleWorld_def exampleAppointment_def)

text \<open>
  Instances. With at most two appointments per slot, three requests for 13:00 UTC of
  2024-06-02 get 200, 200 and 409, and two rows are written. With at most one, a request
  for 12:30 UTC of 2024-06-01 with services of 20 and 25 minutes reaches the slot from
  13:00, which the example appointment fills, and gets 409; the request for 12:00 UTC of
  that day got 200, and its slots were free.
\<close>

theorem C1_capacity_all_or_nothing_witness:
  "map replyCode (fst (createAppointments exampleEnv 1
      [(noBookingFaults, exampleRequest ''+15550100'' ''2024-06-02T13:00:00Z''),
       (noBookingFaults, exampleRequest ''+15550199'' ''2024-06-02T13:00:00Z''),
       (noBookingFaults, exampleRequest ''+15550100'' ''2024-06-02T13:00:00Z'')]
      (exampleWorld\<lparr>businesses := [exampleBusiness\<lparr>settings :=
          Some \<lparr>reminder_24h = None, reminder_2h = None, no_show_grace_minutes = None,
                max_appointments_per_slot = Some 2\<rparr>\<rparr>]\<rparr>)))
     = [200, 200, 409]
   \<and> length (appointments (snd (createAppointments exampleEnv 1
      [(noBookingFaults, exampleRequest ''+15550100'' ''2024-06-02T13:00:00Z''),
       (noBookingFaults, exampleRequest ''+15550199'' ''2024-06-02T13:00:00Z''),
       (noBookingFaults, exampleRequest ''+15550100'' ''2024-06-02T13:00:00Z'')]
      (exampleWorld\<lparr>businesses := [exampleBusiness\<lparr>settings :=
          Some \<lparr>reminder_24h = None, reminder_2h = None, no_show_grace_minutes = None,
                max_appointments_per_slot = Some 2\<rparr>\<rparr>]\<rparr>)))) = 3
   \<and> fst (createAppointment exampleEnv noBookingFaults 1
          \<lparr>req_phone = Some ''+15550199'', req_name = None,
            req_services = Some [\<lparr>item_service_id = 1, item_duration_minutes = Some 20\<rparr>,
                                 \<lparr>item_service_id = 2, item_duration_minutes = Some 25\<rparr>],
            req_appointment_utc_time = Some ''2024-06-01T12:30:00Z'', req_combo_id = None\<rparr> exampleWorld)
       = Reply 409 (ErrorBody ''Selected time slot is fully booked'')
   \<and> appointments (snd (createAppointment exampleEnv noBookingFaults 1
          \<lparr>req_phone = Some ''+15550199'', req_name = None,
            req_services = Some [\<lparr>item_service_id = 1, item_duration_minutes = Some 20\<rparr>,
                                 \<lparr>item_service_id = 2, item_duration_minutes = Some 25\<rparr>],
            req_appointment_utc_time = Some ''2024-06-01T12:30:00Z'', req_combo_id = None\<rparr> exampleWorld))
       = appointments exampleWorld
   \<and> fst (createAppointment exampleEnv noBookingFaults 1
          (exampleRequest ''+15550100'' ''2024-06-01T12:00:00Z'') exampleWorld)
       = Reply 200 (AppointmentBody
           \<lparr>appt_id = 2, business_id = 1, customer_id = 1, appointment_time = 1717243200000,
            slot_minutes = Some 720, duration_minutes = 30, status = ''scheduled'',
            combo_id = None, service = None, archived_at = None\<rparr>)
   \<and> (\<exists>sv biz.
         req_services (exampleRequest ''+15550100'' ''2024-06-01T12:00:00Z'') = Some sv
         \<and> filter (\<lambda>x. biz_id x = 1) (businesses exampleWorld) = [biz]
         \<and> list_all
              (\<lambda>x. loadOf (buildSlotLoadMap (dayAppointments 1 1717200000000 exampleWorld)) x
                     < (case settings biz of None \<Rightarrow> 1 | Some st \<Rightarrow> (case max_appointments_per_slot st of None \<Rightarrow> 1 | Some m \<Rightarrow> m)))
              (getSlotRange 720
                 (sum_list (map (\<lambda>i. case item_duration_minutes i of None \<Rightarrow> 0 | Some d \<Rightarrow> d) sv))))"
proof -
  let ?cfg = "\<lparr>reminder_24h = None, reminder_2h = None, no_show_grace_minutes = None,
                max_appointments_per_slot = Some 2\<rparr>"
  let ?b2 = "exampleBusiness\<lparr>settings := Some ?cfg\<rparr>"
  let ?w2 = "exampleWorld\<lparr>businesses := [?b2]\<rparr>"
  let ?rqs = "[(noBookingFaults, exampleRequest ''+15550100'' ''2024-06-02T13:00:00Z''),
       (noBookingFaults, exampleRequest ''+15550199'' ''2024-06-02T13:00:00Z''),
       (noBookingFaults, exampleRequest ''+15550100'' ''2024-06-02T13:00:00Z'')]"
  let ?full = "\<lparr>req_phone = Some ''+15550199'', req_name = None,
            req_services = Some [\<lparr>item_service_id = 1, item_duration_minutes = Some 20\<rparr>,
                                 \<lparr>item_service_id = 2, item_duration_minutes = Some 25\<rparr>],
            req_appointment_utc_time = Some ''2024-06-01T12:30:00Z'', req_combo_id = None\<rparr>"
  let ?sv = "[\<lparr>item_service_id = 1, item_duration_minutes = Some 20\<rparr>,
          \<lparr>item_service_id = 2, item_duration_minutes = Some 25\<rparr>]"
  let ?past = "exampleRequest ''+15550100'' ''2024-06-01T12:00:00Z''"
  have biz: "filter (\<lambda>x. biz_id x = 1) (businesses exampleWorld) = [exampleBusiness]"
    by (simp add: exampleWorld_def exampleBusiness_def)
  have biz2: "filter (\<lambda>x. biz_id x = 1) (businesses ?w2) = [?b2]"
    by (simp add: exampleBusiness_def)
  have minutes: "getUTCHours 1717333200000 * 60 + getUTCMinutes 1717333200000 = 780"
    "getUTCHours 1717245000000 * 60 + getUTCMinutes 1717245000000 = 750"
    "getUTCHours 1717243200000 * 60 + getUTCMinutes 1717243200000 = 720"
    by (simp_all add: getUTCHours_def getUTCMinutes_def)
  have rq: "requestsSlot exampleEnv 1717286400000 52 (exampleRequest ph ''2024-06-02T13:00:00Z'')"
    if "ph \<noteq> []" for ph
    using that example_reads_utc(3)
    by (simp add: requestsSlot_def exampleRequest_def exampleEnv_reads
          isoInstant_values example_days minutes)
  have seq: "filter (\<lambda>x. biz_id x = 1) (businesses ?w2) = [?b2]
        \<and> settings ?b2 = Some ?cfg \<and> max_appointments_per_slot ?cfg = Some (int 2)
        \<and> dayAppointments 1 1717286400000 ?w2 = [] \<and> length ?rqs = Suc 2
        \<and> list_all (\<lambda>(f, req). answersAll f \<and> requestsSlot exampleEnv 1717286400000 52 req) ?rqs"
    using biz2 rq[of "''+15550100''"] rq[of "''+15550199''"] example_days(5)[of "[?b2]"]
    by (simp add: answersAll_def noBookingFaults_def)
  have total: "sum_list (map (\<lambda>i. case item_duration_minutes i of None \<Rightarrow> 0 | Some d \<Rightarrow> d) ?sv) = 45"
    by simp
  have in_range: "(52::int) \<in> set (getSlotRange 750 45)"
    by (simp add: set_getSlotRange js_ceil_div_def)
  have load: "(1::int) \<le> loadOf (buildSlotLoadMap [exampleAppointment]) 52"
    by (simp add: loadOf_buildSlotLoadMap slotsOfAppointment_def set_getSlotRange
          js_ceil_div_def exampleAppointment_def startMinutesOf_def getUTCHours_def
          getUTCMinutes_def)
  have max1: "(case settings exampleBusiness of None \<Rightarrow> 1 | Some st \<Rightarrow> (case max_appointments_per_slot st of None \<Rightarrow> 1 | Some m \<Rightarrow> m)) = 1"
    by (simp add: exampleBusiness_def)
  have full: "req_phone ?full = Some ''+15550199'' \<and> ''+15550199'' \<noteq> []
        \<and> req_appointment_utc_time ?full = Some ''2024-06-01T12:30:00Z''
        \<and> ''2024-06-01T12:30:00Z'' \<noteq> []
        \<and> readsAsUTC exampleEnv ''2024-06-01T12:30:00Z'' 1717245000000
        \<and> noLateStart 1 (utcMidnight 1717245000000) exampleWorld
        \<and> req_services ?full = Some ?sv \<and> ?sv \<noteq> []
        \<and> 0 < sum_list (map (\<lambda>i. case item_duration_minutes i of None \<Rightarrow> 0 | Some d \<Rightarrow> d) ?sv)
        \<and> customer_insert_err noBookingFaults = None \<and> business_select_err noBookingFaults = None
        \<and> appointments_select_err noBookingFaults = None
        \<and> filter (\<lambda>x. biz_id x = 1) (businesses exampleWorld) = [exampleBusiness]
        \<and> (\<exists>x\<in>set (getSlotRange
                      (getUTCHours 1717245000000 * 60 + getUTCMinutes 1717245000000)
                      (sum_list (map (\<lambda>i. case item_duration_minutes i of None \<Rightarrow> 0 | Some d \<Rightarrow> d) ?sv))).
              (case settings exampleBusiness of None \<Rightarrow> 1 | Some st \<Rightarrow> (case max_appointments_per_slot st of None \<Rightarrow> 1 | Some m \<Rightarrow> m))
                \<le> loadOf (buildSlotLoadMap
                      (dayAppointments 1 (utcMidnight 1717245000000) exampleWorld)) x)"
    unfolding total minutes max1 example_days
    using biz in_range load example_reads_utc(2) example_days(6)
    by (auto simp: noBookingFaults_def)
  have past200: "fst (createAppointment exampleEnv noBookingFaults 1 ?past exampleWorld) =
      Reply 200 (AppointmentBody
      \<lparr>appt_id = 2, business_id = 1, customer_id = 1, appointment_time = 1717243200000,
            slot_minutes = Some 720, duration_minutes = 30, status = ''scheduled'',
            combo_id = None, service = None, archived_at = None\<rparr>)"
    unfolding example_past_booking by simp
  have past: "fst (createAppointment exampleEnv noBookingFaults 1 ?past exampleWorld) =
      Reply 200 (AppointmentBody
      \<lparr>appt_id = 2, business_id = 1, customer_id = 1, appointment_time = 1717243200000,
            slot_minutes = Some 720, duration_minutes = 30, status = ''scheduled'',
            combo_id = None, service = None, archived_at = None\<rparr>)
        \<and> req_appointment_utc_time ?past = Some ''2024-06-01T12:00:00Z''
        \<and> readsAsUTC exampleEnv ''2024-06-01T12:00:00Z'' 1717243200000
        \<and> noLateStart 1 (utcMidnight 1717243200000) exampleWorld"
    unfolding example_days using past200 example_reads_utc(1) example_days(6)
    by (simp add: exampleRequest_def)
  have a: "map replyCode (fst (createAppointments exampleEnv 1 ?rqs ?w2))
             = replicate 2 200 @ [409]
        \<and> length (appointments (snd (createAppointments exampleEnv 1 ?rqs ?w2)))
            = length (appointments ?w2) + 2"
    by (rule C1_capacity_all_or_nothing[where e = exampleEnv and businessId = 1
          and w = ?w2 and biz = ?b2 and cfg = ?cfg and k = 2 and day = 1717286400000
          and slot = 52 and rqs = ?rqs,
          THEN conjunct2, THEN conjunct2, rule_format, OF seq])
  have b: "fst (createAppointment exampleEnv noBookingFaults 1 ?full exampleWorld) =
          Reply 409 (ErrorBody ''Selected time slot is fully booked'')
        \<and> appointments (snd (createAppointment exampleEnv noBookingFaults 1 ?full exampleWorld))
            = appointments exampleWorld
        \<and> appointment_services
             (snd (createAppointment exampleEnv noBookingFaults 1 ?full exampleWorld))
            = appointment_services exampleWorld"
    by (rule C1_capacity_all_or_nothing[where e = exampleEnv and businessId = 1
          and w = exampleWorld and biz = exampleBusiness and f = noBookingFaults
          and req = ?full,
          THEN conjunct2, THEN conjunct1, rule_format, OF full])
  have c: "\<exists>sv biz. req_services ?past = Some sv
         \<and> filter (\<lambda>x. biz_id x = 1) (businesses exampleWorld) = [biz]
         \<and> (\<forall>x\<in>set (getSlotRange
                      (getUTCHours 1717243200000 * 60 + getUTCMinutes 1717243200000)
                      (sum_list (map (\<lambda>i. case item_duration_minutes i of None \<Rightarrow> 0 | Some d \<Rightarrow> d) sv))).
               loadOf (buildSlotLoadMap
                   (dayAppointments 1 (utcMidnight 1717243200000) exampleWorld)) x
                 < (case settings biz of None \<Rightarrow> 1 | Some st \<Rightarrow> (case max_appointments_per_slot st of None \<Rightarrow> 1 | Some m \<Rightarrow> m)))"
    by (rule C1_capacity_all_or_nothing[where e = exampleEnv and businessId = 1
          and w = exampleWorld and f = noBookingFaults and req = ?past,
          THEN conjunct1, rule_format, OF past])
  from a have "map replyCode (fst (createAppointments exampleEnv 1 ?rqs ?w2)) = [200, 200, 409]"
    "length (appointments (snd (createAppointments exampleEnv 1 ?rqs ?w2))) = 3"
    by (simp_all add: exampleWorld_def numeral_2_eq_2)
  with b c past200 show ?thesis
    unfolding minutes example_days by (simp add: list_all_iff)
qed

text \<open>
  The claim as first stated fails where it says that the rejected request makes no write:
  the request for 13:15 UTC comes from a new phone, is answered 409, and leaves a new
  customer row.
\<close>

theorem C1_rejected_booking_writes_customer:
  "fst (createAppointment exampleEnv noBookingFaults 1
          (exampleRequest ''+15550199'' ''2024-06-01T13:15:00Z'') exampleWorld)
     = Reply 409 (ErrorBody ''Selected time slot is fully booked'')
   \<and> customers exampleWorld = [exampleCustomer]
   \<and> customers (snd (createAppointment exampleEnv noBookingFaults 1
          (exampleRequest ''+15550199'' ''2024-06-01T13:15:00Z'') exampleWorld))
     = [exampleCustomer,
        \<lparr>cust_id = 2, cust_business_id = 1, phone = ''+15550199'', cust_name = None\<rparr>]"
  unfolding example_full_slot by (simp add: exampleWorld_def)


section \<open>The automation scan fires a rule once (claim C3)\<close>

lemma fireRule_cases:
  "fireRule e f b rule appt (w, ex) =
     (if \<not> au_log_select_err f (appt_id appt) (rule_id rule)
          \<and> (\<exists>l. logRowsFor (appt_id appt) (rule_id rule) w = [l])
      then Finished (w, ex)
      else (case single (filter (\<lambda>c. cust_id c = customer_id appt) (customers w)) of
              None \<Rightarrow> Aborted (w, ex)
            | Some c \<Rightarrow>
                (if fst (sendWhatsAppMessage e (phone c) (reminderText e b rule appt) w) = ''submitted''
                 then Finished
                   (if au_log_insert_err f (appt_id appt) (rule_id rule)
                    then snd (sendWhatsAppMessage e (phone c) (reminderText e b rule appt) w)
                    else (snd (sendWhatsAppMessage e (phone c) (reminderText e b rule appt) w))
                         \<lparr>automation_logs :=
                            automation_logs (snd (sendWhatsAppMessage e (phone c) (reminderText e b rule appt) w)) @
                              [\<lparr>log_appointment_id = appt_id appt, log_rule_id = rule_id rule\<rparr>]\<rparr>,
                    ex @ [(rule_id rule, appt_id appt, biz_id b)])
                 else Finished (snd (sendWhatsAppMessage e (phone c) (reminderText e b rule appt) w), ex))))"
  unfolding fireRule_def Let_def reminderText_def single_def
  by (auto split: option.splits list.splits prod.splits)


lemma keepsOnce_refl: "keepsOnce a r s s"
  unfolding keepsOnce_def by simp

lemma keepsOnce_trans: "keepsOnce a r s s1 \<Longrightarrow> keepsOnce a r s1 s2 \<Longrightarrow> keepsOnce a r s s2"
  unfolding keepsOnce_def by auto

lemma logsFor_send:
  "logsFor a r (snd (sendWhatsAppMessage e p t w)) = logsFor a r w"
  unfolding logsFor_def logRowsFor_def by (simp add: sendWhatsAppMessage_tables)

lemma logsFor_insert:
  "logsFor a r (w\<lparr>automation_logs := automation_logs w @
       [\<lparr>log_appointment_id = a', log_rule_id = r'\<rparr>]\<rparr>) =
     logsFor a r w + (if a' = a \<and> r' = r then 1 else 0)"
  unfolding logsFor_def logRowsFor_def by simp

lemma executedFor_append:
  "executedFor a r (ex @ [(r', a', b)]) = executedFor a r ex + (if r' = r \<and> a' = a then 1 else 0)"
  unfolding executedFor_def by simp

lemma logsFor_zero:
  assumes "logsFor a r w \<le> 1" "\<not> (\<exists>l. logRowsFor a r w = [l])"
  shows "logsFor a r w = 0"
proof (cases "logRowsFor a r w")
  case Nil
  then show ?thesis unfolding logsFor_def by simp
next
  case (Cons l ls)
  with assms(1) have "ls = []" unfolding logsFor_def by simp
  with Cons assms(2) show ?thesis by simp
qed

lemma fireRule_keepsOnce:
  assumes sel: "\<not> au_log_select_err f a r" and ins: "\<not> au_log_insert_err f a r"
  shows "keepsOnce a r s (stateOf (fireRule e f b rule appt s))"
proof -
  obtain w ex where s: "s = (w, ex)" by (cases s)
  let ?send = "sendWhatsAppMessage e"
  show ?thesis
  proof (cases "appt_id appt = a \<and> rule_id rule = r")
    case other: False
    show ?thesis
      unfolding s fireRule_cases keepsOnce_def stateOf_def using other
      by (auto split: option.splits simp: logsFor_send logsFor_insert executedFor_append)
  next
    case same: True
    show ?thesis
    proof (cases "\<exists>l. logRowsFor a r w = [l]")
      case True
      then show ?thesis
        unfolding s fireRule_cases keepsOnce_def stateOf_def using same sel
        by (auto split: option.splits)
    next
      case False
      have zero: "logsFor a r w \<le> 1 \<Longrightarrow> logsFor a r w = 0"
        using logsFor_zero[OF _ False] .
      show ?thesis
        unfolding s fireRule_cases keepsOnce_def stateOf_def using same ins False zero
        by (auto split: option.splits simp: logsFor_send logsFor_insert executedFor_append)
    qed
  qed
qed

lemma fireAppointments_keepsOnce:
  assumes "\<not> au_log_select_err f a r" "\<not> au_log_insert_err f a r"
  shows "keepsOnce a r s (stateOf (fireAppointments e f b rule appts s))"
proof (induction appts arbitrary: s)
  case Nil
  show ?case by (simp add: stateOf_def keepsOnce_refl)
next
  case (Cons appt appts)
  have step: "keepsOnce a r s (stateOf (fireRule e f b rule appt s))"
    by (rule fireRule_keepsOnce[OF assms])
  show ?case
  proof (cases "fireRule e f b rule appt s")
    case (Aborted s1)
    with step show ?thesis by (simp add: stateOf_def)
  next
    case (Finished s1)
    with step have "keepsOnce a r s s1" by (simp add: stateOf_def)
    from keepsOnce_trans[OF this Cons.IH[of s1]] Finished show ?thesis by simp
  qed
qed

lemma fireRules_keepsOnce:
  assumes "\<not> au_log_select_err f a r" "\<not> au_log_insert_err f a r"
  shows "keepsOnce a r s (stateOf (fireRules e f b now rules s))"
proof (induction rules arbitrary: s)
  case Nil
  show ?case by (simp add: stateOf_def keepsOnce_refl)
next
  case (Cons rule rules)
  let ?appts = "if au_appointments_select_err f (biz_id b) (rule_id rule) then []
                   else filter (\<lambda>x. business_id x = biz_id b \<and> status x = ''scheduled''
                                    \<and> inWindow now rule x)
                          (appointments (fst s))"
  have step: "keepsOnce a r s (stateOf (fireAppointments e f b rule ?appts s))"
    by (rule fireAppointments_keepsOnce[OF assms])
  show ?case
  proof (cases "fireAppointments e f b rule ?appts s")
    case (Aborted s1)
    with step show ?thesis by (simp add: stateOf_def Let_def)
  next
    case (Finished s1)
    with step have "keepsOnce a r s s1" by (simp add: stateOf_def)
    from keepsOnce_trans[OF this Cons.IH[of s1]] Finished show ?thesis by (simp add: Let_def)
  qed
qed

lemma scanBusinesses_keepsOnce:
  assumes "\<not> au_log_select_err f a r" "\<not> au_log_insert_err f a r"
  shows "keepsOnce a r s (stateOf (scanBusinesses e f bs s))"
proof (induction bs arbitrary: s)
  case Nil
  show ?case by (simp add: stateOf_def keepsOnce_refl)
next
  case (Cons b bs)
  let ?rules = "if au_rules_select_err f (biz_id b) then []
                   else filter (\<lambda>x. rule_business_id x = biz_id b \<and> enabled x)
                          (automation_rules (fst s))"
  have step: "keepsOnce a r s (stateOf (fireRules e f b (clock (fst s)) ?rules s))"
    by (rule fireRules_keepsOnce[OF assms])
  show ?case
  proof (cases "fireRules e f b (clock (fst s)) ?rules s")
    case (Aborted s1)
    with step show ?thesis by (simp add: stateOf_def Let_def)
  next
    case (Finished s1)
    with step have "keepsOnce a r s s1" by (simp add: stateOf_def)
    from keepsOnce_trans[OF this Cons.IH[of s1]] Finished show ?thesis by (simp add: Let_def)
  qed
qed

lemma automationScan_keepsOnce:
  assumes "\<not> au_log_select_err f a r" "\<not> au_log_insert_err f a r"
  shows "keepsOnce a r (w, []) (automationScan e f w)"
proof (cases "au_businesses_select_err f \<or> businesses w = []")
  case True
  then show ?thesis unfolding automationScan_def by (simp add: keepsOnce_refl)
next
  case False
  have "automationScan e f w = stateOf (scanBusinesses e f (businesses w) (w, []))"
    unfolding automationScan_def stateOf_def using False by simp
  then show ?thesis using scanBusinesses_keepsOnce[OF assms, of "(w, [])" e "businesses w"] by simp
qed

lemma two_scans_once:
  assumes l0: "logsFor a r w \<le> 1"
    and f1: "\<not> au_log_select_err f1 a r" "\<not> au_log_insert_err f1 a r"
    and f2: "\<not> au_log_select_err f2 a r" "\<not> au_log_insert_err f2 a r"
  shows "executedFor a r (snd (automationScan e1 f1 w))
          + executedFor a r
              (snd (automationScan e2 f2 ((fst (automationScan e1 f1 w))\<lparr>clock := now2\<rparr>)))
          + logsFor a r w
         = logsFor a r
             (fst (automationScan e2 f2 ((fst (automationScan e1 f1 w))\<lparr>clock := now2\<rparr>)))
     \<and> logsFor a r
          (fst (automationScan e2 f2 ((fst (automationScan e1 f1 w))\<lparr>clock := now2\<rparr>))) \<le> 1"
proof -
  let ?s1 = "automationScan e1 f1 w"
  let ?w1 = "(fst ?s1)\<lparr>clock := now2\<rparr>"
  let ?s2 = "automationScan e2 f2 ?w1"
  have e0: "executedFor a r [] = 0" unfolding executedFor_def by simp
  from automationScan_keepsOnce[OF f1, of w e1] l0
  have a: "logsFor a r (fst ?s1) \<le> 1"
    "executedFor a r (snd ?s1) + logsFor a r w = logsFor a r (fst ?s1)"
    unfolding keepsOnce_def by (simp_all add: e0)
  have l1: "logsFor a r ?w1 = logsFor a r (fst ?s1)"
    unfolding logsFor_def logRowsFor_def by simp
  have a1: "logsFor a r ?w1 \<le> 1"
    using a(1) l1 by simp
  from automationScan_keepsOnce[OF f2, of ?w1 e2] a1
  have b: "logsFor a r (fst ?s2) \<le> 1"
    "executedFor a r (snd ?s2) + logsFor a r ?w1 = logsFor a r (fst ?s2)"
    unfolding keepsOnce_def by (simp_all add: e0)
  from a b l1 show ?thesis by simp
qed

lemma sendWhatsAppMessage_outbox:
  "outbox (snd (sendWhatsAppMessage e p t w)) =
     outbox w @ [(p, t, fst (sendWhatsAppMessage e p t w))]"
  unfolding sendWhatsAppMessage_def Let_def by simp

lemma logRowsFor_send:
  "logRowsFor a r (snd (sendWhatsAppMessage e p t w)) = logRowsFor a r w"
  unfolding logRowsFor_def by (simp add: sendWhatsAppMessage_tables)

lemma fireRule_log_only_on_submitted:
  "(automation_logs (fst (stateOf (fireRule e f b rule appt s))) = automation_logs (fst s)
      \<and> snd (stateOf (fireRule e f b rule appt s)) = snd s)
   \<or> (\<exists>ph text. outbox (fst (stateOf (fireRule e f b rule appt s)))
          = outbox (fst s) @ [(ph, text, ''submitted'')])"
proof -
  obtain w ex where s: "s = (w, ex)" by (cases s)
  show ?thesis
    unfolding s fireRule_cases stateOf_def
    by (auto split: option.splits
          simp: sendWhatsAppMessage_tables sendWhatsAppMessage_outbox)
qed

lemma fireRule_failed_dispatch:
  assumes "logRowsFor (appt_id appt) (rule_id rule) w = []"
    and "single (filter (\<lambda>c. cust_id c = customer_id appt) (customers w)) = Some c"
    and "fst (sendWhatsAppMessage e (phone c) (reminderText e b rule appt) w) \<noteq> ''submitted''"
  shows "fireRule e f b rule appt (w, ex) =
           Finished (snd (sendWhatsAppMessage e (phone c) (reminderText e b rule appt) w), ex)
       \<and> logRowsFor (appt_id appt) (rule_id rule)
            (snd (sendWhatsAppMessage e (phone c) (reminderText e b rule appt) w)) = []
       \<and> outbox (snd (sendWhatsAppMessage e (phone c) (reminderText e b rule appt) w)) =
            outbox w @ [(phone c, reminderText e b rule appt,
              fst (sendWhatsAppMessage e (phone c) (reminderText e b rule appt) w))]"
  unfolding fireRule_cases logRowsFor_send sendWhatsAppMessage_outbox using assms by simp

lemmas scan_eval = automationScan_def fireRule_def sendWhatsAppMessage_def logRowsFor_def
  inWindow_def MS_PER_MINUTE_def single_def exampleWorld_def exampleBusiness_def
  exampleCustomer_def exampleAppointment_def exampleRule_def exampleEnv_def
  noAutomationFaults_def tzOrUTC_def orDefault_def Let_def

lemma example_failed_scan:
  "automationScan (exampleEnv\<lparr>gateway := \<lambda>n. Threw\<rparr>) noAutomationFaults
     (exampleWorld\<lparr>clock := 1717160400000\<rparr>) =
   (exampleWorld\<lparr>clock := 1717160400000,
      outbox := [(''+15550100'', ''Reminder: {{service}} at {{appointment_time}}'', ''failed'')]\<rparr>,
    [])"
  by (simp add: scan_eval)

lemma example_second_scan:
  "automationScan exampleEnv noAutomationFaults
     (exampleWorld\<lparr>clock := 1717160400000,
        outbox := [(''+15550100'', ''Reminder: {{service}} at {{appointment_time}}'', ''failed'')]\<rparr>) =
   (exampleWorld\<lparr>clock := 1717160400000,
      outbox := [(''+15550100'', ''Reminder: {{service}} at {{appointment_time}}'', ''failed''),
                 (''+15550100'', ''Reminder: {{service}} at {{appointment_time}}'', ''submitted'')],
      automation_logs := [\<lparr>log_appointment_id = 1, log_rule_id = 1\<rparr>]\<rparr>,
    [(1, 1, 1)])"
  by (simp add: scan_eval)

lemma example_third_scan:
  "automationScan exampleEnv noAutomationFaults
     (exampleWorld\<lparr>clock := 1717160400000,
      outbox := [(''+15550100'', ''Reminder: {{service}} at {{appointment_time}}'', ''failed''),
                 (''+15550100'', ''Reminder: {{service}} at {{appointment_time}}'', ''submitted'')],
      automation_logs := [\<lparr>log_appointment_id = 1, log_rule_id = 1\<rparr>]\<rparr>) =
   (exampleWorld\<lparr>clock := 1717160400000,
      outbox := [(''+15550100'', ''Reminder: {{service}} at {{appointment_time}}'', ''failed''),
                 (''+15550100'', ''Reminder: {{service}} at {{appointment_time}}'', ''submitted'')],
      automation_logs := [\<lparr>log_appointment_id = 1, log_rule_id = 1\<rparr>]\<rparr>,
    [])"
  by (simp add: scan_eval)


lemma acceptedSince_snoc:
  "n \<le> length calls \<Longrightarrow>
   acceptedSince n (calls @ [(p, t, st)]) =
     acceptedSince n calls @ (if st = ''submitted'' then [(p, t)] else [])"
  unfolding acceptedSince_def by simp

lemma acceptedSince_all: "acceptedSince (length calls) calls = []"
  unfolding acceptedSince_def by simp

lemma single_filter_Some:
  assumes "single (filter P xs) = Some c"
  shows "c \<in> set xs" "P c"
proof -
  from assms have "filter P xs = [c]"
    unfolding single_def by (auto split: list.splits)
  then have "c \<in> set (filter P xs)" by simp
  then show "c \<in> set xs" "P c" by simp_all
qed

lemma tracks_logs:
  "tracks e w0 n (w, ex) \<Longrightarrow> tracks e w0 n (w\<lparr>automation_logs := logs\<rparr>, ex)"
  unfolding tracks_def by simp

lemma fireRule_tracks:
  assumes tr: "tracks e w0 n s"
    and b: "b \<in> set (businesses w0)"
    and r: "rule \<in> set (automation_rules w0)" "rule_business_id rule = biz_id b"
    and a: "appt \<in> set (appointments w0)" "business_id appt = biz_id b"
  shows "tracks e w0 n (stateOf (fireRule e f b rule appt s))"
proof -
  obtain w ex where s: "s = (w, ex)" by (cases s)
  from tr have tabs: "businesses w = businesses w0" "customers w = customers w0"
      "appointments w = appointments w0" "automation_rules w = automation_rules w0"
    and n: "n \<le> length (outbox w)"
    and l2: "list_all2 (lineOf e w0) ex (acceptedSince n (outbox w))"
    unfolding tracks_def s by simp_all
  show ?thesis
  proof (cases "\<not> au_log_select_err f (appt_id appt) (rule_id rule)
          \<and> (\<exists>l. logRowsFor (appt_id appt) (rule_id rule) w = [l])")
    case True
    have "fireRule e f b rule appt (w, ex) = Finished (w, ex)"
      unfolding fireRule_cases if_P[OF True] ..
    with tr show ?thesis unfolding s stateOf_def by simp
  next
    case False
    show ?thesis
    proof (cases "single (filter (\<lambda>c. cust_id c = customer_id appt) (customers w))")
      case None
      have "fireRule e f b rule appt (w, ex) = Aborted (w, ex)"
        unfolding fireRule_cases if_not_P[OF False] None by simp
      with tr show ?thesis unfolding s stateOf_def by simp
    next
      case (Some c)
      let ?text = "reminderText e b rule appt"
      let ?line = "(rule_id rule, appt_id appt, biz_id b)"
      let ?m = "sendWhatsAppMessage e (phone c) ?text w"
      have c: "c \<in> set (customers w0)" "cust_id c = customer_id appt"
        using single_filter_Some[OF Some] tabs(2) by simp_all
      have line: "lineOf e w0 ?line (phone c, ?text)"
        unfolding lineOf_def using b r a c by blast
      have ob: "outbox (snd ?m) = outbox w @ [(phone c, ?text, fst ?m)]"
        by (rule sendWhatsAppMessage_outbox)
      have acc: "acceptedSince n (outbox (snd ?m)) =
          acceptedSince n (outbox w) @ (if fst ?m = ''submitted'' then [(phone c, ?text)] else [])"
        unfolding ob by (rule acceptedSince_snoc[OF n])
      have n': "n \<le> length (outbox (snd ?m))"
        unfolding ob using n by simp
      show ?thesis
      proof (cases "fst ?m = ''submitted''")
        case True
        have eq: "fireRule e f b rule appt (w, ex) =
            Finished (if au_log_insert_err f (appt_id appt) (rule_id rule) then snd ?m
                      else (snd ?m)\<lparr>automation_logs := automation_logs (snd ?m) @
                             [\<lparr>log_appointment_id = appt_id appt, log_rule_id = rule_id rule\<rparr>]\<rparr>,
                      ex @ [?line])"
          unfolding fireRule_cases if_not_P[OF False] Some option.case if_P[OF True] ..
        have l2': "list_all2 (lineOf e w0) (ex @ [?line]) (acceptedSince n (outbox (snd ?m)))"
          unfolding acc using True l2 line by (simp add: list_all2_appendI)
        have t1: "tracks e w0 n (snd ?m, ex @ [?line])"
          unfolding tracks_def using tabs n' l2' by (simp add: sendWhatsAppMessage_tables)
        show ?thesis
        proof (cases "au_log_insert_err f (appt_id appt) (rule_id rule)")
          case True
          with t1 show ?thesis unfolding s eq stateOf_def by simp
        next
          case False
          with tracks_logs[OF t1] show ?thesis unfolding s eq stateOf_def by simp
        qed
      next
        case notsub: False
        have eq: "fireRule e f b rule appt (w, ex) = Finished (snd ?m, ex)"
          unfolding fireRule_cases if_not_P[OF False] Some option.case if_not_P[OF notsub] ..
        have l2': "list_all2 (lineOf e w0) ex (acceptedSince n (outbox (snd ?m)))"
          unfolding acc using notsub l2 by simp
        have "tracks e w0 n (snd ?m, ex)"
          unfolding tracks_def using tabs n' l2' by (simp add: sendWhatsAppMessage_tables)
        then show ?thesis unfolding s eq stateOf_def by simp
      qed
    qed
  qed
qed

lemma fireAppointments_tracks:
  assumes b: "b \<in> set (businesses w0)"
    and r: "rule \<in> set (automation_rules w0)" "rule_business_id rule = biz_id b"
  shows "tracks e w0 n s \<Longrightarrow>
         (\<And>appt. appt \<in> set appts \<Longrightarrow>
            appt \<in> set (appointments w0) \<and> business_id appt = biz_id b) \<Longrightarrow>
         tracks e w0 n (stateOf (fireAppointments e f b rule appts s))"
proof (induction appts arbitrary: s)
  case Nil
  then show ?case by (simp add: stateOf_def)
next
  case (Cons appt appts)
  have here: "appt \<in> set (appointments w0)" "business_id appt = biz_id b"
    using Cons.prems(2)[of appt] by simp_all
  have step: "tracks e w0 n (stateOf (fireRule e f b rule appt s))"
    by (rule fireRule_tracks[OF Cons.prems(1) b r here])
  show ?case
  proof (cases "fireRule e f b rule appt s")
    case (Aborted s1)
    with step show ?thesis by (simp add: stateOf_def)
  next
    case (Finished s1)
    with step have "tracks e w0 n s1" by (simp add: stateOf_def)
    from Cons.IH[OF this] Cons.prems(2) Finished show ?thesis by simp
  qed
qed

lemma fireRules_tracks:
  assumes b: "b \<in> set (businesses w0)"
  shows "tracks e w0 n s \<Longrightarrow>
         (\<And>rule. rule \<in> set rules \<Longrightarrow>
            rule \<in> set (automation_rules w0) \<and> rule_business_id rule = biz_id b) \<Longrightarrow>
         tracks e w0 n (stateOf (fireRules e f b now rules s))"
proof (induction rules arbitrary: s)
  case Nil
  then show ?case by (simp add: stateOf_def)
next
  case (Cons rule rules)
  let ?appts = "if au_appointments_select_err f (biz_id b) (rule_id rule) then []
                   else filter (\<lambda>x. business_id x = biz_id b \<and> status x = ''scheduled''
                                    \<and> inWindow now rule x)
                          (appointments (fst s))"
  have r: "rule \<in> set (automation_rules w0)" "rule_business_id rule = biz_id b"
    using Cons.prems(2)[of rule] by simp_all
  have tab: "appointments (fst s) = appointments w0"
    using Cons.prems(1) unfolding tracks_def by simp
  have mem: "appt \<in> set (appointments w0) \<and> business_id appt = biz_id b"
    if "appt \<in> set ?appts" for appt
    using that unfolding tab by (simp split: if_splits)
  have step: "tracks e w0 n (stateOf (fireAppointments e f b rule ?appts s))"
    by (rule fireAppointments_tracks[OF b r Cons.prems(1) mem])
  show ?case
  proof (cases "fireAppointments e f b rule ?appts s")
    case (Aborted s1)
    with step show ?thesis by (simp add: stateOf_def Let_def)
  next
    case (Finished s1)
    with step have "tracks e w0 n s1" by (simp add: stateOf_def)
    from Cons.IH[OF this] Cons.prems(2) Finished show ?thesis by (simp add: Let_def)
  qed
qed

lemma scanBusinesses_tracks:
  "tracks e w0 n s \<Longrightarrow> set bs \<subseteq> set (businesses w0) \<Longrightarrow>
   tracks e w0 n (stateOf (scanBusinesses e f bs s))"
proof (induction bs arbitrary: s)
  case Nil
  then show ?case by (simp add: stateOf_def)
next
  case (Cons b bs)
  let ?rules = "if au_rules_select_err f (biz_id b) then []
                   else filter (\<lambda>x. rule_business_id x = biz_id b \<and> enabled x)
                          (automation_rules (fst s))"
  have b: "b \<in> set (businesses w0)" and rest: "set bs \<subseteq> set (businesses w0)"
    using Cons.prems(2) by simp_all
  have tab: "automation_rules (fst s) = automation_rules w0"
    using Cons.prems(1) unfolding tracks_def by simp
  have mem: "rule \<in> set (automation_rules w0) \<and> rule_business_id rule = biz_id b"
    if "rule \<in> set ?rules" for rule
    using that unfolding tab by (simp split: if_splits)
  have step: "tracks e w0 n (stateOf (fireRules e f b (clock (fst s)) ?rules s))"
    by (rule fireRules_tracks[OF b Cons.prems(1) mem])
  show ?case
  proof (cases "fireRules e f b (clock (fst s)) ?rules s")
    case (Aborted s1)
    with step show ?thesis by (simp add: stateOf_def Let_def)
  next
    case (Finished s1)
    with step have "tracks e w0 n s1" by (simp add: stateOf_def)
    from Cons.IH[OF this rest] Finished show ?thesis by (simp add: Let_def)
  qed
qed

lemma automationScan_tracks:
  "tracks e w (length (outbox w)) (automationScan e f w)"
proof -
  have start: "tracks e w (length (outbox w)) (w, [])"
    unfolding tracks_def by (simp add: acceptedSince_all)
  show ?thesis
  proof (cases "au_businesses_select_err f \<or> businesses w = []")
    case True
    with start show ?thesis unfolding automationScan_def by simp
  next
    case False
    have "automationScan e f w = stateOf (scanBusinesses e f (businesses w) (w, []))"
      unfolding automationScan_def stateOf_def using False by simp
    then show ?thesis using scanBusinesses_tracks[OF start, of "businesses w" f] by simp
  qed
qed

lemma automationScan_lines:
  "list_all2 (lineOf e w) (snd (automationScan e f w))
     (acceptedSince (length (outbox w)) (outbox (fst (automationScan e f w))))"
  using automationScan_tracks[of e w f] unfolding tracks_def by simp

lemma example_unlogged_scan:
  "automationScan exampleEnv (noAutomationFaults\<lparr>au_log_insert_err := \<lambda>a r. True\<rparr>)
     (exampleWorld\<lparr>clock := 1717160400000\<rparr>) =
   (exampleWorld\<lparr>clock := 1717160400000,
      outbox := [(''+15550100'', ''Reminder: {{service}} at {{appointment_time}}'', ''submitted'')]\<rparr>,
    [(1, 1, 1)])"
  by (simp add: scan_eval)

lemma example_resend_scan:
  "automationScan exampleEnv noAutomationFaults
     (exampleWorld\<lparr>outbox := [(''+15550100'', ''Reminder: {{service}} at {{appointment_time}}'',
                                ''submitted'')],
        clock := 1717160430000\<rparr>) =
   (exampleWorld\<lparr>clock := 1717160430000,
      outbox := [(''+15550100'', ''Reminder: {{service}} at {{appointment_time}}'', ''submitted''),
                 (''+15550100'', ''Reminder: {{service}} at {{appointment_time}}'', ''submitted'')],
      automation_logs := [\<lparr>log_appointment_id = 1, log_rule_id = 1\<rparr>]\<rparr>,
    [(1, 1, 1)])"
  by (simp add: scan_eval)

text \<open>
  Claim C3, as amended. (1) Take a pair (appointment, rule) with at most one log row, and
  two scans, the second from the world the first left, at any reading of the clock, in
  both of which the store answers the read and the insert of the log of the pair (the scan
  reads the result of neither). Then the lines \<open>Rule r executed for appointment a\<close> that
  the two scans write for the pair, together with the log rows there were, are the log rows
  there are, and these are at most one: at most one line is written and at most one log
  row is created. (2) In every scan the messages that the gateway accepted are, one for one
  and in order, the reminders of the pairs of the lines that the scan wrote, each to the
  phone of the customer of its appointment: so with (1) at most one message is sent for the
  pair. (3) One firing either leaves the logs and the written lines as they were, or its
  dispatch was accepted with status \<open>submitted\<close>. (4) When the pair has no log row and
  the dispatch is not accepted, the firing ends with the dispatch recorded and still no log
  row, the state in which the next scan fires the rule again.
\<close>

theorem C3_automation_scan_idempotent:
  "(logsFor a r w \<le> 1
      \<and> \<not> au_log_select_err f1 a r \<and> \<not> au_log_insert_err f1 a r
      \<and> \<not> au_log_select_err f2 a r \<and> \<not> au_log_insert_err f2 a r \<longrightarrow>
      executedFor a r (snd (automationScan e1 f1 w))
        + executedFor a r
            (snd (automationScan e2 f2 ((fst (automationScan e1 f1 w))\<lparr>clock := now2\<rparr>)))
        + logsFor a r w
       = logsFor a r
           (fst (automationScan e2 f2 ((fst (automationScan e1 f1 w))\<lparr>clock := now2\<rparr>)))
      \<and> logsFor a r
           (fst (automationScan e2 f2 ((fst (automationScan e1 f1 w))\<lparr>clock := now2\<rparr>))) \<le> 1)
   \<and> list_all2 (lineOf e w) (snd (automationScan e f w))
        (acceptedSince (length (outbox w)) (outbox (fst (automationScan e f w))))
   \<and> ((automation_logs (fst (stateOf (fireRule e f b rule appt s))) = automation_logs (fst s)
          \<and> snd (stateOf (fireRule e f b rule appt s)) = snd s)
        \<or> (\<exists>ph text. outbox (fst (stateOf (fireRule e f b rule appt s)))
              = outbox (fst s) @ [(ph, text, ''submitted'')]))
   \<and> (logRowsFor (appt_id appt) (rule_id rule) w = []
        \<and> single (filter (\<lambda>c. cust_id c = customer_id appt) (customers w)) = Some c
        \<and> fst (sendWhatsAppMessage e (phone c) (reminderText e b rule appt) w) \<noteq> ''submitted''
      \<longrightarrow>
        fireRule e f b rule appt (w, ex) =
          Finished (snd (sendWhatsAppMessage e (phone c) (reminderText e b rule appt) w), ex)
        \<and> logRowsFor (appt_id appt) (rule_id rule)
             (snd (sendWhatsAppMessage e (phone c) (reminderText e b rule appt) w)) = []
        \<and> outbox (snd (sendWhatsAppMessage e (phone c) (reminderText e b rule appt) w)) =
             outbox w @ [(phone c, reminderText e b rule appt,
               fst (sendWhatsAppMessage e (phone c) (reminderText e b rule appt) w))])"
proof (intro conjI)
  show "logsFor a r w \<le> 1
      \<and> \<not> au_log_select_err f1 a r \<and> \<not> au_log_insert_err f1 a r
      \<and> \<not> au_log_select_err f2 a r \<and> \<not> au_log_insert_err f2 a r \<longrightarrow>
      executedFor a r (snd (automationScan e1 f1 w))
        + executedFor a r
            (snd (automationScan e2 f2 ((fst (automationScan e1 f1 w))\<lparr>clock := now2\<rparr>)))
        + logsFor a r w
       = logsFor a r
           (fst (automationScan e2 f2 ((fst (automationScan e1 f1 w))\<lparr>clock := now2\<rparr>)))
      \<and> logsFor a r
           (fst (automationScan e2 f2 ((fst (automationScan e1 f1 w))\<lparr>clock := now2\<rparr>))) \<le> 1"
    using two_scans_once[of a r w f1 f2 e1 e2 now2] by blast
next
  show "list_all2 (lineOf e w) (snd (automationScan e f w))
        (acceptedSince (length (outbox w)) (outbox (fst (automationScan e f w))))"
    by (rule automationScan_lines)
next
  show "(automation_logs (fst (stateOf (fireRule e f b rule appt s))) = automation_logs (fst s)
          \<and> snd (stateOf (fireRule e f b rule appt s)) = snd s)
        \<or> (\<exists>ph text. outbox (fst (stateOf (fireRule e f b rule appt s)))
              = outbox (fst s) @ [(ph, text, ''submitted'')])"
    by (rule fireRule_log_only_on_submitted)
next
  show "logRowsFor (appt_id appt) (rule_id rule) w = []
        \<and> single (filter (\<lambda>c. cust_id c = customer_id appt) (customers w)) = Some c
        \<and> fst (sendWhatsAppMessage e (phone c) (reminderText e b rule appt) w) \<noteq> ''submitted''
      \<longrightarrow>
        fireRule e f b rule appt (w, ex) =
          Finished (snd (sendWhatsAppMessage e (phone c) (reminderText e b rule appt) w), ex)
        \<and> logRowsFor (appt_id appt) (rule_id rule)
             (snd (sendWhatsAppMessage e (phone c) (reminderText e b rule appt) w)) = []
        \<and> outbox (snd (sendWhatsAppMessage e (phone c) (reminderText e b rule appt) w)) =
             outbox w @ [(phone c, reminderText e b rule appt,
               fst (sendWhatsAppMessage e (phone c) (reminderText e b rule appt) w))]"
    using fireRule_failed_dispatch[of appt rule w c e b f ex] by blast
qed

text \<open>
  Instances: two scans 30 seconds apart, with the example appointment in the window of the
  example rule, in which one message is accepted, one line written and one log row
  created; and one firing while the gateway is down.
\<close>

theorem C3_automation_scan_idempotent_witness:
  "logsFor 1 1 (exampleWorld\<lparr>clock := 1717160400000\<rparr>) \<le> 1
   \<and> executedFor 1 1
        (snd (automationScan exampleEnv noAutomationFaults
                (exampleWorld\<lparr>clock := 1717160400000\<rparr>)))
      + executedFor 1 1
          (snd (automationScan exampleEnv noAutomationFaults
             ((fst (automationScan exampleEnv noAutomationFaults
                      (exampleWorld\<lparr>clock := 1717160400000\<rparr>)))\<lparr>clock := 1717160430000\<rparr>)))
      \<le> 1
   \<and> logsFor 1 1
        (fst (automationScan exampleEnv noAutomationFaults
           ((fst (automationScan exampleEnv noAutomationFaults
                    (exampleWorld\<lparr>clock := 1717160400000\<rparr>)))\<lparr>clock := 1717160430000\<rparr>)))
      \<le> 1
   \<and> list_all2 (lineOf exampleEnv (exampleWorld\<lparr>clock := 1717160400000\<rparr>)) [(1, 1, 1)]
        [(''+15550100'', ''Reminder: {{service}} at {{appointment_time}}'')]
   \<and> fireRule (exampleEnv\<lparr>gateway := \<lambda>n. Threw\<rparr>) noAutomationFaults exampleBusiness
        exampleRule exampleAppointment (exampleWorld, []) =
       Finished (snd (sendWhatsAppMessage (exampleEnv\<lparr>gateway := \<lambda>n. Threw\<rparr>)
                        (phone exampleCustomer)
                        (reminderText (exampleEnv\<lparr>gateway := \<lambda>n. Threw\<rparr>) exampleBusiness
                           exampleRule exampleAppointment)
                        exampleWorld), [])"
proof -
  let ?w0 = "exampleWorld\<lparr>clock := 1717160400000\<rparr>"
  let ?down = "exampleEnv\<lparr>gateway := \<lambda>n. Threw\<rparr>"
  have l0: "logsFor 1 1 ?w0 \<le> 1"
    by (simp add: logsFor_def logRowsFor_def exampleWorld_def)
  have h: "logsFor 1 1 ?w0 \<le> 1
      \<and> \<not> au_log_select_err noAutomationFaults 1 1 \<and> \<not> au_log_insert_err noAutomationFaults 1 1
      \<and> \<not> au_log_select_err noAutomationFaults 1 1 \<and> \<not> au_log_insert_err noAutomationFaults 1 1"
    using l0 by (simp add: noAutomationFaults_def)
  have twice: "executedFor 1 1 (snd (automationScan exampleEnv noAutomationFaults ?w0))
        + executedFor 1 1
            (snd (automationScan exampleEnv noAutomationFaults
               ((fst (automationScan exampleEnv noAutomationFaults ?w0))\<lparr>clock := 1717160430000\<rparr>)))
        + logsFor 1 1 ?w0
       = logsFor 1 1
           (fst (automationScan exampleEnv noAutomationFaults
              ((fst (automationScan exampleEnv noAutomationFaults ?w0))\<lparr>clock := 1717160430000\<rparr>)))
      \<and> logsFor 1 1
           (fst (automationScan exampleEnv noAutomationFaults
              ((fst (automationScan exampleEnv noAutomationFaults ?w0))\<lparr>clock := 1717160430000\<rparr>)))
         \<le> 1"
    by (rule C3_automation_scan_idempotent[where a = 1 and r = 1 and w = ?w0
          and ?f1.0 = noAutomationFaults and ?f2.0 = noAutomationFaults
          and ?e1.0 = exampleEnv and ?e2.0 = exampleEnv and ?now2.0 = 1717160430000,
          THEN conjunct1, rule_format, OF h])
  have scan: "automationScan exampleEnv noAutomationFaults ?w0 =
      (exampleWorld\<lparr>clock := 1717160400000,
         outbox := [(''+15550100'', ''Reminder: {{service}} at {{appointment_time}}'', ''submitted'')],
         automation_logs := [\<lparr>log_appointment_id = 1, log_rule_id = 1\<rparr>]\<rparr>,
       [(1, 1, 1)])"
    by (simp add: scan_eval)
  have "list_all2 (lineOf exampleEnv ?w0) (snd (automationScan exampleEnv noAutomationFaults ?w0))
        (acceptedSince (length (outbox ?w0))
           (outbox (fst (automationScan exampleEnv noAutomationFaults ?w0))))"
    by (rule C3_automation_scan_idempotent[where e = exampleEnv and f = noAutomationFaults
          and w = ?w0, THEN conjunct2, THEN conjunct1])
  then have lines: "list_all2 (lineOf exampleEnv ?w0) [(1, 1, 1)]
        [(''+15550100'', ''Reminder: {{service}} at {{appointment_time}}'')]"
    unfolding scan by (simp add: acceptedSince_def exampleWorld_def)
  have retry_hyp: "logRowsFor (appt_id exampleAppointment) (rule_id exampleRule) exampleWorld = []
        \<and> single (filter (\<lambda>c. cust_id c = customer_id exampleAppointment) (customers exampleWorld))
            = Some exampleCustomer
        \<and> fst (sendWhatsAppMessage ?down (phone exampleCustomer)
                  (reminderText ?down exampleBusiness exampleRule exampleAppointment) exampleWorld)
            \<noteq> ''submitted''"
    by (simp add: logRowsFor_def single_def sendWhatsAppMessage_def exampleWorld_def
          exampleAppointment_def exampleCustomer_def exampleEnv_def Let_def)
  have retry: "fireRule ?down noAutomationFaults exampleBusiness exampleRule exampleAppointment
          (exampleWorld, []) =
       Finished (snd (sendWhatsAppMessage ?down (phone exampleCustomer)
                        (reminderText ?down exampleBusiness exampleRule exampleAppointment)
                        exampleWorld), [])"
    using C3_automation_scan_idempotent[where w = exampleWorld and appt = exampleAppointment
          and rule = exampleRule and c = exampleCustomer and e = ?down and b = exampleBusiness
          and f = noAutomationFaults and ex = "[]",
          THEN conjunct2, THEN conjunct2, THEN conjunct2, rule_format, OF retry_hyp]
    by simp
  from twice l0 lines retry show ?thesis by simp
qed

text \<open>
  The claim as first stated fails when the store does not carry out the insert of the log
  row: the scan does not read the result of the insert, so after an accepted dispatch
  whose log row was not written, the scan 30 seconds later, in the same window, sends the
  same reminder again. Two messages are accepted for the one pair.
\<close>

theorem C3_unwritten_log_sends_twice:
  "acceptedSince 0
     (outbox (fst (automationScan exampleEnv noAutomationFaults
        ((fst (automationScan exampleEnv
                 (noAutomationFaults\<lparr>au_log_insert_err := \<lambda>a r. True\<rparr>)
                 (exampleWorld\<lparr>clock := 1717160400000\<rparr>)))\<lparr>clock := 1717160430000\<rparr>))))
     = [(''+15550100'', ''Reminder: {{service}} at {{appointment_time}}''),
        (''+15550100'', ''Reminder: {{service}} at {{appointment_time}}'')]
   \<and> snd (automationScan exampleEnv (noAutomationFaults\<lparr>au_log_insert_err := \<lambda>a r. True\<rparr>)
            (exampleWorld\<lparr>clock := 1717160400000\<rparr>)) = [(1, 1, 1)]
   \<and> snd (automationScan exampleEnv noAutomationFaults
        ((fst (automationScan exampleEnv
                 (noAutomationFaults\<lparr>au_log_insert_err := \<lambda>a r. True\<rparr>)
                 (exampleWorld\<lparr>clock := 1717160400000\<rparr>)))\<lparr>clock := 1717160430000\<rparr>))
       = [(1, 1, 1)]"
  unfolding example_unlogged_scan
  by (simp add: example_resend_scan acceptedSince_def)

section \<open>The delivery retry (claim C8)\<close>

text \<open>
  What holds of a run: the batch has at most ten messages, each \<open>failed\<close> with a retry
  count below 3; and a message for which \<open>getCustomerPhone\<close> gives a phone ends as
  \<open>sent\<close>, whatever the gateway did.
\<close>

lemma retryBatch_bounds:
  "length (retryBatch f w) \<le> 10
   \<and> list_all (\<lambda>m. msg_status m = ''failed'' \<and> retry_count m < 3) (retryBatch f w)"
proof -
  have "set (take 10 xs) \<subseteq> set xs" for xs :: "message list"
    by (rule set_take_subset)
  then show ?thesis
    unfolding retryBatch_def by (auto simp: list_all_iff dest: in_set_takeD)
qed

lemma retryMessage_marks_sent:
  assumes "getCustomerPhone
             (updateMessageById (rt_mark_retrying_err f (msg_id msg)) (msg_id msg)
                (\<lambda>m. m\<lparr>msg_status := ''retrying''\<rparr>) w)
             (msg_customer_id msg) = Inr ph"
    and "\<not> rt_mark_sent_err f (msg_id msg)"
    and "m \<in> set (messages (retryMessage e getCustomerPhone f msg w))"
    and "msg_id m = msg_id msg"
  shows "msg_status m = ''sent''"
  using assms unfolding retryMessage_def updateMessageById_def Let_def
  by (auto simp: sendWhatsAppMessage_tables split: if_splits)

text \<open>
  Claim C8 says that a resend that fails increments the retry count and restores the
  status \<open>failed\<close>, and that a resend that succeeds marks the message \<open>sent\<close>. The
  first does not hold of the code: with a \<open>getCustomerPhone\<close> that gives the phone and
  a gateway call that throws, \<open>sendWhatsAppMessage\<close> returns \<open>failed\<close> without
  throwing, the status is not read, and the message is marked \<open>sent\<close> with its retry
  count unchanged. In the file as it stands the second does not hold either: the call of
  the undeclared \<open>getCustomerPhone\<close> throws before any send, and the message goes back
  to \<open>failed\<close> with its retry count incremented, also when the gateway would have
  accepted it.
\<close>

theorem C8_failed_resend_marked_sent:
  "retryFailedMessages (exampleEnv\<lparr>gateway := \<lambda>n. Threw\<rparr>) givesPhone noRetryFaults
     (exampleWorld\<lparr>messages := [exampleFailedMessage]\<rparr>) =
   exampleWorld\<lparr>messages := [exampleFailedMessage\<lparr>msg_status := ''sent''\<rparr>],
                 outbox := [(''+15550100'', ''See you soon'', ''failed'')]\<rparr>
   \<and> retryFailedMessages exampleEnv notDeclared noRetryFaults
     (exampleWorld\<lparr>messages := [exampleFailedMessage]\<rparr>) =
   exampleWorld\<lparr>messages := [exampleFailedMessage\<lparr>retry_count := 2,
                    msg_error := Some ''getCustomerPhone is not defined''\<rparr>]\<rparr>"
  unfolding retryFailedMessages_def retryBatch_def retryMessage_def updateMessageById_def
    sendWhatsAppMessage_def
  by (simp add: exampleWorld_def exampleFailedMessage_def exampleEnv_def noRetryFaults_def
        givesPhone_def notDeclared_def Let_def)

end
